(* ===== verification/Prelude.thy ===== *)
theory Prelude
  imports Complex_Main
begin

text \<open>
  Shared vocabulary of the development. The chart component of
  \<^verbatim>\<open>src/src/LiveSP500Canvas.jsx\<close> works on arrays of objects
  \<open>{time, value}\<close>; they are the record \<open>point\<close> below and a series is a list of
  them. JavaScript numbers are modelled as exact reals (no rounding); where the code
  tests for NaN or infinities, the theory that models that code carries the extra
  values explicitly. The collection \<open>series_simps\<close> gathers the evaluation equations
  of the series-level helpers, so that component proofs can say
  \<open>simp add: series_simps\<close>.
\<close>

named_theorems series_simps "evaluation equations of the series helpers"

record point =
  time :: real
  "value" :: real

type_synonym series = "point list"

text \<open>
  \<open>Math.min.apply(null, xs)\<close> and \<open>Math.max.apply(null, xs)\<close> on a non-empty
  array are the least and the greatest element; every call site in the code passes a
  non-empty array, so the model uses \<open>Min\<close> and \<open>Max\<close> of the element set.
\<close>

definition js_min_list :: "real list \<Rightarrow> real" where
  "js_min_list xs = Min (set xs)"

definition js_max_list :: "real list \<Rightarrow> real" where
  "js_max_list xs = Max (set xs)"

lemma js_min_list_le [simp]: "x \<in> set xs \<Longrightarrow> js_min_list xs \<le> x"
  by (simp add: js_min_list_def)

lemma js_max_list_ge [simp]: "x \<in> set xs \<Longrightarrow> x \<le> js_max_list xs"
  by (simp add: js_max_list_def)

lemma js_min_le_max: "xs \<noteq> [] \<Longrightarrow> js_min_list xs \<le> js_max_list xs"
  by (simp add: js_min_list_def js_max_list_def)

lemma js_min_list_in: "xs \<noteq> [] \<Longrightarrow> js_min_list xs \<in> set xs"
  by (simp add: js_min_list_def)

lemma js_max_list_in: "xs \<noteq> [] \<Longrightarrow> js_max_list xs \<in> set xs"
  by (simp add: js_max_list_def)

lemma js_min_max_list_Cons [series_simps]:
  "js_min_list (x # xs) = fold min xs x"
  "js_max_list (x # xs) = fold max xs x"
  unfolding js_min_list_def js_max_list_def
  by (rule Min.set_eq_fold, rule Max.set_eq_fold)

lemma js_min_list_single [simp]: "js_min_list [x] = x"
  by (simp add: js_min_list_def)

lemma js_min_list_Cons_min:
  "xs \<noteq> [] \<Longrightarrow> js_min_list (x # xs) = min x (js_min_list xs)"
  by (simp add: js_min_list_def Min_insert)

text \<open>Generic list facts shared by the components.\<close>

lemma filter_or_all_nonempty [simp]:
  "xs \<noteq> [] \<Longrightarrow> (if filter P xs = [] then xs else filter P xs) \<noteq> []"
  by simp

lemma set_filter_or_all:
  "set (if filter P xs = [] then xs else filter P xs) \<subseteq> set xs"
  by auto

end
