(* ===== verification/JsRuntime.thy ===== *)
theory JsRuntime
  imports Prelude
begin

text \<open>
  The parts of the JavaScript runtime the repository's code relies on, written from the
  ECMAScript specification (they are not code of the repository, so nothing here is
  mapped to source lines): number values with NaN and infinities, \<open>Number(string)\<close>,
  \<open>isFinite\<close>, \<open>String(x)\<close> for integral values, and the string methods
  \<open>indexOf\<close>, \<open>split\<close> with a one-character separator and \<open>replace\<close> of a
  one-character pattern by the empty string, and \<open>Number.prototype.toFixed\<close> with the
  proof that \<open>Number\<close> reads its output back as the rounded value. From the HTML
  standard: the value a number input reports (\<open>number_input_value\<close>), with the proof
  that \<open>Number\<close> converts every such value to a finite number. Finite numbers are
  exact reals.
\<close>

datatype jsnum = Num real | NaN | PosInf | NegInf

fun js_is_finite :: "jsnum \<Rightarrow> bool" where
  "js_is_finite (Num _) = True"
| "js_is_finite _ = False"

subsection \<open>String methods\<close>

text \<open>\<open>s.indexOf(pat)\<close>: the first position at which \<open>pat\<close> occurs, or -1.\<close>

fun js_index_of_from :: "string \<Rightarrow> string \<Rightarrow> nat \<Rightarrow> int" where
  "js_index_of_from [] pat i = (if pat = [] then int i else -1)"
| "js_index_of_from (c # cs) pat i =
     (if take (length pat) (c # cs) = pat then int i else js_index_of_from cs pat (Suc i))"

definition js_index_of :: "string \<Rightarrow> string \<Rightarrow> int" where
  "js_index_of s pat = js_index_of_from s pat 0"

text \<open>\<open>s.split(c)\<close> for a one-character separator \<open>c\<close>.\<close>

fun js_split :: "char \<Rightarrow> string \<Rightarrow> string list" where
  "js_split c [] = [[]]"
| "js_split c (x # xs) =
     (let r = js_split c xs in if x = c then [] # r else (x # hd r) # tl r)"

text \<open>\<open>s.replace(c, "")\<close> with a string pattern: only the first occurrence goes.\<close>

fun js_remove_first :: "char \<Rightarrow> string \<Rightarrow> string" where
  "js_remove_first c [] = []"
| "js_remove_first c (x # xs) = (if x = c then xs else x # js_remove_first c xs)"

subsection \<open>String(n) for natural numbers\<close>

fun string_of_nat :: "nat \<Rightarrow> string" where
  "string_of_nat n =
     (if n < 10 then [char_of (48 + n)]
      else string_of_nat (n div 10) @ [char_of (48 + n mod 10)])"

declare string_of_nat.simps [simp del]

subsection \<open>Number(string)\<close>

text \<open>
  \<open>StringToNumber\<close>: white space is trimmed, the empty string is 0, a decimal
  literal (optional sign, digits with an optional fraction and exponent, or
  \<open>Infinity\<close>) or an unsigned \<open>0x\<close>/\<open>0o\<close>/\<open>0b\<close> literal gives its value,
  anything else is NaN.
\<close>

definition js_is_space :: "char \<Rightarrow> bool" where
  "js_is_space c \<longleftrightarrow> c \<in> {CHR '' '', CHR 0x09, CHR 0x0A, CHR 0x0B, CHR 0x0C, CHR 0x0D}"

definition js_trim :: "string \<Rightarrow> string" where
  "js_trim s = rev (dropWhile js_is_space (rev (dropWhile js_is_space s)))"

text \<open>The value of a character as a digit in base \<open>b\<close> (letters either case), if any.\<close>

definition digit_in_base :: "nat \<Rightarrow> char \<Rightarrow> nat option" where
  "digit_in_base b c =
     (let n = of_char c :: nat;
          d = (if 48 \<le> n \<and> n \<le> 57 then n - 48
               else if 97 \<le> n \<and> n \<le> 122 then n - 87
               else if 65 \<le> n \<and> n \<le> 90 then n - 55 else b)
      in if d < b then Some d else None)"

fun digits_value :: "nat \<Rightarrow> nat \<Rightarrow> string \<Rightarrow> nat option" where
  "digits_value b acc [] = Some acc"
| "digits_value b acc (c # cs) =
     (case digit_in_base b c of None \<Rightarrow> None | Some d \<Rightarrow> digits_value b (acc * b + d) cs)"

definition is_dec_digit :: "char \<Rightarrow> bool" where
  "is_dec_digit c \<longleftrightarrow> 48 \<le> (of_char c :: nat) \<and> (of_char c :: nat) \<le> 57"

text \<open>\<open>StrUnsignedDecimalLiteral\<close> without the \<open>Infinity\<close> case.\<close>

definition parse_exponent :: "string \<Rightarrow> int option" where
  "parse_exponent s =
     (case s of
        [] \<Rightarrow> Some 0
      | e # r \<Rightarrow>
          (if e \<noteq> CHR ''e'' \<and> e \<noteq> CHR ''E'' then None
           else
             let (sg, ds) = (case r of
                               CHR ''+'' # ds \<Rightarrow> (1::int, ds)
                             | CHR ''-'' # ds \<Rightarrow> (-1, ds)
                             | _ \<Rightarrow> (1, r))
             in if ds = [] \<or> \<not> list_all is_dec_digit ds then None
                else map_option (\<lambda>n. sg * int n) (digits_value 10 0 ds)))"

definition parse_unsigned_decimal :: "string \<Rightarrow> real option" where
  "parse_unsigned_decimal s =
     (let ip = takeWhile is_dec_digit s;
          r1 = dropWhile is_dec_digit s;
          (fp, r2) = (case r1 of
                        CHR ''.'' # r \<Rightarrow> (takeWhile is_dec_digit r, dropWhile is_dec_digit r)
                      | _ \<Rightarrow> ([], r1))
      in if ip = [] \<and> fp = [] then None
         else
           (case (digits_value 10 0 (ip @ fp), parse_exponent r2) of
              (Some m, Some e) \<Rightarrow>
                Some (real m / 10 ^ length fp * (if 0 \<le> e then 10 ^ nat e else 1 / 10 ^ nat (- e)))
            | _ \<Rightarrow> None))"

definition parse_unsigned_or_inf :: "string \<Rightarrow> jsnum" where
  "parse_unsigned_or_inf s =
     (if s = ''Infinity'' then PosInf
      else case parse_unsigned_decimal s of None \<Rightarrow> NaN | Some v \<Rightarrow> Num v)"

fun js_negate :: "jsnum \<Rightarrow> jsnum" where
  "js_negate (Num v) = Num (- v)"
| "js_negate PosInf = NegInf"
| "js_negate NegInf = PosInf"
| "js_negate NaN = NaN"

definition parse_radix :: "nat \<Rightarrow> string \<Rightarrow> jsnum" where
  "parse_radix b ds =
     (if ds = [] then NaN else case digits_value b 0 ds of None \<Rightarrow> NaN | Some n \<Rightarrow> Num (real n))"

definition js_string_to_number :: "string \<Rightarrow> jsnum" where
  "js_string_to_number s0 =
     (let s = js_trim s0
      in case s of
           [] \<Rightarrow> Num 0
         | CHR ''0'' # x # ds \<Rightarrow>
             (if x = CHR ''x'' \<or> x = CHR ''X'' then parse_radix 16 ds
              else if x = CHR ''o'' \<or> x = CHR ''O'' then parse_radix 8 ds
              else if x = CHR ''b'' \<or> x = CHR ''B'' then parse_radix 2 ds
              else parse_unsigned_or_inf s)
         | CHR ''+'' # r \<Rightarrow> parse_unsigned_or_inf r
         | CHR ''-'' # r \<Rightarrow> js_negate (parse_unsigned_or_inf r)
         | _ \<Rightarrow> parse_unsigned_or_inf s)"


subsection \<open>Number.prototype.toFixed\<close>

text \<open>
  \<open>x.toFixed(f)\<close> for a finite \<open>x\<close>: the sign, then the integer \<open>n\<close> nearest to
  \<open>|x| * 10^f\<close> (the larger one on a tie) in decimal, padded with zeros to at least
  \<open>f + 1\<close> digits, with a point before the last \<open>f\<close>. For \<open>|x| \<ge> 10^21\<close> the
  method falls back to \<open>Number::toString\<close>, which is not modelled (\<open>None\<close>).
\<close>

definition fixed_digits :: "nat \<Rightarrow> real \<Rightarrow> nat" where
  "fixed_digits f y = nat \<lfloor>y * 10 ^ f + 1 / 2\<rfloor>"

definition pad_point :: "nat \<Rightarrow> string \<Rightarrow> string" where
  "pad_point f m =
     (if f = 0 then m
      else let m' = (if length m \<le> f then replicate (f + 1 - length m) CHR ''0'' @ m else m)
           in take (length m' - f) m' @ ''.'' @ drop (length m' - f) m')"

definition js_to_fixed :: "nat \<Rightarrow> real \<Rightarrow> string option" where
  "js_to_fixed f x =
     (if 10 ^ 21 \<le> \<bar>x\<bar> then None
      else Some ((if x < 0 then ''-'' else []) @ pad_point f (string_of_nat (fixed_digits f \<bar>x\<bar>))))"

subsection \<open>Number::toString for integral values\<close>

text \<open>\<open>String(x)\<close> for a finite integral \<open>x\<close> below \<open>10^21\<close> in magnitude is its
  decimal digits with a minus sign when negative; other finite values (fractions, large
  magnitudes with exponent notation) are not modelled (\<open>None\<close>).\<close>

definition js_number_to_string :: "real \<Rightarrow> string option" where
  "js_number_to_string x =
     (if real_of_int \<lfloor>x\<rfloor> = x \<and> \<bar>x\<bar> < 10 ^ 21
      then Some ((if x < 0 then ''-'' else []) @ string_of_nat (nat \<lfloor>\<bar>x\<bar>\<rfloor>))
      else None)"

fun js_to_string :: "jsnum \<Rightarrow> string option" where
  "js_to_string (Num x) = js_number_to_string x"
| "js_to_string PosInf = Some ''Infinity''"
| "js_to_string NegInf = Some ''-Infinity''"
| "js_to_string NaN = Some ''NaN''"

subsection \<open>The value of a number input\<close>

text \<open>
  An \<open><input type="number">\<close> reports in \<open>value\<close> what the user typed only when
  it is a valid floating-point number of the HTML standard (an optional \<open>-\<close>, digits
  with an optional fraction or a fraction alone, an optional exponent); any other text,
  white space and a leading \<open>+\<close> included, is sanitized to the empty string.
\<close>

definition valid_exponent :: "string \<Rightarrow> bool" where
  "valid_exponent s =
     (case s of
        [] \<Rightarrow> True
      | e # r \<Rightarrow>
          (e = CHR ''e'' \<or> e = CHR ''E'') \<and>
          (let ds = (if r \<noteq> [] \<and> (hd r = CHR ''+'' \<or> hd r = CHR ''-'') then tl r else r)
           in ds \<noteq> [] \<and> list_all is_dec_digit ds))"

definition valid_unsigned_float :: "string \<Rightarrow> bool" where
  "valid_unsigned_float r =
     (let ip = takeWhile is_dec_digit r;
          r1 = dropWhile is_dec_digit r
      in if r1 \<noteq> [] \<and> hd r1 = CHR ''.''
         then takeWhile is_dec_digit (tl r1) \<noteq> [] \<and> valid_exponent (dropWhile is_dec_digit (tl r1))
         else ip \<noteq> [] \<and> valid_exponent r1)"

definition valid_float :: "string \<Rightarrow> bool" where
  "valid_float s =
     (if s \<noteq> [] \<and> hd s = CHR ''-'' then valid_unsigned_float (tl s) else valid_unsigned_float s)"

definition number_input_value :: "string \<Rightarrow> string" where
  "number_input_value s = (if valid_float s then s else [])"

subsection \<open>Decimal digit strings\<close>

lemma digit_char [simp]:
  "d < 10 \<Longrightarrow> digit_in_base 10 (char_of (48 + d)) = Some d"
  "d < 10 \<Longrightarrow> is_dec_digit (char_of (48 + d))"
  by (simp_all add: digit_in_base_def is_dec_digit_def Let_def of_char_of)

lemma digits_value_append:
  "digits_value b acc (xs @ ys) = (case digits_value b acc xs of None \<Rightarrow> None | Some v \<Rightarrow> digits_value b v ys)"
  by (induction xs arbitrary: acc) (simp_all split: option.split)

lemma string_of_nat_digits: "c \<in> set (string_of_nat n) \<Longrightarrow> is_dec_digit c"
proof (induction n rule: string_of_nat.induct)
  case (1 n)
  then show ?case by (subst (asm) string_of_nat.simps) (auto split: if_splits)
qed

lemma string_of_nat_ne [simp]: "string_of_nat n \<noteq> []"
  by (subst string_of_nat.simps) simp

lemma digits_value_string_of_nat:
  "digits_value 10 acc (string_of_nat n) = Some (acc * 10 ^ length (string_of_nat n) + n)"
proof (induction n arbitrary: acc rule: string_of_nat.induct)
  case (1 n)
  show ?case
  proof (cases "n < 10")
    case True
    then show ?thesis by (subst (1 2) string_of_nat.simps) simp
  next
    case False
    then have e: "string_of_nat n = string_of_nat (n div 10) @ [char_of (48 + n mod 10)]"
      by (subst string_of_nat.simps) simp
    have "(acc * 10 ^ length (string_of_nat (n div 10)) + n div 10) * 10 + n mod 10 =
          acc * 10 ^ (length (string_of_nat (n div 10)) + 1) + n"
      by (simp add: algebra_simps)
    then show ?thesis using False by (simp add: e digits_value_append "1.IH")
  qed
qed

lemma digits_value_zeros: "digits_value 10 acc (replicate k CHR ''0'') = Some (acc * 10 ^ k)"
proof (induction k arbitrary: acc)
  case (Suc k)
  have "digit_in_base 10 CHR ''0'' = Some 0" by (simp add: digit_in_base_def)
  then show ?case using Suc by (simp add: algebra_simps)
qed simp


subsection \<open>Reading back what toFixed prints\<close>

lemma digits_not_space: "is_dec_digit c \<Longrightarrow> \<not> js_is_space c"
  by (auto simp: is_dec_digit_def js_is_space_def)

lemma dot_not_digit [simp]: "\<not> is_dec_digit CHR ''.''"
  by (simp add: is_dec_digit_def)

lemma zero_digit [simp]: "is_dec_digit CHR ''0''"
  by (simp add: is_dec_digit_def)

lemma js_trim_digits:
  assumes "t \<noteq> []" "is_dec_digit (hd t)" "is_dec_digit (last t)"
  shows "js_trim t = t" "js_trim (CHR ''-'' # t) = CHR ''-'' # t"
proof -
  have l: "\<not> js_is_space (hd (rev t))" using assms by (simp add: hd_rev digits_not_space)
  have d: "dropWhile js_is_space t = t" using assms(1,2) by (cases t) (simp_all add: digits_not_space)
  have r: "dropWhile js_is_space (rev t) = rev t" using assms(1) l by (cases "rev t") simp_all
  show "js_trim t = t" by (simp add: js_trim_def d r)
  have "dropWhile js_is_space (CHR ''-'' # t) = CHR ''-'' # t" by (simp add: js_is_space_def)
  moreover have "dropWhile js_is_space (rev t @ [CHR ''-'']) = rev t @ [CHR ''-'']"
    using assms(1) l by (cases "rev t") simp_all
  ultimately show "js_trim (CHR ''-'' # t) = CHR ''-'' # t" by (simp add: js_trim_def)
qed

lemma parse_unsigned_decimal_point:
  assumes "a \<noteq> []" "\<forall>c \<in> set a. is_dec_digit c" "\<forall>c \<in> set b. is_dec_digit c"
    and "digits_value 10 0 (a @ b) = Some m"
  shows "parse_unsigned_decimal (a @ CHR ''.'' # b) = Some (real m / 10 ^ length b)"
proof -
  have a: "takeWhile is_dec_digit (a @ CHR ''.'' # b) = a" "dropWhile is_dec_digit (a @ CHR ''.'' # b) = CHR ''.'' # b"
    using assms(2) by (simp_all add: takeWhile_append2 dropWhile_append2)
  have b: "takeWhile is_dec_digit b = b" "dropWhile is_dec_digit b = []"
    using assms(3) by (simp_all add: takeWhile_eq_all_conv dropWhile_eq_Nil_conv)
  show ?thesis using assms(1,4) by (simp add: parse_unsigned_decimal_def parse_exponent_def a b)
qed

lemma parse_unsigned_decimal_int:
  assumes "a \<noteq> []" "\<forall>c \<in> set a. is_dec_digit c" "digits_value 10 0 a = Some m"
  shows "parse_unsigned_decimal a = Some (real m)"
proof -
  have a: "takeWhile is_dec_digit a = a" "dropWhile is_dec_digit a = []"
    using assms(2) by (simp_all add: takeWhile_eq_all_conv dropWhile_eq_Nil_conv)
  show ?thesis using assms(1,3) by (simp add: parse_unsigned_decimal_def parse_exponent_def a)
qed

lemma char_of_digits:
  "char_of (48::nat) = CHR ''0''" "char_of (49::nat) = CHR ''1''" "char_of (50::nat) = CHR ''2''"
  "char_of (51::nat) = CHR ''3''" "char_of (52::nat) = CHR ''4''" "char_of (53::nat) = CHR ''5''"
  "char_of (54::nat) = CHR ''6''" "char_of (55::nat) = CHR ''7''" "char_of (56::nat) = CHR ''8''"
  "char_of (57::nat) = CHR ''9''"
  by code_simp+
lemma dec_digit_cases:
  assumes "is_dec_digit c"
  shows "c \<in> set ''0123456789''"
proof -
  define n where "n = (of_char c :: nat)"
  have "48 \<le> n \<and> n \<le> 57" using assms by (simp add: is_dec_digit_def n_def)
  then have "n \<in> {48, 49, 50, 51, 52, 53, 54, 55, 56, 57}" by simp presburger
  moreover have "c = char_of n" by (simp add: n_def)
  ultimately show ?thesis by (auto simp: char_of_digits)
qed
lemma digit_not_letter:
  "is_dec_digit c \<Longrightarrow> c \<noteq> CHR ''I'' \<and> c \<noteq> CHR ''+'' \<and> c \<noteq> CHR ''-'' \<and> c \<noteq> CHR ''x'' \<and> c \<noteq> CHR ''X'' \<and>
     c \<noteq> CHR ''o'' \<and> c \<noteq> CHR ''O'' \<and> c \<noteq> CHR ''b'' \<and> c \<noteq> CHR ''B''"
  by (auto simp: is_dec_digit_def)
lemma js_string_to_number_unsigned:
  assumes "js_trim (c # r) = c # r" "is_dec_digit c"
    and "\<And>x ds. r = x # ds \<Longrightarrow> x = CHR ''.'' \<or> is_dec_digit x"
  shows "js_string_to_number (c # r) = parse_unsigned_or_inf (c # r)"
proof -
  have x: "\<forall>x ds. r = x # ds \<longrightarrow> x \<noteq> CHR ''x'' \<and> x \<noteq> CHR ''X'' \<and> x \<noteq> CHR ''o'' \<and>
             x \<noteq> CHR ''O'' \<and> x \<noteq> CHR ''b'' \<and> x \<noteq> CHR ''B''"
    using assms(3) digit_not_letter by fastforce
  have "c \<in> set ''0123456789''" using dec_digit_cases [OF assms(2)] .
  then show ?thesis
    unfolding js_string_to_number_def Let_def assms(1) using x by (cases r) auto
qed
lemma parse_unsigned_or_inf_digit:
  "t = c # r \<Longrightarrow> is_dec_digit c \<Longrightarrow>
   parse_unsigned_or_inf t = (case parse_unsigned_decimal t of None \<Rightarrow> NaN | Some v \<Rightarrow> Num v)"
  using digit_not_letter [of c] by (auto simp: parse_unsigned_or_inf_def)

lemma pad_point_shape:
  assumes "f \<noteq> 0"
  shows "\<exists>z a b. pad_point f m = a @ CHR ''.'' # b \<and> a @ b = replicate z CHR ''0'' @ m \<and>
                 a \<noteq> [] \<and> length b = f"
proof -
  define m' where "m' = (if length m \<le> f then replicate (f + 1 - length m) CHR ''0'' @ m else m)"
  have len: "f < length m'" by (simp add: m'_def)
  have "pad_point f m = take (length m' - f) m' @ CHR ''.'' # drop (length m' - f) m'"
    using assms by (simp add: pad_point_def m'_def Let_def)
  moreover have "take (length m' - f) m' @ drop (length m' - f) m' =
      replicate (if length m \<le> f then f + 1 - length m else 0) CHR ''0'' @ m"
    by (simp add: m'_def)
  moreover have "take (length m' - f) m' \<noteq> []" "length (drop (length m' - f) m') = f" using len by auto
  ultimately show ?thesis by blast
qed

lemma fixed_digits_error:
  assumes "0 \<le> y"
  shows "\<bar>real (fixed_digits f y) / 10 ^ f - y\<bar> \<le> 1 / (2 * 10 ^ f)"
proof -
  define N :: real where "N = 10 ^ f"
  define z where "z = y * N + 1 / 2"
  have N: "0 < N" by (simp add: N_def)
  have r: "real (fixed_digits f y) = of_int \<lfloor>z\<rfloor>"
    using assms N by (simp add: fixed_digits_def z_def N_def)
  have k: "of_int \<lfloor>z\<rfloor> \<le> z" "z < of_int \<lfloor>z\<rfloor> + 1" using floor_correct [of z] by simp_all
  have h: "\<bar>of_int \<lfloor>z\<rfloor> - y * N\<bar> \<le> 1 / 2"
    using k z_def by (intro abs_leI; linarith)
  have "of_int \<lfloor>z\<rfloor> / N - y = (of_int \<lfloor>z\<rfloor> - y * N) / N" using N by (simp add: field_simps)
  then have "\<bar>of_int \<lfloor>z\<rfloor> / N - y\<bar> = \<bar>of_int \<lfloor>z\<rfloor> - y * N\<bar> / N" using N by simp
  also have "\<dots> \<le> (1 / 2) / N" by (rule divide_right_mono [OF h]) (use N in simp)
  finally show ?thesis by (simp add: r N_def)
qed

text \<open>What \<open>toFixed\<close> prints, \<open>Number\<close> reads back as \<open>x\<close> rounded to \<open>f\<close> places.\<close>

lemma js_to_fixed_reads_back:
  assumes "\<bar>x\<bar> < 10 ^ 21"
  shows "js_string_to_number (the (js_to_fixed f x)) =
           Num ((if x < 0 then -1 else 1) * (real (fixed_digits f \<bar>x\<bar>) / 10 ^ f))"
proof -
  let ?n = "fixed_digits f \<bar>x\<bar>"
  let ?m = "string_of_nat ?n"
  have md: "\<forall>c \<in> set ?m. is_dec_digit c" using string_of_nat_digits by blast
  have "parse_unsigned_decimal (pad_point f ?m) = Some (real ?n / 10 ^ f) \<and>
        (\<exists>c r. pad_point f ?m = c # r \<and> is_dec_digit c \<and> is_dec_digit (last (c # r)) \<and>
               (\<forall>x ds. r = x # ds \<longrightarrow> x = CHR ''.'' \<or> is_dec_digit x))"
  proof (cases "f = 0")
    case True
    have "digits_value 10 0 ?m = Some ?n" using digits_value_string_of_nat [of 0 ?n] by simp
    moreover obtain c r where cr: "?m = c # r" by (cases ?m) simp_all
    moreover have "last ?m \<in> set ?m" by simp
    ultimately show ?thesis using True md
      by (auto simp: pad_point_def parse_unsigned_decimal_int)
  next
    case False
    then obtain z a b where ab: "pad_point f ?m = a @ CHR ''.'' # b" "a @ b = replicate z CHR ''0'' @ ?m"
      "a \<noteq> []" "length b = f" using pad_point_shape by blast
    have dg: "\<forall>c \<in> set (a @ b). is_dec_digit c" using md ab(2) by (auto simp: set_replicate_conv_if)
    have dv: "digits_value 10 0 (a @ b) = Some ?n"
      by (simp add: ab(2) digits_value_append digits_value_zeros digits_value_string_of_nat)
    have p: "parse_unsigned_decimal (pad_point f ?m) = Some (real ?n / 10 ^ f)"
      unfolding ab(1) using parse_unsigned_decimal_point [OF ab(3) _ _ dv] dg ab(4) by simp
    obtain c a' where a: "a = c # a'" using ab(3) by (cases a) simp_all
    have bne: "b \<noteq> []" using False ab(4) by auto
    then have "last (c # a' @ CHR ''.'' # b) = last b" by simp
    then have lst: "is_dec_digit (last (c # a' @ CHR ''.'' # b))" using dg bne by simp
    have nx: "\<forall>x ds. a' @ CHR ''.'' # b = x # ds \<longrightarrow> x = CHR ''.'' \<or> is_dec_digit x"
      using dg a by (cases a') auto
    have "is_dec_digit c" using dg a by simp
    then show ?thesis using p nx lst by (simp add: ab(1) a)
  qed
  then obtain c r where p: "parse_unsigned_decimal (pad_point f ?m) = Some (real ?n / 10 ^ f)"
    and cr: "pad_point f ?m = c # r" "is_dec_digit c" "is_dec_digit (last (c # r))"
    and nx: "\<And>x ds. r = x # ds \<Longrightarrow> x = CHR ''.'' \<or> is_dec_digit x" by blast
  have tr: "js_trim (c # r) = c # r" "js_trim (CHR ''-'' # c # r) = CHR ''-'' # c # r"
    using js_trim_digits [of "c # r"] cr(2,3) by simp_all
  have u: "js_string_to_number (c # r) = parse_unsigned_or_inf (c # r)"
    using js_string_to_number_unsigned [OF tr(1) cr(2) nx] .
  have un: "js_string_to_number (CHR ''-'' # c # r) = js_negate (parse_unsigned_or_inf (c # r))"
    by (simp add: js_string_to_number_def tr(2))
  have v: "parse_unsigned_or_inf (c # r) = Num (real ?n / 10 ^ f)"
    using p cr by (simp add: parse_unsigned_or_inf_digit)
  show ?thesis using assms u un v by (simp add: js_to_fixed_def cr(1))
qed


text \<open>\<open>Number(String(k)) = k\<close> for every natural \<open>k\<close>.\<close>

lemma js_string_to_number_nat: "js_string_to_number (string_of_nat k) = Num (real k)"
proof -
  obtain c r where cr: "string_of_nat k = c # r" by (cases "string_of_nat k") simp_all
  have d: "\<And>x. x \<in> set (c # r) \<Longrightarrow> is_dec_digit x" using string_of_nat_digits cr by metis
  have "last (c # r) \<in> set (c # r)" by simp
  then have tr: "js_trim (c # r) = c # r" using js_trim_digits(1) [of "c # r"] d by simp
  have "js_string_to_number (c # r) = parse_unsigned_or_inf (c # r)"
    by (rule js_string_to_number_unsigned [OF tr]) (use d in auto)
  moreover have "parse_unsigned_decimal (c # r) = Some (real k)"
    using parse_unsigned_decimal_int [of "c # r" k] d digits_value_string_of_nat [of 0 k] cr by simp
  ultimately show ?thesis using cr d by (simp add: parse_unsigned_or_inf_digit)
qed

lemma string_of_nat_no_sign:
  "CHR '':'' \<notin> set (string_of_nat k)" "CHR ''+'' \<notin> set (string_of_nat k)" "CHR ''-'' \<notin> set (string_of_nat k)"
  using string_of_nat_digits [of "CHR '':''" k] string_of_nat_digits [of "CHR ''+''" k]
    string_of_nat_digits [of "CHR ''-''" k] by (auto simp: is_dec_digit_def)

lemma js_split_nosep: "c \<notin> set xs \<Longrightarrow> js_split c xs = [xs]"
  by (induction xs) (auto simp: Let_def)

lemma js_remove_first_notin: "c \<notin> set xs \<Longrightarrow> js_remove_first c xs = xs"
  by (induction xs) auto

lemma js_index_of_from_notin: "c \<notin> set xs \<Longrightarrow> js_index_of_from xs (c # cs) i = -1"
  by (induction xs arbitrary: i) auto


subsection \<open>Valid floating-point numbers convert to numbers\<close>

lemma exp_sign_split:
  "(case r of CHR ''+'' # ds \<Rightarrow> (1::int, ds) | CHR ''-'' # ds \<Rightarrow> (-1, ds) | _ \<Rightarrow> (1, r)) =
   (if r \<noteq> [] \<and> hd r = CHR ''+'' then (1, tl r) else if r \<noteq> [] \<and> hd r = CHR ''-'' then (-1, tl r) else (1, r))"
proof (cases r)
  case (Cons a l)
  then show ?thesis by (cases a) (simp split: bool.split)
qed simp

lemma point_split:
  "(case xs of CHR ''.'' # r \<Rightarrow> (takeWhile P r, dropWhile P r) | _ \<Rightarrow> ([], xs)) =
   (if xs \<noteq> [] \<and> hd xs = CHR ''.'' then (takeWhile P (tl xs), dropWhile P (tl xs)) else ([], xs))"
proof (cases xs)
  case (Cons a l)
  then show ?thesis by (cases a) (simp split: bool.split)
qed simp

lemma digits_value_total:
  "list_all is_dec_digit xs \<Longrightarrow> \<exists>v. digits_value 10 acc xs = Some v"
proof (induction xs arbitrary: acc)
  case (Cons c xs)
  have "48 \<le> (of_char c :: nat)" "(of_char c :: nat) \<le> 57"
    using Cons.prems by (simp_all add: is_dec_digit_def)
  then have "digit_in_base 10 c = Some (of_char c - 48)"
    by (simp add: digit_in_base_def Let_def)
  then show ?case using Cons by simp
qed simp

lemma valid_exponent_parse:
  assumes "valid_exponent r"
  shows "parse_exponent r \<noteq> None"
proof (cases r)
  case (Cons e r')
  define ds where "ds = (if r' \<noteq> [] \<and> (hd r' = CHR ''+'' \<or> hd r' = CHR ''-'') then tl r' else r')"
  have e: "e = CHR ''e'' \<or> e = CHR ''E''" and d: "ds \<noteq> []" "list_all is_dec_digit ds"
    using assms Cons by (simp_all add: valid_exponent_def ds_def Let_def)
  obtain v where v: "digits_value 10 0 ds = Some v" using digits_value_total [OF d(2)] by blast
  have "\<exists>sg. (if r' \<noteq> [] \<and> hd r' = CHR ''+'' then (1::int, tl r')
              else if r' \<noteq> [] \<and> hd r' = CHR ''-'' then (-1, tl r') else (1, r')) = (sg, ds)"
    by (simp add: ds_def)
  then obtain sg where sg: "(if r' \<noteq> [] \<and> hd r' = CHR ''+'' then (1::int, tl r')
              else if r' \<noteq> [] \<and> hd r' = CHR ''-'' then (-1, tl r') else (1, r')) = (sg, ds)" ..
  show ?thesis
    unfolding parse_exponent_def Cons list.case exp_sign_split sg using e d v by auto
qed (simp add: parse_exponent_def)

lemma valid_unsigned_parse:
  assumes "valid_unsigned_float r"
  shows "parse_unsigned_decimal r \<noteq> None"
proof -
  let ?ip = "takeWhile is_dec_digit r" and ?r1 = "dropWhile is_dec_digit r"
  have ip: "list_all is_dec_digit ?ip" by (auto simp: list_all_iff dest: set_takeWhileD)
  show ?thesis
  proof (cases "?r1 \<noteq> [] \<and> hd ?r1 = CHR ''.''")
    case True
    then obtain t where r1: "?r1 = CHR ''.'' # t" by (cases ?r1) auto
    let ?fp = "takeWhile is_dec_digit t"
    have "list_all is_dec_digit (?ip @ ?fp)" using ip by (auto simp: list_all_iff dest: set_takeWhileD)
    then obtain m where m: "digits_value 10 0 (?ip @ ?fp) = Some m" using digits_value_total by blast
    have "?fp \<noteq> []" "parse_exponent (dropWhile is_dec_digit t) \<noteq> None"
      using assms r1 valid_exponent_parse by (simp_all add: valid_unsigned_float_def Let_def)
    then show ?thesis using m r1 by (auto simp: parse_unsigned_decimal_def point_split split: option.split)
  next
    case False
    then have ne: "?ip \<noteq> []" and ex: "parse_exponent ?r1 \<noteq> None"
      using assms valid_exponent_parse by (auto simp: valid_unsigned_float_def Let_def)
    obtain m where m: "digits_value 10 0 ?ip = Some m" using digits_value_total ip by blast
    then show ?thesis using ne ex m False by (auto simp: parse_unsigned_decimal_def point_split split: option.split)
  qed
qed


lemma valid_exponent_chars:
  assumes "valid_exponent x" "c \<in> set x"
  shows "is_dec_digit c \<or> c \<in> set ''eE+-''"
proof (cases x)
  case (Cons e r')
  then show ?thesis
    using assms by (cases r') (auto simp: valid_exponent_def Let_def list_all_iff split: if_splits)
qed (use assms in simp)

lemma valid_unsigned_shape:
  assumes "valid_unsigned_float r"
  shows "r \<noteq> [] \<and> (is_dec_digit (hd r) \<or> hd r = CHR ''.'')"
    and "c \<in> set r \<Longrightarrow> is_dec_digit c \<or> c \<in> set ''.eE+-''"
proof -
  let ?ip = "takeWhile is_dec_digit r" and ?r1 = "dropWhile is_dec_digit r"
  have r: "r = ?ip @ ?r1" by simp
  show "r \<noteq> [] \<and> (is_dec_digit (hd r) \<or> hd r = CHR ''.'')"
  proof (cases "?ip = []")
    case True
    then have "?r1 = r" by (metis r append_Nil)
    then show ?thesis using assms True by (auto simp: valid_unsigned_float_def Let_def split: if_splits)
  next
    case False
    then show ?thesis by (metis hd_append2 hd_in_set r set_takeWhileD append_is_Nil_conv)
  qed
  assume c: "c \<in> set r"
  show "is_dec_digit c \<or> c \<in> set ''.eE+-''"
  proof (cases "c \<in> set ?ip")
    case True
    then show ?thesis by (auto dest: set_takeWhileD)
  next
    case False
    then have c1: "c \<in> set ?r1" using c r by (metis Un_iff set_append)
    show ?thesis
    proof (cases "?r1 \<noteq> [] \<and> hd ?r1 = CHR ''.''")
      case True
      then obtain t where t: "?r1 = CHR ''.'' # t" by (cases ?r1) auto
      have ve: "valid_exponent (dropWhile is_dec_digit t)"
        using assms t by (simp add: valid_unsigned_float_def Let_def)
      have "c = CHR ''.'' \<or> c \<in> set (takeWhile is_dec_digit t) \<or> c \<in> set (dropWhile is_dec_digit t)"
        using c1 t by (metis set_ConsD Un_iff set_append takeWhile_dropWhile_id)
      then show ?thesis using valid_exponent_chars [OF ve] by (auto dest: set_takeWhileD)
    next
      case False
      then have "valid_exponent ?r1" using assms by (simp add: valid_unsigned_float_def Let_def)
      then show ?thesis using valid_exponent_chars c1 by auto
    qed
  qed
qed

lemma js_trim_nospace:
  assumes "\<forall>c \<in> set s. \<not> js_is_space c"
  shows "js_trim s = s"
proof -
  have d: "dropWhile js_is_space xs = xs" if "\<forall>c \<in> set xs. \<not> js_is_space c" for xs
    using that by (cases xs) simp_all
  show ?thesis using assms by (simp add: js_trim_def d)
qed


lemma valid_unsigned_number:
  assumes "valid_unsigned_float r"
  shows "\<exists>v. js_string_to_number r = Num v \<and> js_string_to_number (CHR ''-'' # r) = Num (- v)"
proof -
  have sh: "r \<noteq> []" "is_dec_digit (hd r) \<or> hd r = CHR ''.''"
    and ch: "\<And>c. c \<in> set r \<Longrightarrow> is_dec_digit c \<or> c \<in> set ''.eE+-''"
    using valid_unsigned_shape [OF assms] by blast+
  obtain c t where ct: "r = c # t" using sh(1) by (cases r) auto
  have sp: "\<forall>x \<in> set r. \<not> js_is_space x" "\<forall>x \<in> set (CHR ''-'' # r). \<not> js_is_space x"
    using ch digits_not_space by (fastforce simp: js_is_space_def)+
  have c: "c \<in> set ''0123456789.''" using sh(2) ct dec_digit_cases by auto
  have x: "x \<noteq> CHR ''x'' \<and> x \<noteq> CHR ''X'' \<and> x \<noteq> CHR ''o'' \<and> x \<noteq> CHR ''O'' \<and> x \<noteq> CHR ''b'' \<and>
           x \<noteq> CHR ''B''" if "t = x # ds" for x ds
    using ch [of x] that ct digit_not_letter [of x] by auto
  obtain v where v: "parse_unsigned_decimal r = Some v" using valid_unsigned_parse [OF assms] by blast
  have "r \<noteq> ''Infinity''" using c ct by auto
  then have u: "parse_unsigned_or_inf r = Num v" using v by (simp add: parse_unsigned_or_inf_def)
  have tr: "js_trim (c # t) = c # t" using js_trim_nospace [OF sp(1)] ct by simp
  have "js_string_to_number r = parse_unsigned_or_inf r"
    unfolding ct js_string_to_number_def Let_def tr using c x by (cases t) auto
  moreover have "js_string_to_number (CHR ''-'' # r) = js_negate (parse_unsigned_or_inf r)"
    unfolding js_string_to_number_def Let_def js_trim_nospace [OF sp(2)] by simp
  ultimately show ?thesis using u by simp
qed

lemma valid_float_number:
  assumes "valid_float s"
  shows "\<exists>v. js_string_to_number s = Num v"
proof (cases "s \<noteq> [] \<and> hd s = CHR ''-''")
  case True
  then obtain r where "s = CHR ''-'' # r" by (cases s) auto
  then show ?thesis using assms valid_unsigned_number [of r] by (auto simp: valid_float_def)
next
  case False
  then show ?thesis using assms valid_unsigned_number [of s] by (auto simp: valid_float_def)
qed

lemma valid_float_examples:
  "valid_float ''100'' \<and> valid_float ''-2.5e+3'' \<and> valid_float ''.5'' \<and>
   \<not> valid_float '''' \<and> \<not> valid_float ''1e'' \<and> \<not> valid_float ''1.'' \<and> \<not> valid_float ''-'' \<and>
   \<not> valid_float ''+1'' \<and> \<not> valid_float '' 1'' \<and> \<not> valid_float ''Infinity''"
  by code_simp

end
