(* ===== verification/Leverage.thy ===== *)
theory Leverage
  imports JsRuntime
begin

text \<open>
  The leverage simulator of \<^verbatim>\<open>src/src/LiveSP500Canvas.jsx\<close>: the preset
  options (\<open>buildSyntheticOptions\<close>), the preset parser (\<open>isSynthetic\<close>,
  \<open>parseLeverage\<close> and the component's \<open>parseLeverage(preset) || 1\<close>) and the
  compounding simulator \<open>buildSyntheticSeries\<close>, with a closed-form reference for it.
\<close>

subsection \<open>Preset options and their parser\<close>

record preset_option =
  opt_label :: string
  opt_value :: string

definition build_synthetic_options :: "preset_option list" where
  "build_synthetic_options =
     map (\<lambda>k. \<lparr>opt_label = ''+'' @ string_of_nat k @ ''x SPX'',
               opt_value = ''SYNTHETIC:+'' @ string_of_nat k\<rparr>) [1..<11]
   @ map (\<lambda>k. \<lparr>opt_label = ''-'' @ string_of_nat k @ ''x SPX'',
               opt_value = ''SYNTHETIC:-'' @ string_of_nat k\<rparr>) [1..<11]"

definition is_synthetic :: "string \<Rightarrow> bool" where
  "is_synthetic v \<longleftrightarrow> js_index_of v ''SYNTHETIC:'' = 0"

text \<open>\<open>parseLeverage\<close>: \<open>None\<close> is the code's \<open>null\<close>.\<close>

definition parse_leverage :: "string \<Rightarrow> real option" where
  "parse_leverage v =
     (if \<not> is_synthetic v then None
      else
        let sign = (if js_index_of v '':-'' \<noteq> -1 then -1 else 1 :: real);
            parts = js_split CHR '':'' v;
            raw = (if 1 < length parts then parts ! 1 else '''');
            raw' = js_remove_first CHR ''-'' (js_remove_first CHR ''+'' raw)
        in case js_string_to_number raw' of Num n \<Rightarrow> Some (sign * n) | _ \<Rightarrow> None)"

text \<open>\<open>const leverage = parseLeverage(preset) || 1\<close>: \<open>null\<close> and \<open>0\<close> are falsy.\<close>

definition leverage_of_preset :: "string \<Rightarrow> real" where
  "leverage_of_preset p =
     (case parse_leverage p of None \<Rightarrow> 1 | Some n \<Rightarrow> if n = 0 then 1 else n)"

subsection \<open>The compounding simulator\<close>

text \<open>\<open>var r = prev ? (curr - prev) / prev : 0\<close>: a zero previous price is falsy.\<close>

definition simple_return :: "real \<Rightarrow> real \<Rightarrow> real" where
  "simple_return prev cur = (if prev \<noteq> 0 then (cur - prev) / prev else 0)"

text \<open>
  The loop body for \<open>i \<ge> 1\<close>; \<open>prev\<close> is \<open>spx[i - 1].value\<close> and \<open>base\<close>
  the running synthetic value.
\<close>

fun synth_loop :: "real \<Rightarrow> real \<Rightarrow> real \<Rightarrow> series \<Rightarrow> series" where
  "synth_loop lev base prev [] = []"
| "synth_loop lev base prev (p # ps) =
     (let base' = base * (1 + lev * simple_return prev (value p))
      in \<lparr>time = time p, value = base'\<rparr> # synth_loop lev base' (value p) ps)"

text \<open>\<open>baseStart\<close> is \<open>None\<close> when \<open>typeof baseStart !== "number"\<close>.\<close>

definition build_synthetic_series :: "series \<Rightarrow> real \<Rightarrow> real option \<Rightarrow> series" where
  "build_synthetic_series spx leverage baseStart =
     (case spx of
        [] \<Rightarrow> []
      | p # ps \<Rightarrow>
          let base = (case baseStart of None \<Rightarrow> 100 | Some b \<Rightarrow> b)
          in \<lparr>time = time p, value = base\<rparr> # synth_loop leverage base (value p) ps)"

subsection \<open>Reference specification\<close>

text \<open>
  The spec's contract: the period returns of the input, and the synthetic value at
  \<open>i\<close> is the base times the product of the first \<open>i\<close> leveraged gross returns.
\<close>

fun period_returns :: "real list \<Rightarrow> real list" where
  "period_returns (a # b # rest) = simple_return a b # period_returns (b # rest)"
| "period_returns _ = []"

definition synthetic_reference :: "series \<Rightarrow> real \<Rightarrow> real \<Rightarrow> nat \<Rightarrow> real" where
  "synthetic_reference spx lev base i =
     base * prod_list (take i (map (\<lambda>r. 1 + lev * r) (period_returns (map value spx))))"

subsection \<open>Lemmas\<close>

lemma synth_loop_length [simp]: "length (synth_loop lev b prev ps) = length ps"
  by (induction ps arbitrary: b prev) (simp_all add: Let_def)

lemma synth_loop_times [simp]: "map time (synth_loop lev b prev ps) = map time ps"
  by (induction ps arbitrary: b prev) (simp_all add: Let_def)

lemma synth_loop_nth:
  "i < length ps \<Longrightarrow>
   value (synth_loop lev b prev ps ! i) =
     b * prod_list (take (Suc i) (map (\<lambda>r. 1 + lev * r) (period_returns (prev # map value ps))))"
proof (induction ps arbitrary: b prev i)
  case Nil
  then show ?case by simp
next
  case (Cons p ps)
  show ?case
  proof (cases i)
    case 0
    then show ?thesis by (simp add: Let_def)
  next
    case (Suc k)
    with Cons.prems have "k < length ps" by simp
    with Cons.IH Suc show ?thesis by (simp add: Let_def mult.assoc)
  qed
qed

lemma build_synthetic_series_length [simp]:
  "length (build_synthetic_series spx lev bs) = length spx"
  by (simp add: build_synthetic_series_def Let_def split: list.split)

lemma build_synthetic_series_times:
  "map time (build_synthetic_series spx lev bs) = map time spx"
  by (simp add: build_synthetic_series_def Let_def split: list.split)

lemma build_synthetic_series_nth:
  assumes "i < length spx"
  shows "value (build_synthetic_series spx lev (Some b) ! i) = synthetic_reference spx lev b i"
proof (cases spx)
  case Nil
  with assms show ?thesis by simp
next
  case (Cons p ps)
  show ?thesis
  proof (cases i)
    case 0
    with Cons show ?thesis by (simp add: build_synthetic_series_def synthetic_reference_def)
  next
    case (Suc k)
    with assms Cons have "k < length ps" by simp
    with Suc Cons show ?thesis
      by (simp add: build_synthetic_series_def synthetic_reference_def synth_loop_nth)
  qed
qed

text \<open>Zero returns leave the running value alone, whatever the leverage.\<close>

lemma synth_loop_flat:
  "\<forall>p\<in>set ps. value p = c \<Longrightarrow>
   synth_loop lev b c ps = map (\<lambda>p. \<lparr>time = time p, value = b\<rparr>) ps"
  by (induction ps) (auto simp: simple_return_def Let_def)

lemma build_synthetic_series_flat:
  "\<forall>p\<in>set spx. value p = c \<Longrightarrow>
   build_synthetic_series spx lev bs =
     map (\<lambda>p. \<lparr>time = time p, value = case bs of None \<Rightarrow> 100 | Some b \<Rightarrow> b\<rparr>) spx"
  by (cases spx) (simp_all add: build_synthetic_series_def Let_def synth_loop_flat)

text \<open>With leverage 1 the compounded returns telescope to the price ratio.\<close>

lemma synth_loop_unit_leverage:
  "prev \<noteq> 0 \<Longrightarrow> \<forall>p\<in>set ps. value p \<noteq> 0 \<Longrightarrow> i < length ps \<Longrightarrow>
   value (synth_loop 1 b prev ps ! i) = b * value (ps ! i) / prev"
proof (induction ps arbitrary: b prev i)
  case Nil
  then show ?case by simp
next
  case (Cons p ps)
  have step: "b * (1 + 1 * simple_return prev (value p)) = b * value p / prev"
    using Cons.prems(1) by (simp add: simple_return_def field_simps)
  show ?case
  proof (cases i)
    case 0
    then show ?thesis using step by (simp add: Let_def)
  next
    case (Suc k)
    with Cons.prems have k: "k < length ps" and p: "value p \<noteq> 0" by simp_all
    from Cons.prems(2) have "\<forall>q\<in>set ps. value q \<noteq> 0" by simp
    from Cons.IH [OF p this k]
    have "value (synth_loop 1 (b * value p / prev) (value p) ps ! k)
          = b * value p / prev * value (ps ! k) / value p" .
    with Suc step p show ?thesis by (simp add: Let_def)
  qed
qed

lemma prod_list_take_prefix:
  "i \<le> j \<Longrightarrow> prod_list (take j xs) = prod_list (take i xs) * prod_list (take (j - i) (drop i xs))"
proof -
  assume "i \<le> j"
  then have "take j xs = take i xs @ take (j - i) (drop i xs)"
    by (metis le_add_diff_inverse take_add)
  then show ?thesis by simp
qed

lemma synthetic_prefix_index:
  "js_index_of (''SYNTHETIC:'' @ s) ''SYNTHETIC:'' = 0"
  by (simp add: js_index_of_def)

subsection \<open>Properties\<close>

text \<open>
  C1: for every non-empty input series and every leverage, the first synthetic value
  is the base (100 when no numeric base is given), a pivot unaffected by leverage.
\<close>

theorem build_synthetic_first_value:
  "spx \<noteq> [] \<Longrightarrow>
   value (hd (build_synthetic_series spx lev bs)) = (case bs of None \<Rightarrow> 100 | Some b \<Rightarrow> b)"
  by (cases spx) (simp_all add: build_synthetic_series_def Let_def)

theorem build_synthetic_first_value_witness:
  "[\<lparr>time = 0, value = 4500\<rparr>] \<noteq> [] \<and>
   value (hd (build_synthetic_series [\<lparr>time = 0, value = 4500\<rparr>] (-3) (Some 50))) = 50"
  using build_synthetic_first_value [of "[\<lparr>time = 0, value = 4500\<rparr>]" "-3" "Some 50"] by simp

text \<open>
  C2: on a flat input series (all period returns zero) the synthetic series for
  leverage \<open>k\<close> and for \<open>-k\<close> are identical: the simulator compounds returns, it
  does not mirror prices.
\<close>

theorem build_synthetic_flat_sign_independent:
  "\<forall>p\<in>set spx. value p = c \<Longrightarrow>
   build_synthetic_series spx k bs = build_synthetic_series spx (- k) bs"
  by (simp add: build_synthetic_series_flat [of spx c])

theorem build_synthetic_flat_sign_independent_witness:
  "build_synthetic_series [\<lparr>time = 0, value = 7\<rparr>, \<lparr>time = 1, value = 7\<rparr>] 4 None =
   build_synthetic_series [\<lparr>time = 0, value = 7\<rparr>, \<lparr>time = 1, value = 7\<rparr>] (- 4) None"
  using build_synthetic_flat_sign_independent
    [of "[\<lparr>time = 0, value = 7\<rparr>, \<lparr>time = 1, value = 7\<rparr>]" 7 4 None]
  by simp

text \<open>
  The spec's end-to-end scenario: prices 100, 110, 99 at times 0, 1, 2 with
  leverage +2 and base 100 give the synthetic values 100, 120 and 96.
\<close>

theorem build_synthetic_series_scenario:
  "build_synthetic_series [\<lparr>time = 0, value = 100\<rparr>, \<lparr>time = 1, value = 110\<rparr>, \<lparr>time = 2, value = 99\<rparr>]
     2 (Some 100) =
   [\<lparr>time = 0, value = 100\<rparr>, \<lparr>time = 1, value = 120\<rparr>, \<lparr>time = 2, value = 96\<rparr>]"
  by (simp add: build_synthetic_series_def simple_return_def)

text \<open>
  C4: the loop of \<open>buildSyntheticSeries\<close> refines its closed-form contract: it keeps
  the timestamps, and its value at \<open>i\<close> is the base times the product of the first
  \<open>i\<close> leveraged gross returns \<open>1 + k r\<close>.
\<close>

theorem build_synthetic_series_refines_reference:
  "map time (build_synthetic_series spx lev (Some b)) = map time spx \<and>
   (\<forall>i < length spx. value (build_synthetic_series spx lev (Some b) ! i) =
                      synthetic_reference spx lev b i)"
  by (simp add: build_synthetic_series_times build_synthetic_series_nth)

theorem build_synthetic_series_refines_reference_witness:
  "value (build_synthetic_series [\<lparr>time = 0, value = 100\<rparr>, \<lparr>time = 1, value = 110\<rparr>] 2 (Some 100) ! 1)
   = synthetic_reference [\<lparr>time = 0, value = 100\<rparr>, \<lparr>time = 1, value = 110\<rparr>] 2 100 1"
  using build_synthetic_series_refines_reference
    [of "[\<lparr>time = 0, value = 100\<rparr>, \<lparr>time = 1, value = 110\<rparr>]" 2 100]
  by simp

text \<open>
  C5: with leverage 1 and no zero price, the synthetic series is the input rescaled to
  start at the base: its value at \<open>i\<close> is \<open>base * price[i] / price[0]\<close>.
\<close>

theorem build_synthetic_unit_leverage:
  assumes "i < length spx" and "\<forall>p\<in>set spx. value p \<noteq> 0"
  shows "value (build_synthetic_series spx 1 (Some b) ! i) = b * value (spx ! i) / value (hd spx)"
proof (cases spx)
  case Nil
  with assms show ?thesis by simp
next
  case (Cons p ps)
  show ?thesis
  proof (cases i)
    case 0
    with Cons assms(2) show ?thesis by (simp add: build_synthetic_series_def)
  next
    case (Suc k)
    with assms Cons show ?thesis
      by (simp add: build_synthetic_series_def synth_loop_unit_leverage)
  qed
qed

theorem build_synthetic_unit_leverage_witness:
  "value (build_synthetic_series [\<lparr>time = 0, value = 50\<rparr>, \<lparr>time = 1, value = 60\<rparr>] 1 (Some 100) ! 1)
   = 100 * 60 / 50"
  using build_synthetic_unit_leverage
    [of 1 "[\<lparr>time = 0, value = 50\<rparr>, \<lparr>time = 1, value = 60\<rparr>]" 100]
  by simp

text \<open>
  C6: ruin is absorbing: once a synthetic value is 0 (a leveraged period return of
  -100\<percent>), every later value is 0.
\<close>

theorem build_synthetic_zero_absorbing:
  assumes "value (build_synthetic_series spx lev (Some b) ! i) = 0"
    and "i \<le> j" and "j < length spx"
  shows "value (build_synthetic_series spx lev (Some b) ! j) = 0"
proof -
  let ?g = "map (\<lambda>r. 1 + lev * r) (period_returns (map value spx))"
  from assms(2,3) have "i < length spx" by simp
  with assms(1) have "b * prod_list (take i ?g) = 0"
    by (simp add: build_synthetic_series_nth synthetic_reference_def)
  moreover have "prod_list (take j ?g) = prod_list (take i ?g) * prod_list (take (j - i) (drop i ?g))"
    using assms(2) by (rule prod_list_take_prefix)
  ultimately have "b * prod_list (take j ?g) = 0"
    by (metis mult.assoc mult_zero_left)
  with assms(3) show ?thesis
    by (simp add: build_synthetic_series_nth synthetic_reference_def)
qed

theorem build_synthetic_zero_absorbing_witness:
  "value (build_synthetic_series [\<lparr>time = 0, value = 100\<rparr>, \<lparr>time = 1, value = 110\<rparr>,
     \<lparr>time = 2, value = 90\<rparr>] (-10) (Some 100) ! 2) = 0"
proof -
  let ?s = "[\<lparr>time = 0, value = 100\<rparr>, \<lparr>time = 1, value = 110\<rparr>, \<lparr>time = 2, value = 90::real\<rparr>]"
  have "value (build_synthetic_series ?s (-10) (Some 100) ! 1) = 0"
    by (simp add: build_synthetic_series_def simple_return_def)
  from build_synthetic_zero_absorbing [OF this, of 2] show ?thesis by simp
qed

text \<open>
  C7: the presets round-trip: parsing the value of each of the 20 options of
  \<open>buildSyntheticOptions\<close> gives +1 \<dots> +10 and then -1 \<dots> -10, in option
  order, and each label names the same multiple.
\<close>

theorem synthetic_options_roundtrip:
  "map (parse_leverage \<circ> opt_value) build_synthetic_options =
     map (\<lambda>k. Some (real_of_int k)) ([1..10] @ map uminus [1..10]) \<and>
   map opt_label build_synthetic_options =
     map (\<lambda>k. ''+'' @ string_of_nat k @ ''x SPX'') [1..<11]
     @ map (\<lambda>k. ''-'' @ string_of_nat k @ ''x SPX'') [1..<11]"
  by code_simp

text \<open>
  C8: the leverage the component uses, \<open>parseLeverage(preset) || 1\<close>, is never 0,
  whatever the preset string: unparsable presets and a parsed 0 fall back to 1.
\<close>

theorem leverage_of_preset_nonzero: "leverage_of_preset p \<noteq> 0"
  by (simp add: leverage_of_preset_def split: option.split)

text \<open>
  The parser does not validate the range or the integrality the spec asks for
  (\<open>[-10, 10]\<close> without 0): \<open>SYNTHETIC:+11\<close> parses to 11 and
  \<open>SYNTHETIC:-2.5\<close> to -2.5, while a non-numeric tail is \<open>null\<close> and the
  component silently uses leverage 1.
\<close>

theorem parse_leverage_unvalidated:
  "parse_leverage ''SYNTHETIC:+11'' = Some 11 \<and>
   parse_leverage ''SYNTHETIC:-2.5'' = Some (-2.5) \<and>
   parse_leverage ''SYNTHETIC:abc'' = None \<and>
   leverage_of_preset ''SYNTHETIC:abc'' = 1 \<and>
   leverage_of_preset ''SYNTHETIC:'' = 1"
  by code_simp

text \<open>
  C9: every preset of the form \<open>SYNTHETIC:+k\<close> or \<open>SYNTHETIC:-k\<close>, for any
  natural number k written in decimal, parses back to +k or -k: the sign survives
  the stripping of the \<open>+\<close> and \<open>-\<close> characters, and the parser checks neither
  the range [-10, 10] nor k \<noteq> 0 of the spec (so \<open>SYNTHETIC:+11\<close> is 11).
\<close>

theorem preset_value_roundtrip:
  "parse_leverage (''SYNTHETIC:+'' @ string_of_nat k) = Some (real k) \<and>
   parse_leverage (''SYNTHETIC:-'' @ string_of_nat k) = Some (- real k)"
proof -
  let ?m = "string_of_nat k"
  have syn: "is_synthetic (''SYNTHETIC:+'' @ ?m)" "is_synthetic (''SYNTHETIC:-'' @ ?m)"
    using synthetic_prefix_index [of "CHR ''+'' # ?m"] synthetic_prefix_index [of "CHR ''-'' # ?m"]
    by (simp_all add: is_synthetic_def)
  have ip: "js_index_of (''SYNTHETIC:+'' @ ?m) '':-'' = -1"
    by (simp add: js_index_of_def js_index_of_from_notin string_of_nat_no_sign)
  have im: "js_index_of (''SYNTHETIC:-'' @ ?m) '':-'' = 9"
    by (simp add: js_index_of_def)
  have sp: "js_split CHR '':'' (''SYNTHETIC:+'' @ ?m) = [''SYNTHETIC'', CHR ''+'' # ?m]"
           "js_split CHR '':'' (''SYNTHETIC:-'' @ ?m) = [''SYNTHETIC'', CHR ''-'' # ?m]"
    by (simp_all add: js_split_nosep string_of_nat_no_sign Let_def)
  show ?thesis
    using syn ip im sp
    by (simp add: parse_leverage_def js_remove_first_notin string_of_nat_no_sign js_string_to_number_nat)
qed

end
