(* ===== verification/JsDate.thy ===== *)
theory JsDate
  imports JsRuntime
begin

text \<open>
  The UTC part of JavaScript's \<open>Date\<close>, from the ECMAScript specification (runtime,
  not repository code). A time value is an integer count of milliseconds since
  1970-01-01T00:00Z, or NaN (\<open>None\<close>) for an invalid date; \<open>new Date(x)\<close> applies
  \<open>TimeClip\<close> (NaN beyond \<open>8.64e15\<close>, otherwise truncation towards zero), and
  every \<open>setUTC*\<close> method rebuilds the value with \<open>MakeDay\<close>/\<open>MakeDate\<close> and
  clips it again. The civil calendar (\<open>MakeDay\<close>, \<open>YearFromTime\<close>,
  \<open>MonthFromTime\<close>, \<open>DateFromTime\<close>) is the proleptic Gregorian one, computed with
  the era-based day-number conversions.
\<close>

definition ms_per_day :: int where
  "ms_per_day = 86400000"

definition max_time_value :: int where
  "max_time_value = 8640000000000000"

definition time_clip :: "real \<Rightarrow> int option" where
  "time_clip t =
     (if real_of_int max_time_value < \<bar>t\<bar> then None
      else Some (if 0 \<le> t then \<lfloor>t\<rfloor> else \<lceil>t\<rceil>))"

definition date_clip :: "int \<Rightarrow> int option" where
  "date_clip t = (if max_time_value < \<bar>t\<bar> then None else Some t)"

subsection \<open>Day numbers and the civil calendar\<close>

definition js_day :: "int \<Rightarrow> int" where
  "js_day t = t div ms_per_day"

definition time_within_day :: "int \<Rightarrow> int" where
  "time_within_day t = t mod ms_per_day"

text \<open>Day number (days since 1970-01-01) of year \<open>y\<close>, month \<open>m \<in> 1..12\<close>, day \<open>d\<close>.\<close>

definition days_from_civil :: "int \<Rightarrow> int \<Rightarrow> int \<Rightarrow> int" where
  "days_from_civil y m d =
     (let y' = (if m \<le> 2 then y - 1 else y);
          era = y' div 400;
          yoe = y' - era * 400;
          doy = (153 * (if 2 < m then m - 3 else m + 9) + 2) div 5 + d - 1;
          doe = yoe * 365 + yoe div 4 - yoe div 100 + doy
      in era * 146097 + doe - 719468)"

text \<open>Year, month (1..12) and day of the month of a day number.\<close>

definition civil_from_days :: "int \<Rightarrow> int \<times> int \<times> int" where
  "civil_from_days z0 =
     (let z = z0 + 719468;
          era = z div 146097;
          doe = z - era * 146097;
          yoe = (doe - doe div 1460 + doe div 36524 - doe div 146096) div 365;
          doy = doe - (365 * yoe + yoe div 4 - yoe div 100);
          mp = (5 * doy + 2) div 153;
          d = doy - (153 * mp + 2) div 5 + 1;
          m = (if mp < 10 then mp + 3 else mp - 9)
      in (if m \<le> 2 then yoe + era * 400 + 1 else yoe + era * 400, m, d))"

definition js_year :: "int \<Rightarrow> int" where
  "js_year t = fst (civil_from_days (js_day t))"

text \<open>\<open>getUTCMonth\<close> counts months from 0.\<close>

definition js_month :: "int \<Rightarrow> int" where
  "js_month t = fst (snd (civil_from_days (js_day t))) - 1"

definition js_date :: "int \<Rightarrow> int" where
  "js_date t = snd (snd (civil_from_days (js_day t)))"

text \<open>\<open>getUTCDay\<close>: 0 is Sunday; 1970-01-01 was a Thursday.\<close>

definition js_week_day :: "int \<Rightarrow> int" where
  "js_week_day t = (js_day t + 4) mod 7"

definition js_hour :: "int \<Rightarrow> int" where
  "js_hour t = (t div 3600000) mod 24"

definition js_minute :: "int \<Rightarrow> int" where
  "js_minute t = (t div 60000) mod 60"

definition make_time :: "int \<Rightarrow> int \<Rightarrow> int \<Rightarrow> int \<Rightarrow> int" where
  "make_time h mi s ms = h * 3600000 + mi * 60000 + s * 1000 + ms"

text \<open>\<open>MakeDay(year, month, date)\<close>: months beyond 0..11 carry into the year, dates
  beyond the month's length carry into the following months.\<close>

definition make_day :: "int \<Rightarrow> int \<Rightarrow> int \<Rightarrow> int" where
  "make_day y m dt = days_from_civil (y + m div 12) (m mod 12 + 1) 1 + dt - 1"

definition make_date :: "int \<Rightarrow> int \<Rightarrow> int" where
  "make_date dy tm = dy * ms_per_day + tm"

subsection \<open>The setters used by the chart\<close>

definition set_utc_hours :: "int \<Rightarrow> int \<Rightarrow> int \<Rightarrow> int \<Rightarrow> int option \<Rightarrow> int option" where
  "set_utc_hours h mi s ms d =
     (case d of None \<Rightarrow> None | Some t \<Rightarrow> date_clip (make_date (js_day t) (make_time h mi s ms)))"

definition set_utc_minutes :: "int \<Rightarrow> int \<Rightarrow> int \<Rightarrow> int option \<Rightarrow> int option" where
  "set_utc_minutes mi s ms d =
     (case d of None \<Rightarrow> None
      | Some t \<Rightarrow> date_clip (make_date (js_day t) (make_time (js_hour t) mi s ms)))"

definition set_utc_seconds :: "int \<Rightarrow> int \<Rightarrow> int option \<Rightarrow> int option" where
  "set_utc_seconds s ms d =
     (case d of None \<Rightarrow> None
      | Some t \<Rightarrow> date_clip (make_date (js_day t) (make_time (js_hour t) (js_minute t) s ms)))"

definition set_utc_date :: "int \<Rightarrow> int option \<Rightarrow> int option" where
  "set_utc_date dt d =
     (case d of None \<Rightarrow> None
      | Some t \<Rightarrow> date_clip (make_date (make_day (js_year t) (js_month t) dt) (time_within_day t)))"

definition set_utc_month :: "int \<Rightarrow> int option \<Rightarrow> int option" where
  "set_utc_month mo d =
     (case d of None \<Rightarrow> None
      | Some t \<Rightarrow> date_clip (make_date (make_day (js_year t) mo (js_date t)) (time_within_day t)))"

lemmas js_date_defs = ms_per_day_def max_time_value_def time_clip_def date_clip_def
  js_day_def time_within_day_def days_from_civil_def civil_from_days_def js_year_def
  js_month_def js_date_def js_week_day_def js_hour_def js_minute_def make_time_def
  make_day_def make_date_def set_utc_hours_def set_utc_minutes_def set_utc_seconds_def
  set_utc_date_def set_utc_month_def

subsection \<open>Facts about the time fields\<close>

lemma set_utc_hours_midnight:
  "set_utc_hours 0 0 0 0 (Some t) = date_clip (t - t mod ms_per_day)"
  by (simp add: set_utc_hours_def make_date_def make_time_def js_day_def
      minus_mod_eq_div_mult)

lemma date_clip_le: "date_clip t = Some t' \<Longrightarrow> t' = t"
  by (simp add: date_clip_def split: if_splits)

end
