(* ===== verification/Axis.thy ===== *)
theory Axis
  imports JsDate
begin

text \<open>
  The x-axis helpers of \<^verbatim>\<open>src/src/LiveSP500Canvas.jsx\<close>:
  \<open>intervalToStepMs\<close>, \<open>alignToInterval\<close> and \<open>addInterval\<close> over the
  interval tokens (strings, as in the code, so that the \<open>default\<close> branches stay),
  and the two loops of \<open>useChartPath\<close> that make the x ticks (bounded by the
  iteration guard 5000, modelled as fuel) and choose the labelled ticks (greedy
  minimum-gap filter, then the first/last fix-up). A timestamp that is NaN is
  \<open>None\<close>.
\<close>

subsection \<open>Interval arithmetic\<close>

definition interval_to_step_ms :: "string \<Rightarrow> int option" where
  "interval_to_step_ms interval =
     (if interval = ''1'' then Some (60 * 1000)
      else if interval = ''5'' then Some (5 * 60 * 1000)
      else if interval = ''15'' then Some (15 * 60 * 1000)
      else if interval = ''60'' then Some (60 * 60 * 1000)
      else if interval = ''D'' then Some (24 * 60 * 60 * 1000)
      else if interval = ''W'' then Some (7 * 24 * 60 * 60 * 1000)
      else if interval = ''M'' then None
      else Some (24 * 60 * 60 * 1000))"

definition align_to_interval :: "real \<Rightarrow> string \<Rightarrow> real option" where
  "align_to_interval ts interval =
     (let d = time_clip ts
      in map_option real_of_int
          (if interval = ''M'' then set_utc_hours 0 0 0 0 (set_utc_date 1 d)
           else if interval = ''W'' then
             (case d of
                None \<Rightarrow> None
              | Some t \<Rightarrow>
                  let diff = (js_week_day t + 6) mod 7
                  in set_utc_hours 0 0 0 0 (set_utc_date (js_date t - diff) d))
           else if interval = ''D'' then set_utc_hours 0 0 0 0 d
           else if interval = ''60'' then set_utc_minutes 0 0 0 d
           else if interval = ''15'' then
             (case d of None \<Rightarrow> None
              | Some t \<Rightarrow> set_utc_minutes (js_minute t div 15 * 15) 0 0 d)
           else if interval = ''5'' then
             (case d of None \<Rightarrow> None
              | Some t \<Rightarrow> set_utc_minutes (js_minute t div 5 * 5) 0 0 d)
           else if interval = ''1'' then set_utc_seconds 0 0 d
           else d))"

definition add_interval :: "real \<Rightarrow> string \<Rightarrow> real option" where
  "add_interval ts interval =
     (if interval = ''M'' then
        (case time_clip ts of
           None \<Rightarrow> None
         | Some t \<Rightarrow> map_option real_of_int (set_utc_month (js_month t + 1) (Some t)))
      else
        let step = (case interval_to_step_ms interval of
                      None \<Rightarrow> 24 * 60 * 60 * 1000
                    | Some s \<Rightarrow> if s = 0 then 24 * 60 * 60 * 1000 else s)
        in Some (ts + real_of_int step))"

subsection \<open>Tick generation\<close>

record xtick =
  tick_x :: real
  tick_ts :: real

text \<open>
  \<open>while (t <= xMax && count < guard)\<close>: the fuel is \<open>guard - count\<close>; a NaN
  \<open>t\<close> fails the comparison and ends the loop.
\<close>

fun tick_loop :: "string \<Rightarrow> (real \<Rightarrow> real) \<Rightarrow> real \<Rightarrow> nat \<Rightarrow> real option \<Rightarrow> xtick list" where
  "tick_loop interval xScale xMax 0 t = []"
| "tick_loop interval xScale xMax (Suc n) t =
     (case t of
        None \<Rightarrow> []
      | Some t' \<Rightarrow>
          if t' \<le> xMax
          then \<lparr>tick_x = xScale t', tick_ts = t'\<rparr> # tick_loop interval xScale xMax n (add_interval t' interval)
          else [])"

definition tick_guard :: nat where
  "tick_guard = 5000"

definition gen_x_ticks :: "string \<Rightarrow> (real \<Rightarrow> real) \<Rightarrow> real \<Rightarrow> real \<Rightarrow> xtick list" where
  "gen_x_ticks interval xScale xMin xMax =
     (let ticks = tick_loop interval xScale xMax tick_guard (align_to_interval xMin interval)
      in if length ticks < 2
         then ticks @ [\<lparr>tick_x = xScale xMin, tick_ts = xMin\<rparr>, \<lparr>tick_x = xScale xMax, tick_ts = xMax\<rparr>]
         else ticks)"

subsection \<open>Label selection\<close>

text \<open>
  A label is placed at an x position and shows \<open>tickLabel(ts, interval)\<close>; the
  interval is the same for every label of a chart, so the model keeps the timestamp
  the text is made from (the locale formatting itself is not modelled).
\<close>

record xlabel =
  label_x :: real
  label_ts :: real

definition min_gap :: real where
  "min_gap = 80"

definition label_of_tick :: "xtick \<Rightarrow> xlabel" where
  "label_of_tick t = \<lparr>label_x = tick_x t, label_ts = tick_ts t\<rparr>"

text \<open>The \<open>forEach\<close> pass; \<open>lastLabeledX\<close> starts at \<open>-Infinity\<close> (\<open>None\<close>).\<close>

fun greedy_labels :: "real option \<Rightarrow> xtick list \<Rightarrow> xlabel list" where
  "greedy_labels lastX [] = []"
| "greedy_labels lastX (t # ts) =
     (if (case lastX of None \<Rightarrow> True | Some l \<Rightarrow> min_gap \<le> tick_x t - l)
      then label_of_tick t # greedy_labels (Some (tick_x t)) ts
      else greedy_labels lastX ts)"

definition x_labels :: "xtick list \<Rightarrow> xlabel list" where
  "x_labels xTicks =
     (let ls = greedy_labels None xTicks
      in if ls \<noteq> []
         then
           let wantsFirst = min_gap / 2 < \<bar>label_x (hd ls) - tick_x (hd xTicks)\<bar>;
               wantsLast = min_gap / 2 < \<bar>label_x (last ls) - tick_x (last xTicks)\<bar>;
               ls1 = (if wantsFirst then label_of_tick (hd xTicks) # ls else ls)
           in if wantsLast then ls1 @ [label_of_tick (last xTicks)] else ls1
         else ls)"

subsection \<open>Lemmas\<close>

lemma tick_loop_length_le: "length (tick_loop interval xScale xMax n t) \<le> n"
  by (induction n arbitrary: t) (simp_all split: option.split)

lemma tick_loop_ts_le: "tk \<in> set (tick_loop interval xScale xMax n t) \<Longrightarrow> tick_ts tk \<le> xMax"
  by (induction n arbitrary: t) (auto split: option.splits if_splits)

lemma add_interval_fixed:
  "interval \<noteq> ''M'' \<Longrightarrow> add_interval t interval = Some (t + real_of_int (the (interval_to_step_ms interval)))"
  by (simp add: add_interval_def interval_to_step_ms_def)

text \<open>For an interval with a fixed step, the tick loop walks an arithmetic progression.\<close>

lemma tick_loop_progression:
  assumes "\<forall>t. add_interval t interval = Some (t + s)"
  shows "tick_loop interval xScale xMax n (Some a) =
           map (\<lambda>t. \<lparr>tick_x = xScale t, tick_ts = t\<rparr>)
             (takeWhile (\<lambda>t. t \<le> xMax) (map (\<lambda>k. a + real k * s) [0..<n]))"
proof (induction n arbitrary: a)
  case 0
  then show ?case by simp
next
  case (Suc n)
  have "map (\<lambda>k. a + real k * s) [0..<Suc n] = a # map (\<lambda>k. (a + s) + real k * s) [0..<n]"
    by (simp add: upt_conv_Cons map_Suc_upt [symmetric] algebra_simps del: upt_Suc)
  with Suc.IH [of "a + s"] assms show ?case by simp
qed

text \<open>A prefix of the progression that already contains a failing element decides
  \<open>takeWhile\<close>.\<close>

lemma takeWhile_upt_cut:
  assumes "\<not> P (f k)" "k < n"
  shows "takeWhile P (map f [0..<n]) = takeWhile P (map f [0..<Suc k])"
proof -
  have "[0..<n] = [0..<Suc k] @ [Suc k..<n]"
    using upt_add_eq_append [of 0 "Suc k" "n - Suc k"] assms(2) by (simp del: upt_Suc)
  moreover have "f k \<in> set (map f [0..<Suc k])" by simp
  ultimately show ?thesis using assms(1) by (metis map_append takeWhile_append1)
qed

lemma greedy_labels_above:
  "l \<in> set (greedy_labels (Some x) ts) \<Longrightarrow> x + min_gap \<le> label_x l"
proof (induction ts arbitrary: x)
  case Nil
  then show ?case by simp
next
  case (Cons t ts)
  show ?case
  proof (cases "min_gap \<le> tick_x t - x")
    case True
    with Cons.prems have "l = label_of_tick t \<or> l \<in> set (greedy_labels (Some (tick_x t)) ts)"
      by simp
    then show ?thesis
    proof
      assume "l = label_of_tick t"
      with True show ?thesis by (simp add: label_of_tick_def)
    next
      assume "l \<in> set (greedy_labels (Some (tick_x t)) ts)"
      from Cons.IH [OF this] True show ?thesis by (simp add: min_gap_def)
    qed
  next
    case False
    with Cons.prems Cons.IH show ?thesis by simp
  qed
qed

lemma greedy_labels_sorted:
  "sorted_wrt (\<lambda>a b. min_gap \<le> label_x b - label_x a) (greedy_labels lastX ts)"
proof (induction ts arbitrary: lastX)
  case Nil
  then show ?case by simp
next
  case (Cons t ts)
  have "\<forall>l\<in>set (greedy_labels (Some (tick_x t)) ts). min_gap \<le> label_x l - label_x (label_of_tick t)"
    using greedy_labels_above by (fastforce simp: label_of_tick_def)
  with Cons.IH show ?case by simp
qed

lemma greedy_labels_hd:
  "xTicks \<noteq> [] \<Longrightarrow> greedy_labels None xTicks \<noteq> [] \<and> hd (greedy_labels None xTicks) = label_of_tick (hd xTicks)"
  by (cases xTicks) simp_all

subsection \<open>Properties\<close>

text \<open>
  C10: the x-tick generator always yields at least two ticks (two are forced in when
  the loop makes fewer) and never more than the iteration guard of 5000.
\<close>

theorem gen_x_ticks_count:
  "2 \<le> length (gen_x_ticks interval xScale xMin xMax) \<and>
   length (gen_x_ticks interval xScale xMin xMax) \<le> tick_guard"
proof -
  let ?l = "tick_loop interval xScale xMax tick_guard (align_to_interval xMin interval)"
  have "length ?l \<le> tick_guard" by (rule tick_loop_length_le)
  then show ?thesis by (simp add: gen_x_ticks_def Let_def tick_guard_def)
qed

text \<open>
  C11: for every interval but the month, the tick loop refines an arithmetic
  progression: the ticks are the aligned start plus multiples of the interval's step
  (\<open>intervalToStepMs\<close>), up to the visible end and at most 5000 of them.
\<close>

theorem tick_loop_fixed_step:
  assumes "interval \<noteq> ''M''"
  shows "tick_loop interval xScale xMax n (Some a) =
           map (\<lambda>t. \<lparr>tick_x = xScale t, tick_ts = t\<rparr>)
             (takeWhile (\<lambda>t. t \<le> xMax)
               (map (\<lambda>k. a + real k * real_of_int (the (interval_to_step_ms interval))) [0..<n]))"
  using assms by (simp add: tick_loop_progression add_interval_fixed)

theorem tick_loop_fixed_step_witness:
  "tick_loop ''60'' (\<lambda>t. t) 7200000 4 (Some 0) =
     [\<lparr>tick_x = 0, tick_ts = 0\<rparr>, \<lparr>tick_x = 3600000, tick_ts = 3600000\<rparr>,
      \<lparr>tick_x = 7200000, tick_ts = 7200000\<rparr>]"
proof -
  have "takeWhile (\<lambda>t. t \<le> (7200000::real)) (map (\<lambda>k. 0 + real k * 3600000) [0..<4])
        = [0, 3600000, 7200000]"
    by (simp add: upt_rec)
  with tick_loop_fixed_step [of "''60''" "\<lambda>t. t" 7200000 4 0]
  show ?thesis by (simp add: interval_to_step_ms_def)
qed

text \<open>
  C12: label selection. The greedy pass labels the first tick and then only ticks at
  least 80 px right of the last label, so its labels are pairwise at least 80 px
  apart; the first-tick fix-up never fires, and the last-tick fix-up adds one label
  only when it is more than 40 px from the last greedy label.
\<close>

theorem x_labels_spacing:
  assumes "xTicks \<noteq> []"
  shows "hd (x_labels xTicks) = label_of_tick (hd xTicks) \<and>
         sorted_wrt (\<lambda>a b. min_gap \<le> label_x b - label_x a) (greedy_labels None xTicks) \<and>
         (x_labels xTicks = greedy_labels None xTicks \<or>
          (x_labels xTicks = greedy_labels None xTicks @ [label_of_tick (last xTicks)] \<and>
           min_gap / 2 < \<bar>label_x (last (greedy_labels None xTicks)) - tick_x (last xTicks)\<bar>))"
proof -
  from greedy_labels_hd [OF assms] have ne: "greedy_labels None xTicks \<noteq> []"
    and hd: "hd (greedy_labels None xTicks) = label_of_tick (hd xTicks)" by simp_all
  then have first: "\<not> min_gap / 2 < \<bar>label_x (hd (greedy_labels None xTicks)) - tick_x (hd xTicks)\<bar>"
    by (simp add: label_of_tick_def min_gap_def)
  show ?thesis
    using ne hd first greedy_labels_sorted [of None xTicks]
    by (auto simp: x_labels_def Let_def)
qed

theorem x_labels_spacing_witness:
  "hd (x_labels [\<lparr>tick_x = 40, tick_ts = 0\<rparr>, \<lparr>tick_x = 100, tick_ts = 1\<rparr>, \<lparr>tick_x = 170, tick_ts = 2\<rparr>])
     = label_of_tick \<lparr>tick_x = 40, tick_ts = 0\<rparr>"
  using x_labels_spacing [of "[\<lparr>tick_x = 40, tick_ts = 0\<rparr>, \<lparr>tick_x = 100, tick_ts = 1\<rparr>,
                              \<lparr>tick_x = 170, tick_ts = 2\<rparr>]"]
  by simp


text \<open>C23: the tick loop ends by its own condition, not by its fuel: for an interval with a
  fixed step, once the window \<open>[a, xMax]\<close> is shorter than \<open>k\<close> steps, every fuel above
  \<open>k\<close> (in particular the guard of 5000) gives the ticks that fuel \<open>k + 1\<close> gives, so the
  guard only truncates windows of 5000 steps or more.\<close>

theorem tick_loop_fuel_sufficient:
  assumes "interval \<noteq> ''M''"
    and "xMax < a + real k * real_of_int (the (interval_to_step_ms interval))" and "k < n"
  shows "tick_loop interval xScale xMax n (Some a) = tick_loop interval xScale xMax (Suc k) (Some a)"
proof -
  let ?s = "real_of_int (the (interval_to_step_ms interval))"
  have step: "\<forall>t. add_interval t interval = Some (t + ?s)" using assms(1) by (simp add: add_interval_fixed)
  have eq: "takeWhile (\<lambda>t. t \<le> xMax) (map (\<lambda>j. a + real j * ?s) [0..<n]) =
        takeWhile (\<lambda>t. t \<le> xMax) (map (\<lambda>j. a + real j * ?s) [0..<Suc k])"
    using assms(2,3) by (intro takeWhile_upt_cut) simp_all
  show ?thesis unfolding tick_loop_progression [OF step] by (simp only: eq)
qed

theorem tick_loop_fuel_sufficient_witness:
  "tick_loop ''60'' (\<lambda>t. t) 7200000 tick_guard (Some 0) = tick_loop ''60'' (\<lambda>t. t) 7200000 4 (Some 0)"
  using tick_loop_fuel_sufficient [of "''60''" 7200000 0 3 tick_guard "\<lambda>t. t"]
  by (simp add: interval_to_step_ms_def tick_guard_def)

end
