(* ===== verification/Scale.thy ===== *)
theory Scale
  imports Axis
begin

text \<open>
  The geometry engine \<open>useChartPath\<close> of \<^verbatim>\<open>src/src/LiveSP500Canvas.jsx\<close>
  (lines 266-416), split the way the code is laid out: the visible slice and its
  fallback, the value transform \<open>tf\<close> and its inverse \<open>invf\<close> chosen by the
  y mode, the padded transformed range, the x and y scales, the path, the x ticks and
  labels (theory \<open>Axis\<close>) and the six y ticks. \<open>useMemo\<close> only caches: the model
  is the function it memoises. The path string \<open>"M x y L x y ..."\<close> is the list of
  its commands, and a y label is the number \<open>toFixed\<close> prints with the format it
  uses (one decimal and a percent sign, or two decimals).
\<close>

datatype ymode = Linear | Log | Percent

definition to_y_mode :: "string \<Rightarrow> ymode" where
  "to_y_mode v =
     (if v = ''log'' then Log else if v = ''percent'' then Percent
      else if v = ''linear'' then Linear else Linear)"

record domain =
  x0 :: real
  x1 :: real

datatype path_cmd = MoveTo real real | LineTo real real

datatype ylabel = PctLabel real | NumLabel real

record ytick =
  ytick_y :: real
  ytick_label :: ylabel

record chart_geom =
  cg_path :: "path_cmd list"
  cg_xTicks :: "xtick list"
  cg_xLabels :: "xlabel list"
  cg_yTicks :: "ytick list"
  cg_xScale :: "real \<Rightarrow> real"
  cg_yScale :: "real \<Rightarrow> real"
  cg_last :: "point option"
  cg_anchor :: real

subsection \<open>The pieces of useChartPath\<close>

definition empty_geom :: chart_geom where
  "empty_geom =
     \<lparr>cg_path = [], cg_xTicks = [], cg_xLabels = [], cg_yTicks = [],
      cg_xScale = (\<lambda>t. t), cg_yScale = (\<lambda>v. v), cg_last = None, cg_anchor = 0\<rparr>"

text \<open>\<open>xMin\<close> and \<open>xMax\<close>: the domain clamped to the data's extent.\<close>

definition chart_x_bounds :: "series \<Rightarrow> domain \<Rightarrow> real \<times> real" where
  "chart_x_bounds data dm =
     (max (x0 dm) (time (hd data)), min (x1 dm) (time (last data)))"

definition chart_slice :: "series \<Rightarrow> domain \<Rightarrow> series" where
  "chart_slice data dm =
     (let (xMin, xMax) = chart_x_bounds data dm;
          s = filter (\<lambda>d. xMin \<le> time d \<and> time d \<le> xMax) data
      in if s = [] then data else s)"

definition percent_ref :: "real \<Rightarrow> real" where
  "percent_ref anchor = max (1 / 10 ^ 9) anchor"

definition select_tf :: "bool \<Rightarrow> ymode \<Rightarrow> real \<Rightarrow> real \<Rightarrow> real" where
  "select_tf useLog yMode anchor =
     (if useLog then ln
      else if yMode = Percent then (\<lambda>v. (v / percent_ref anchor - 1) * 100)
      else (\<lambda>v. v))"

definition select_invf :: "bool \<Rightarrow> ymode \<Rightarrow> real \<Rightarrow> real \<Rightarrow> real" where
  "select_invf useLog yMode anchor =
     (if useLog then exp
      else if yMode = Percent then (\<lambda>p. percent_ref anchor * (1 + p / 100))
      else (\<lambda>v. v))"

text \<open>
  \<open>tMin\<close>/\<open>tMax\<close>: minimum and maximum of the transformed values, widened by 1 on
  each side when equal, then padded by 10\<percent> of the range. The code's
  \<open>isFinite\<close> guard is not a branch here: the list is never empty and its
  elements are finite reals.
\<close>

definition t_range :: "real list \<Rightarrow> real \<times> real" where
  "t_range tVals =
     (let tMin0 = js_min_list tVals; tMax0 = js_max_list tVals;
          tMin1 = (if tMin0 = tMax0 then tMin0 - 1 else tMin0);
          tMax1 = (if tMin0 = tMax0 then tMax0 + 1 else tMax0);
          pad = (tMax1 - tMin1) * (1 / 10)
      in (tMin1 - pad, tMax1 + pad))"

definition x_scale :: "real \<Rightarrow> real \<Rightarrow> real \<Rightarrow> real \<Rightarrow> real \<Rightarrow> real \<Rightarrow> real" where
  "x_scale padLeft width rightMargin xMin xMax t =
     padLeft + ((t - xMin) / max 1 (xMax - xMin)) * (width - padLeft - rightMargin)"

definition y_scale :: "real \<Rightarrow> real \<Rightarrow> (real \<Rightarrow> real) \<Rightarrow> real \<Rightarrow> real \<Rightarrow> real \<Rightarrow> real" where
  "y_scale height padLeft tf tMin tMax v =
     height - padLeft - ((tf v - tMin) / max (1 / 10 ^ 9) (tMax - tMin)) * (height - 2 * padLeft)"

definition build_path :: "(real \<Rightarrow> real) \<Rightarrow> (real \<Rightarrow> real) \<Rightarrow> series \<Rightarrow> path_cmd list" where
  "build_path xs ys slice =
     (case slice of
        [] \<Rightarrow> []
      | p # ps \<Rightarrow> MoveTo (xs (time p)) (ys (value p)) # map (\<lambda>q. LineTo (xs (time q)) (ys (value q))) ps)"

definition y_ticks :: "ymode \<Rightarrow> real \<Rightarrow> real \<Rightarrow> (real \<Rightarrow> real) \<Rightarrow> real \<Rightarrow> real \<Rightarrow> real \<Rightarrow> ytick list" where
  "y_ticks yMode height padLeft invf anchor tMin tMax =
     map (\<lambda>j. let tv = tMin + ((tMax - tMin) / (6 - 1)) * real j;
                 raw = invf tv;
                 label = (if yMode = Percent then PctLabel ((raw / max (1 / 10 ^ 9) anchor - 1) * 100)
                          else NumLabel raw)
             in \<lparr>ytick_y = height - padLeft - ((tv - tMin) / max (1 / 10 ^ 9) (tMax - tMin)) * (height - 2 * padLeft),
                 ytick_label = label\<rparr>)
       [0..<6]"

definition use_chart_path ::
  "series \<Rightarrow> real \<Rightarrow> real \<Rightarrow> real \<Rightarrow> string \<Rightarrow> domain \<Rightarrow> ymode \<Rightarrow> real \<Rightarrow> chart_geom" where
  "use_chart_path data width height padLeft interval dm yMode rightMargin =
     (if data = [] then empty_geom
      else
        let (xMin, xMax) = chart_x_bounds data dm;
            slice = chart_slice data dm;
            anchor = value (hd slice);
            values = map value slice;
            useLog = (yMode = Log \<and> list_all (\<lambda>v. 0 < v) values);
            tf = select_tf useLog yMode anchor;
            invf = select_invf useLog yMode anchor;
            (tMin, tMax) = t_range (map tf values);
            xs = x_scale padLeft width rightMargin xMin xMax;
            ys = y_scale height padLeft tf tMin tMax;
            xT = gen_x_ticks interval xs xMin xMax
        in \<lparr>cg_path = build_path xs ys slice, cg_xTicks = xT, cg_xLabels = x_labels xT,
            cg_yTicks = y_ticks yMode height padLeft invf anchor tMin tMax,
            cg_xScale = xs, cg_yScale = ys, cg_last = Some (last slice), cg_anchor = anchor\<rparr>)"

subsection \<open>Lemmas\<close>

fun cmd_x :: "path_cmd \<Rightarrow> real" where
  "cmd_x (MoveTo x y) = x"
| "cmd_x (LineTo x y) = x"

fun cmd_y :: "path_cmd \<Rightarrow> real" where
  "cmd_y (MoveTo x y) = y"
| "cmd_y (LineTo x y) = y"

lemma build_path_points:
  "c \<in> set (build_path xs ys slice) \<Longrightarrow>
   \<exists>q\<in>set slice. cmd_x c = xs (time q) \<and> cmd_y c = ys (value q)"
  by (cases slice) (auto simp: build_path_def)

lemma chart_slice_nonempty: "data \<noteq> [] \<Longrightarrow> chart_slice data dm \<noteq> []"
  by (simp add: chart_slice_def Let_def split: prod.split)

lemma chart_slice_visible:
  assumes "\<exists>q\<in>set data. fst (chart_x_bounds data dm) \<le> time q \<and> time q \<le> snd (chart_x_bounds data dm)"
    and "q \<in> set (chart_slice data dm)"
  shows "fst (chart_x_bounds data dm) \<le> time q \<and> time q \<le> snd (chart_x_bounds data dm)"
proof -
  obtain a b where ab: "chart_x_bounds data dm = (a, b)"
    by (cases "chart_x_bounds data dm")
  with assms(1) have "filter (\<lambda>d. a \<le> time d \<and> time d \<le> b) data \<noteq> []"
    by (auto simp: filter_empty_conv)
  with ab assms(2) show ?thesis
    by (simp add: chart_slice_def)
qed

lemma percent_ref_pos [simp]: "0 < percent_ref a"
  by (simp add: percent_ref_def)

text \<open>The padded range contains every transformed value and is never degenerate.\<close>

lemma t_range_bounds:
  assumes "v \<in> set tVals"
  shows "fst (t_range tVals) \<le> v \<and> v \<le> snd (t_range tVals) \<and> fst (t_range tVals) < snd (t_range tVals)"
proof -
  have ne: "tVals \<noteq> []" using assms by auto
  have lo: "js_min_list tVals \<le> v" and hi: "v \<le> js_max_list tVals" using assms by simp_all
  have le: "js_min_list tVals \<le> js_max_list tVals" using ne by (rule js_min_le_max)
  show ?thesis
  proof (cases "js_min_list tVals = js_max_list tVals")
    case True
    then show ?thesis using lo hi by (simp add: t_range_def Let_def)
  next
    case False
    with le have "js_min_list tVals < js_max_list tVals" by simp
    then show ?thesis using lo hi False by (simp add: t_range_def Let_def field_simps)
  qed
qed

text \<open>A value between \<open>a\<close> and \<open>b\<close> divided by the floored range is in the unit interval.\<close>

lemma scaled_unit:
  fixes a b x eps :: real
  assumes "a \<le> x" "x \<le> b" "0 < eps"
  shows "0 \<le> (x - a) / max eps (b - a) \<and> (x - a) / max eps (b - a) \<le> 1"
proof -
  have pos: "0 < max eps (b - a)" using assms(3) by simp
  have "x - a \<le> max eps (b - a)" using assms(2) by simp
  with pos assms(1) show ?thesis by simp
qed

lemma flip_unit:
  fixes r p h :: real
  assumes "0 \<le> r" "r \<le> 1" "2 * p \<le> h"
  shows "p \<le> h - p - r * (h - 2 * p) \<and> h - p - r * (h - 2 * p) \<le> h - p"
proof -
  have "r * (h - 2 * p) \<le> 1 * (h - 2 * p)" using assms by (intro mult_right_mono) simp_all
  moreover have "0 \<le> r * (h - 2 * p)" using assms by simp
  ultimately show ?thesis by simp
qed

lemma stretch_unit:
  fixes r p m w :: real
  assumes "0 \<le> r" "r \<le> 1" "p + m \<le> w"
  shows "p \<le> p + r * (w - p - m) \<and> p + r * (w - p - m) \<le> w - m"
proof -
  have "r * (w - p - m) \<le> 1 * (w - p - m)" using assms by (intro mult_right_mono) simp_all
  moreover have "0 \<le> r * (w - p - m)" using assms by simp
  ultimately show ?thesis by simp
qed

text \<open>The fields of a chart over non-empty data, in terms of the pieces.\<close>

lemma use_chart_path_unfold:
  assumes "data \<noteq> []"
  shows "use_chart_path data w h p iv dm yMode rm =
    (let (xMin, xMax) = chart_x_bounds data dm;
         slice = chart_slice data dm;
         useLog = (yMode = Log \<and> list_all (\<lambda>v. 0 < v) (map value slice));
         tf = select_tf useLog yMode (value (hd slice));
         (tMin, tMax) = t_range (map tf (map value slice))
     in \<lparr>cg_path = build_path (x_scale p w rm xMin xMax) (y_scale h p tf tMin tMax) slice,
         cg_xTicks = gen_x_ticks iv (x_scale p w rm xMin xMax) xMin xMax,
         cg_xLabels = x_labels (gen_x_ticks iv (x_scale p w rm xMin xMax) xMin xMax),
         cg_yTicks = y_ticks yMode h p (select_invf useLog yMode (value (hd slice))) (value (hd slice)) tMin tMax,
         cg_xScale = x_scale p w rm xMin xMax, cg_yScale = y_scale h p tf tMin tMax,
         cg_last = Some (last slice), cg_anchor = value (hd slice)\<rparr>)"
  using assms by (simp add: use_chart_path_def Let_def split: prod.split)

lemma gen_x_ticks_at_least_two [simp]: "2 \<le> length (gen_x_ticks interval xs xMin xMax)"
  by (simp add: gen_x_ticks_def Let_def)

text \<open>The fields the y-axis claims read, for a chart over non-empty data.\<close>

lemma use_chart_path_fields:
  assumes "data \<noteq> []"
    and "useLog = (yMode = Log \<and> list_all (\<lambda>v. 0 < v) (map value (chart_slice data dm)))"
    and "a = value (hd (chart_slice data dm))"
    and "t_range (map (select_tf useLog yMode a) (map value (chart_slice data dm))) = (tMin, tMax)"
  shows "cg_yTicks (use_chart_path data w h p iv dm yMode rm) = y_ticks yMode h p (select_invf useLog yMode a) a tMin tMax"
    and "cg_yScale (use_chart_path data w h p iv dm yMode rm) = y_scale h p (select_tf useLog yMode a) tMin tMax"
    and "cg_anchor (use_chart_path data w h p iv dm yMode rm) = a"
    and "cg_path (use_chart_path data w h p iv dm yMode rm) =
           build_path (x_scale p w rm (fst (chart_x_bounds data dm)) (snd (chart_x_bounds data dm)))
                      (y_scale h p (select_tf useLog yMode a) tMin tMax) (chart_slice data dm)"
  using assms by (simp_all add: use_chart_path_def Let_def split: prod.split)

lemma y_ticks_member:
  "tk \<in> set (y_ticks yMode h p invf a tMin tMax) \<Longrightarrow>
   \<exists>j\<le>5. ytick_y tk = h - p - ((tMin + (tMax - tMin) / 5 * real j - tMin) / max (1 / 10 ^ 9) (tMax - tMin)) * (h - 2 * p)
        \<and> ytick_label tk = (if yMode = Percent
             then PctLabel ((invf (tMin + (tMax - tMin) / 5 * real j) / max (1 / 10 ^ 9) a - 1) * 100)
             else NumLabel (invf (tMin + (tMax - tMin) / 5 * real j)))"
proof -
  assume "tk \<in> set (y_ticks yMode h p invf a tMin tMax)"
  then obtain j where "j < 6" and "tk \<in> {(\<lambda>j. let tv = tMin + ((tMax - tMin) / (6 - 1)) * real j;
                 raw = invf tv;
                 label = (if yMode = Percent then PctLabel ((raw / max (1 / 10 ^ 9) a - 1) * 100)
                          else NumLabel raw)
             in \<lparr>ytick_y = h - p - ((tv - tMin) / max (1 / 10 ^ 9) (tMax - tMin)) * (h - 2 * p),
                 ytick_label = label\<rparr>) j}"
    unfolding y_ticks_def by auto
  then show ?thesis by (intro exI [of _ j]) (simp add: Let_def)
qed

lemma t_range_of_nonempty:
  "xs \<noteq> [] \<Longrightarrow> t_range xs = (tMin, tMax) \<Longrightarrow> tMin < tMax"
  using t_range_bounds [of "hd xs" xs] by simp

lemma cg_path_nonempty:
  "data \<noteq> [] \<Longrightarrow> cg_path (use_chart_path data w h p iv dm yMode rm) \<noteq> []"
  using chart_slice_nonempty [of data dm]
  by (simp add: use_chart_path_def Let_def build_path_def split: prod.split list.split)

lemma select_tf_strict_mono:
  "v < w \<Longrightarrow> (useLog \<Longrightarrow> 0 < v) \<Longrightarrow> select_tf useLog yMode a v < select_tf useLog yMode a w"
  by (auto simp: select_tf_def divide_strict_right_mono)

lemma y_scale_strict_anti:
  assumes "tf v < tf w" and "2 * p < h"
  shows "y_scale h p tf tMin tMax w < y_scale h p tf tMin tMax v"
proof -
  let ?D = "max (1 / 10 ^ 9) (tMax - tMin) :: real"
  have D: "0 < ?D" by simp
  have "(tf v - tMin) / ?D < (tf w - tMin) / ?D" using assms(1) D by (simp add: divide_strict_right_mono)
  then have m: "(tf v - tMin) / ?D * (h - 2 * p) < (tf w - tMin) / ?D * (h - 2 * p)"
    by (rule mult_strict_right_mono) (use assms(2) in simp)
  show ?thesis unfolding y_scale_def using m by linarith
qed

subsection \<open>Properties\<close>

text \<open>
  \<open>useChartPath\<close> yields at least two x ticks exactly when the series is
  non-empty: for every domain over non-empty data two ticks are forced in when the
  loop makes fewer, and over empty data (a start date after the last point) it
  returns no ticks, so the component's runtime assertion fails there.
\<close>

theorem use_chart_path_xticks:
  "2 \<le> length (cg_xTicks (use_chart_path data w h p iv dm yMode rm)) \<longleftrightarrow> data \<noteq> []"
  by (cases "data = []")
     (simp_all add: use_chart_path_def empty_geom_def Let_def split: prod.split)

text \<open>
  C14: in log mode, when some visible value is not positive, the chart is exactly
  the linear-mode chart: the log transform silently degrades to the identity.
\<close>

theorem log_mode_degrades_to_linear:
  assumes "data \<noteq> []" and "\<not> list_all (\<lambda>v. 0 < v) (map value (chart_slice data dm))"
  shows "use_chart_path data w h p iv dm Log rm = use_chart_path data w h p iv dm Linear rm"
  using assms
  by (simp add: use_chart_path_def Let_def select_tf_def select_invf_def y_ticks_def o_def split: prod.split)

theorem log_mode_degrades_to_linear_witness:
  "use_chart_path [\<lparr>time = 0, value = -5\<rparr>, \<lparr>time = 1, value = 10\<rparr>] 1200 640 40 ''60''
     \<lparr>x0 = 0, x1 = 1\<rparr> Log 90 =
   use_chart_path [\<lparr>time = 0, value = -5\<rparr>, \<lparr>time = 1, value = 10\<rparr>] 1200 640 40 ''60''
     \<lparr>x0 = 0, x1 = 1\<rparr> Linear 90"
  by (rule log_mode_degrades_to_linear) (simp_all add: chart_slice_def chart_x_bounds_def)

text \<open>
  C15: in percent mode with a positive anchor (at least \<open>1e-9\<close>), a y tick drawn
  at the height of the anchor value is labelled 0\<percent>: the anchor maps to the
  transformed value 0 and each tick's label is exactly its transformed value.
\<close>

theorem percent_tick_at_anchor_is_zero:
  assumes "data \<noteq> []" and "2 * p < h"
    and "1 / 10 ^ 9 \<le> cg_anchor (use_chart_path data w h p iv dm Percent rm)"
    and "tk \<in> set (cg_yTicks (use_chart_path data w h p iv dm Percent rm))"
    and "ytick_y tk = cg_yScale (use_chart_path data w h p iv dm Percent rm)
                        (cg_anchor (use_chart_path data w h p iv dm Percent rm))"
  shows "ytick_label tk = PctLabel 0"
proof -
  define a where "a = value (hd (chart_slice data dm))"
  obtain tMin tMax where tr: "t_range (map (select_tf False Percent a) (map value (chart_slice data dm))) = (tMin, tMax)"
    by (cases "t_range (map (select_tf False Percent a) (map value (chart_slice data dm)))")
  note f = use_chart_path_fields [OF assms(1) _ a_def tr, where w = w and p = p
    and h = h and iv = iv and rm = rm, simplified]
  have lt: "tMin < tMax"
    using t_range_of_nonempty [OF _ tr] chart_slice_nonempty [OF assms(1)] by simp
  have a_ge: "1 / 10 ^ 9 \<le> a" using assms(3) f(3) by simp
  then have ref: "percent_ref a = a" and a_pos: "0 < a"
    by (simp_all add: percent_ref_def)
  have tf0: "select_tf False Percent a a = 0"
    using ref a_pos by (simp add: select_tf_def)
  have "\<exists>j\<le>5. ytick_y tk = h - p - ((tMin + (tMax - tMin) / 5 * real j - tMin) / max (1 / 10 ^ 9) (tMax - tMin)) * (h - 2 * p)
     \<and> ytick_label tk = PctLabel ((select_invf False Percent a (tMin + (tMax - tMin) / 5 * real j) / max (1 / 10 ^ 9) a - 1) * 100)"
    using y_ticks_member [of tk Percent h p "select_invf False Percent a" a tMin tMax] assms(4) f(1)
    by simp
  then obtain j where
      y: "ytick_y tk = h - p - ((tMin + (tMax - tMin) / 5 * real j - tMin) / max (1 / 10 ^ 9) (tMax - tMin)) * (h - 2 * p)"
    and l: "ytick_label tk = PctLabel ((select_invf False Percent a (tMin + (tMax - tMin) / 5 * real j) / max (1 / 10 ^ 9) a - 1) * 100)"
    by blast
  have "h - p - ((tMin + (tMax - tMin) / 5 * real j - tMin) / max (1 / 10 ^ 9) (tMax - tMin)) * (h - 2 * p)
        = h - p - ((0 - tMin) / max (1 / 10 ^ 9) (tMax - tMin)) * (h - 2 * p)"
    using assms(5) y f(2) f(3) tf0 by (simp add: y_scale_def)
  then have "(tMin + (tMax - tMin) / 5 * real j - tMin) / max (1 / 10 ^ 9) (tMax - tMin) * (h - 2 * p)
             = (0 - tMin) / max (1 / 10 ^ 9) (tMax - tMin) * (h - 2 * p)"
    by linarith
  moreover have c: "h - 2 * p \<noteq> 0" using assms(2) by simp
  ultimately have "(tMin + (tMax - tMin) / 5 * real j - tMin) / max (1 / 10 ^ 9) (tMax - tMin)
             = (0 - tMin) / max (1 / 10 ^ 9) (tMax - tMin)"
    by (metis mult_right_cancel)
  moreover have "max (1 / 10 ^ 9) (tMax - tMin) \<noteq> (0::real)" by (simp add: max_def)
  ultimately have "tMin + (tMax - tMin) / 5 * real j - tMin = 0 - tMin"
    by (metis divide_cancel_right)
  then have "tMin + (tMax - tMin) / 5 * real j = 0"
    by simp
  moreover have "max (1 / 10 ^ 9) a = a" using a_ge by (simp add: max_absorb2)
  ultimately show ?thesis using l ref a_pos
    by (simp add: select_invf_def)
qed

theorem percent_tick_at_anchor_is_zero_witness:
  "ytick_label (cg_yTicks (use_chart_path [\<lparr>time = 0, value = 100\<rparr>, \<lparr>time = 1, value = 93\<rparr>,
      \<lparr>time = 2, value = 143\<rparr>] 1200 640 40 ''60'' \<lparr>x0 = 0, x1 = 2\<rparr> Percent 90) ! 1) = PctLabel 0"
proof -
  let ?d = "[\<lparr>time = 0, value = 100\<rparr>, \<lparr>time = 1, value = 93\<rparr>, \<lparr>time = 2, value = 143::real\<rparr>]"
  let ?dm = "\<lparr>x0 = 0, x1 = 2\<rparr>"
  let ?g = "use_chart_path ?d 1200 640 40 ''60'' ?dm Percent 90"
  have sl: "chart_slice ?d ?dm = ?d"
    by (simp add: chart_slice_def chart_x_bounds_def)
  have tr: "t_range (map (select_tf False Percent 100) (map value (chart_slice ?d ?dm))) = (-12, 48)"
    by (simp add: sl t_range_def select_tf_def percent_ref_def js_min_list_def js_max_list_def Let_def)
  note f = use_chart_path_fields [OF _ _ _ tr, where w = 1200 and h = 640 and p = 40 and iv = "''60''"
    and rm = 90, simplified sl, simplified]
  have ev: "cg_yTicks ?g ! 1 \<in> set (cg_yTicks ?g) \<and> cg_anchor ?g = 100 \<and>
            ytick_y (cg_yTicks ?g ! 1) = cg_yScale ?g (cg_anchor ?g)"
    by (simp add: f y_ticks_def Let_def y_scale_def select_tf_def percent_ref_def upt_rec)
  show ?thesis
    using percent_tick_at_anchor_is_zero [where data = ?d and p = 40 and h = 640 and w = 1200
      and iv = "''60''" and dm = ?dm and rm = 90 and tk = "cg_yTicks ?g ! 1"] ev
    by simp
qed


text \<open>
  C16: every point of the drawn path lies vertically inside the plot area
  \<open>[padLeft, height - padLeft]\<close>, in every y mode, for any non-empty data.
\<close>

theorem path_y_within_plot:
  assumes "data \<noteq> []" and "2 * p \<le> h"
    and "c \<in> set (cg_path (use_chart_path data w h p iv dm yMode rm))"
  shows "p \<le> cmd_y c \<and> cmd_y c \<le> h - p"
proof -
  define useLog where "useLog = (yMode = Log \<and> list_all (\<lambda>v. 0 < v) (map value (chart_slice data dm)))"
  define a where "a = value (hd (chart_slice data dm))"
  obtain tMin tMax where tr: "t_range (map (select_tf useLog yMode a) (map value (chart_slice data dm))) = (tMin, tMax)"
    by (cases "t_range (map (select_tf useLog yMode a) (map value (chart_slice data dm)))")
  note f = use_chart_path_fields [OF assms(1) useLog_def a_def tr, where w = w and p = p and h = h
    and iv = iv and rm = rm]
  from assms(3) f(4) obtain q where q: "q \<in> set (chart_slice data dm)"
    and cy: "cmd_y c = y_scale h p (select_tf useLog yMode a) tMin tMax (value q)"
    by (auto dest: build_path_points)
  have "select_tf useLog yMode a (value q) \<in> set (map (select_tf useLog yMode a) (map value (chart_slice data dm)))"
    using q by simp
  from t_range_bounds [OF this] tr
  have "tMin \<le> select_tf useLog yMode a (value q)" and "select_tf useLog yMode a (value q) \<le> tMax"
    by simp_all
  from scaled_unit [OF this, of "1 / 10 ^ 9"] have
    "0 \<le> (select_tf useLog yMode a (value q) - tMin) / max (1 / 10 ^ 9) (tMax - tMin)"
    "(select_tf useLog yMode a (value q) - tMin) / max (1 / 10 ^ 9) (tMax - tMin) \<le> 1"
    by simp_all
  from flip_unit [OF this assms(2)] cy show ?thesis by (simp add: y_scale_def)
qed

theorem path_y_within_plot_witness:
  "40 \<le> cmd_y (hd (cg_path (use_chart_path [\<lparr>time = 0, value = 100\<rparr>, \<lparr>time = 1, value = 120\<rparr>]
      1200 640 40 ''60'' \<lparr>x0 = 0, x1 = 1\<rparr> Linear 90)))"
  using path_y_within_plot [OF _ _ hd_in_set [OF cg_path_nonempty]] by simp


text \<open>
  C17: when some data point lies in the clamped window \<open>[xMin, xMax]\<close>, every
  point of the path lies horizontally inside the plot area
  \<open>[padLeft, width - rightMargin]\<close>.
\<close>

theorem path_x_within_plot:
  assumes "data \<noteq> []" and "p + rm \<le> w"
    and "\<exists>q\<in>set data. fst (chart_x_bounds data dm) \<le> time q \<and> time q \<le> snd (chart_x_bounds data dm)"
    and "c \<in> set (cg_path (use_chart_path data w h p iv dm yMode rm))"
  shows "p \<le> cmd_x c \<and> cmd_x c \<le> w - rm"
proof -
  define useLog where "useLog = (yMode = Log \<and> list_all (\<lambda>v. 0 < v) (map value (chart_slice data dm)))"
  define a where "a = value (hd (chart_slice data dm))"
  obtain tMin tMax where tr: "t_range (map (select_tf useLog yMode a) (map value (chart_slice data dm))) = (tMin, tMax)"
    by (cases "t_range (map (select_tf useLog yMode a) (map value (chart_slice data dm)))")
  note f = use_chart_path_fields [OF assms(1) useLog_def a_def tr, where w = w and p = p and h = h
    and iv = iv and rm = rm]
  from assms(4) f(4) obtain q where q: "q \<in> set (chart_slice data dm)"
    and cx: "cmd_x c = x_scale p w rm (fst (chart_x_bounds data dm)) (snd (chart_x_bounds data dm)) (time q)"
    by (auto dest: build_path_points)
  from chart_slice_visible [OF assms(3) q]
  have "fst (chart_x_bounds data dm) \<le> time q" "time q \<le> snd (chart_x_bounds data dm)" by simp_all
  from scaled_unit [OF this, of 1] have
    "0 \<le> (time q - fst (chart_x_bounds data dm)) / max 1 (snd (chart_x_bounds data dm) - fst (chart_x_bounds data dm))"
    "(time q - fst (chart_x_bounds data dm)) / max 1 (snd (chart_x_bounds data dm) - fst (chart_x_bounds data dm)) \<le> 1"
    by simp_all
  from stretch_unit [OF this assms(2)] cx show ?thesis by (simp add: x_scale_def)
qed

theorem path_x_within_plot_witness:
  "40 \<le> cmd_x (hd (cg_path (use_chart_path [\<lparr>time = 0, value = 100\<rparr>, \<lparr>time = 1, value = 120\<rparr>]
      1200 640 40 ''60'' \<lparr>x0 = 0, x1 = 1\<rparr> Linear 90)))"
proof -
  let ?d = "[\<lparr>time = 0, value = 100\<rparr>, \<lparr>time = 1, value = 120::real\<rparr>]"
  have "\<exists>q\<in>set ?d. fst (chart_x_bounds ?d \<lparr>x0 = 0, x1 = 1\<rparr>) \<le> time q \<and>
                    time q \<le> snd (chart_x_bounds ?d \<lparr>x0 = 0, x1 = 1\<rparr>)"
    by (simp add: chart_x_bounds_def)
  with path_x_within_plot [OF _ _ _ hd_in_set [OF cg_path_nonempty], of ?d 40 90 1200]
  show ?thesis by simp
qed


text \<open>
  C18: the y axis points up in every mode: over non-empty data a larger value is drawn
  strictly higher (a smaller SVG y), in linear and percent mode for all values and in log
  mode for positive ones, whatever the anchor (a non-positive one included).
\<close>

theorem y_scale_orientation:
  assumes "data \<noteq> []" and "2 * p < h" and "v < w" and "yMode = Log \<Longrightarrow> 0 < v"
  shows "cg_yScale (use_chart_path data wd h p iv dm yMode rm) w
           < cg_yScale (use_chart_path data wd h p iv dm yMode rm) v"
proof -
  define useLog where "useLog = (yMode = Log \<and> list_all (\<lambda>v. 0 < v) (map value (chart_slice data dm)))"
  define a where "a = value (hd (chart_slice data dm))"
  obtain tMin tMax where tr: "t_range (map (select_tf useLog yMode a) (map value (chart_slice data dm))) = (tMin, tMax)"
    by (metis surj_pair)
  have "select_tf useLog yMode a v < select_tf useLog yMode a w"
    using assms(3,4) by (intro select_tf_strict_mono) (auto simp: useLog_def)
  then show ?thesis
    using use_chart_path_fields(2) [OF assms(1) useLog_def a_def tr] y_scale_strict_anti assms(2) by simp
qed

theorem y_scale_orientation_witness:
  "cg_yScale (use_chart_path [\<lparr>time = 0, value = 1\<rparr>] 1200 640 40 ''60'' \<lparr>x0 = 0, x1 = 1\<rparr> Linear 90) 2
     < cg_yScale (use_chart_path [\<lparr>time = 0, value = 1\<rparr>] 1200 640 40 ''60'' \<lparr>x0 = 0, x1 = 1\<rparr> Linear 90) 1"
  by (rule y_scale_orientation) simp_all

text \<open>
  When no data point lies in the clamped window (a window inside a gap of the
  series), the fallback draws the whole series with the window's x scale, so the path
  leaves the plot area: data at times 0 and 100 viewed through \<open>[40, 60]\<close> puts
  its points at x = -2100 and x = 3250 on a 1200-wide chart.
\<close>

theorem chart_fallback_leaves_plot:
  "map cmd_x (cg_path (use_chart_path [\<lparr>time = 0, value = 1\<rparr>, \<lparr>time = 100, value = 2\<rparr>]
      1200 640 40 ''60'' \<lparr>x0 = 40, x1 = 60\<rparr> Linear 90)) = [-2100, 3250]"
proof -
  let ?d = "[\<lparr>time = 0, value = 1\<rparr>, \<lparr>time = 100, value = 2::real\<rparr>]"
  let ?dm = "\<lparr>x0 = 40, x1 = 60\<rparr>"
  have sl: "chart_slice ?d ?dm = ?d"
    by (simp add: chart_slice_def chart_x_bounds_def)
  have tr: "t_range (map (select_tf False Linear 1) (map value (chart_slice ?d ?dm))) = (9 / 10, 21 / 10)"
    by (simp add: sl t_range_def select_tf_def js_min_list_def js_max_list_def Let_def)
  note f = use_chart_path_fields [OF _ _ _ tr, where w = 1200 and h = 640 and p = 40 and iv = "''60''"
    and rm = 90, simplified sl, simplified]
  show ?thesis
    by (simp add: f build_path_def x_scale_def chart_x_bounds_def)
qed


text \<open>
  C19: over non-empty data there are exactly six y ticks, the first at the bottom
  edge \<open>height - padLeft\<close>, and every tick lies inside \<open>[padLeft, height - padLeft]\<close>.
\<close>

theorem y_ticks_layout:
  assumes "data \<noteq> []" and "2 * p \<le> h"
  shows "length (cg_yTicks (use_chart_path data w h p iv dm yMode rm)) = 6 \<and>
         ytick_y (hd (cg_yTicks (use_chart_path data w h p iv dm yMode rm))) = h - p \<and>
         (\<forall>tk\<in>set (cg_yTicks (use_chart_path data w h p iv dm yMode rm)). p \<le> ytick_y tk \<and> ytick_y tk \<le> h - p)"
proof -
  define useLog where "useLog = (yMode = Log \<and> list_all (\<lambda>v. 0 < v) (map value (chart_slice data dm)))"
  define a where "a = value (hd (chart_slice data dm))"
  obtain tMin tMax where tr: "t_range (map (select_tf useLog yMode a) (map value (chart_slice data dm))) = (tMin, tMax)"
    by (cases "t_range (map (select_tf useLog yMode a) (map value (chart_slice data dm)))")
  note f = use_chart_path_fields [OF assms(1) useLog_def a_def tr, where w = w and p = p and h = h
    and iv = iv and rm = rm]
  have lt: "tMin < tMax"
    using t_range_of_nonempty [OF _ tr] chart_slice_nonempty [OF assms(1)] by simp
  have inside: "p \<le> ytick_y tk \<and> ytick_y tk \<le> h - p"
    if tk: "tk \<in> set (y_ticks yMode h p (select_invf useLog yMode a) a tMin tMax)" for tk
  proof -
    from y_ticks_member [OF tk] obtain j where j: "j \<le> 5"
      and y: "ytick_y tk = h - p - ((tMin + (tMax - tMin) / 5 * real j - tMin) / max (1 / 10 ^ 9) (tMax - tMin)) * (h - 2 * p)"
      by blast
    have "real j \<le> 5" using j by simp
    then have "(tMax - tMin) / 5 * real j \<le> (tMax - tMin) / 5 * 5"
      using lt by (intro mult_left_mono) simp_all
    then have "tMin \<le> tMin + (tMax - tMin) / 5 * real j" "tMin + (tMax - tMin) / 5 * real j \<le> tMax"
      using lt by simp_all
    from scaled_unit [OF this, of "1 / 10 ^ 9"] have
      "0 \<le> (tMin + (tMax - tMin) / 5 * real j - tMin) / max (1 / 10 ^ 9) (tMax - tMin)"
      "(tMin + (tMax - tMin) / 5 * real j - tMin) / max (1 / 10 ^ 9) (tMax - tMin) \<le> 1"
      by simp_all
    from flip_unit [OF this assms(2)] y show ?thesis by simp
  qed
  have "length (y_ticks yMode h p (select_invf useLog yMode a) a tMin tMax) = 6"
    and "ytick_y (hd (y_ticks yMode h p (select_invf useLog yMode a) a tMin tMax)) = h - p"
    by (simp_all add: y_ticks_def Let_def upt_rec)
  with inside f(1) show ?thesis by simp
qed

theorem y_ticks_layout_witness:
  "length (cg_yTicks (use_chart_path [\<lparr>time = 0, value = 100\<rparr>] 1200 640 40 ''D''
      \<lparr>x0 = 0, x1 = 1\<rparr> Linear 90)) = 6"
  using y_ticks_layout [of "[\<lparr>time = 0, value = 100\<rparr>]" 40 640 1200 "''D''" "\<lparr>x0 = 0, x1 = 1\<rparr>" Linear 90]
  by simp

text \<open>
  C20: each mode's inverse transform undoes its transform, so the y-axis labels read
  back the values the axis plots: \<open>invf (tf v) = v\<close> in linear and percent mode
  for every value, and in log mode for every positive value (the only ones log mode
  is used for).
\<close>

theorem select_tf_roundtrip:
  "(useLog \<longrightarrow> 0 < v) \<Longrightarrow> select_invf useLog yMode a (select_tf useLog yMode a v) = v"
proof -
  have "percent_ref a \<noteq> 0" using percent_ref_pos [of a] by linarith
  then show "(useLog \<longrightarrow> 0 < v) \<Longrightarrow> ?thesis"
    by (auto simp: select_tf_def select_invf_def field_simps)
qed

theorem select_tf_roundtrip_witness:
  "select_invf True Log 5 (select_tf True Log 5 2) = 2 \<and>
   select_invf False Percent (-3) (select_tf False Percent (-3) 7) = 7"
  using select_tf_roundtrip [of True 2 Log 5] select_tf_roundtrip [of False 7 Percent "-3"]
  by simp

text \<open>
  In percent mode an anchor below \<open>1e-9\<close> (a synthetic series that went to 0
  or below) is not at 0\<percent>: the reference is clamped to \<open>1e-9\<close>, so the anchor's
  own transformed value is \<open>(anchor * 10^9 - 1) * 100\<close>, a large negative number.
\<close>

theorem percent_nonpositive_anchor:
  "a < 1 / 10 ^ 9 \<Longrightarrow>
   select_tf False Percent a a = (a * 10 ^ 9 - 1) * 100 \<and> select_tf False Percent a a < 0"
  by (simp add: select_tf_def percent_ref_def max_def)

theorem percent_nonpositive_anchor_witness:
  "select_tf False Percent (-5) (-5) = -500000000100"
  using percent_nonpositive_anchor [of "-5"] by simp

end
