(* ===== verification/Viewport.thy ===== *)
theory Viewport
  imports Scale
begin

text \<open>
  The interaction handlers of the component in \<^verbatim>\<open>src/src/LiveSP500Canvas.jsx\<close>
  (\<open>onWheel\<close>, \<open>onPointerDown\<close>, \<open>onPointerMove\<close>, \<open>onPointerUp\<close>,
  \<open>onLeave\<close>, \<open>fitToScreen\<close>, and the effects that reset the domain). The React
  state they write (\<open>domain\<close>, \<open>isPanning\<close>, \<open>cross\<close>) and the ref
  \<open>panStart\<close> are the record \<open>view_state\<close>; every handler is a function from the
  state before the event to the state after it. What a handler reads from the last
  render (the synthetic series, and the chart's \<open>xScale\<close>/\<open>yScale\<close>) is the
  record \<open>view_ctx\<close>. State updates are taken to be visible to the next event (React
  re-renders between pointer events). The event's pointer position relative to the
  element (\<open>e.clientX - rect.left\<close>) is an argument of the event.
\<close>

record pan_start =
  ps_x :: real
  ps_x0 :: real
  ps_x1 :: real

record cross =
  cr_x :: real
  cr_y :: real
  cr_ts :: real
  cr_price :: real

record view_state =
  vs_domain :: "domain option"
  vs_isPanning :: bool
  vs_panStart :: "pan_start option"
  vs_cross :: "cross option"

record view_ctx =
  vc_synth :: series
  vc_xScale :: "real \<Rightarrow> real"
  vc_yScale :: "real \<Rightarrow> real"

definition chart_width :: real where
  "chart_width = 1200"

definition right_margin :: real where
  "right_margin = 90"

definition init_view :: view_state where
  "init_view = \<lparr>vs_domain = None, vs_isPanning = False, vs_panStart = None, vs_cross = None\<rparr>"

subsection \<open>Derived domains\<close>

definition full_domain :: "series \<Rightarrow> domain" where
  "full_domain synth =
     \<lparr>x0 = (case synth of [] \<Rightarrow> 0 | p # _ \<Rightarrow> time p),
      x1 = (if synth \<noteq> [] then time (last synth) else 1)\<rparr>"

definition active_domain :: "series \<Rightarrow> domain option \<Rightarrow> domain" where
  "active_domain synth d = (case d of None \<Rightarrow> full_domain synth | Some dm \<Rightarrow> dm)"

definition clamp :: "real \<Rightarrow> real \<Rightarrow> real \<Rightarrow> real" where
  "clamp n lo hi = max lo (min hi n)"

text \<open>The timestamp under a pixel, as both handlers compute it.\<close>

definition time_at_px :: "domain \<Rightarrow> real \<Rightarrow> real" where
  "time_at_px ad px = x0 ad + ((px - 40) / max 1 (chart_width - 40 - right_margin)) * (x1 ad - x0 ad)"

subsection \<open>Wheel zoom\<close>

text \<open>The new domain of \<open>onWheel\<close>: scale around the timestamp under the cursor,
  then clamp to the full extent and to the minimum span.\<close>

definition zoom_domain :: "domain \<Rightarrow> domain \<Rightarrow> real \<Rightarrow> real \<Rightarrow> domain" where
  "zoom_domain full ad px deltaY =
     (let tAtCursor = time_at_px ad px;
          direction = (if 0 < deltaY then 1 else -1 :: real);
          scale = exp (direction * (2 / 10));
          newX0 = tAtCursor - (tAtCursor - x0 ad) * scale;
          newX1 = tAtCursor + (x1 ad - tAtCursor) * scale;
          minSpan = (x1 full - x0 full) / 500
      in \<lparr>x0 = max (x0 full) (min newX0 (newX1 - minSpan)),
          x1 = min (x1 full) (max newX1 (newX0 + minSpan))\<rparr>)"

definition on_wheel :: "series \<Rightarrow> real \<Rightarrow> real \<Rightarrow> view_state \<Rightarrow> view_state" where
  "on_wheel synth px deltaY st =
     (if synth = [] then st
      else st\<lparr>vs_domain := Some (zoom_domain (full_domain synth)
                                   (active_domain synth (vs_domain st)) px deltaY)\<rparr>)"

subsection \<open>Drag pan\<close>

definition on_pointer_down :: "series \<Rightarrow> real \<Rightarrow> view_state \<Rightarrow> view_state" where
  "on_pointer_down synth clientX st =
     (let ad = active_domain synth (vs_domain st)
      in st\<lparr>vs_isPanning := True, vs_panStart := Some \<lparr>ps_x = clientX, ps_x0 = x0 ad, ps_x1 = x1 ad\<rparr>\<rparr>)"

text \<open>The pan arithmetic of \<open>onPointerMove\<close>: shift, minimum span, clamp to each edge.\<close>

definition pan_domain :: "series \<Rightarrow> pan_start \<Rightarrow> real \<Rightarrow> domain" where
  "pan_domain synth ps clientX =
     (let full = full_domain synth;
          dxPx = clientX - ps_x ps;
          span = ps_x1 ps - ps_x0 ps;
          dt = (- dxPx / max 1 (chart_width - 40 - right_margin)) * span;
          x0a = ps_x0 ps + dt;
          x1a = ps_x1 ps + dt;
          spanMin = (x1 full - x0 full) / 1000;
          x1b = (if x1a - x0a < spanMin then x0a + spanMin else x1a);
          (x0c, x1c) = (if x0a < x0 full then (x0 full, x1b + (x0 full - x0a)) else (x0a, x1b));
          (x0d, x1d) = (if x1c > x1 full then (x0c - (x1c - x1 full), x1 full) else (x0c, x1c))
      in \<lparr>x0 = x0d, x1 = x1d\<rparr>)"

subsection \<open>Crosshair\<close>

text \<open>
  The snapping loop: points outside the active domain are skipped, and a point
  replaces the current one only when strictly closer (\<open>best\<close> starts at
  \<open>Infinity\<close>, \<open>None\<close>); \<open>nearest\<close> starts at \<open>synth[0]\<close>.
\<close>

fun nearest_loop :: "domain \<Rightarrow> real \<Rightarrow> point \<Rightarrow> real option \<Rightarrow> series \<Rightarrow> point" where
  "nearest_loop ad ts nearest best [] = nearest"
| "nearest_loop ad ts nearest best (p # ps) =
     (if time p < x0 ad \<or> time p > x1 ad then nearest_loop ad ts nearest best ps
      else
        let d = \<bar>time p - ts\<bar>
        in if (case best of None \<Rightarrow> True | Some b \<Rightarrow> d < b)
           then nearest_loop ad ts p (Some d) ps
           else nearest_loop ad ts nearest best ps)"

definition crosshair :: "view_ctx \<Rightarrow> domain \<Rightarrow> real \<Rightarrow> cross option \<Rightarrow> cross option" where
  "crosshair ctx ad ts old =
     (case vc_synth ctx of
        [] \<Rightarrow> old
      | p # ps \<Rightarrow>
          let n = nearest_loop ad ts p None (p # ps)
          in Some \<lparr>cr_x = vc_xScale ctx (time n), cr_y = vc_yScale ctx (value n),
                   cr_ts = time n, cr_price = value n\<rparr>)"

definition on_pointer_move :: "view_ctx \<Rightarrow> real \<Rightarrow> real \<Rightarrow> view_state \<Rightarrow> view_state" where
  "on_pointer_move ctx clientX rectLeft st =
     (let ad = active_domain (vc_synth ctx) (vs_domain st);
          px = clamp (clientX - rectLeft) 0 chart_width;
          ts = time_at_px ad px;
          st1 = st\<lparr>vs_cross := crosshair ctx ad ts (vs_cross st)\<rparr>
      in case vs_panStart st of
           Some ps \<Rightarrow> if vs_isPanning st
                      then st1\<lparr>vs_domain := Some (pan_domain (vc_synth ctx) ps clientX)\<rparr> else st1
         | None \<Rightarrow> st1)"

definition on_pointer_up :: "view_state \<Rightarrow> view_state" where
  "on_pointer_up st = st\<lparr>vs_isPanning := False, vs_panStart := None\<rparr>"

definition on_leave :: "view_state \<Rightarrow> view_state" where
  "on_leave st = st\<lparr>vs_cross := None\<rparr>"

definition fit_to_screen :: "view_state \<Rightarrow> view_state" where
  "fit_to_screen st = st\<lparr>vs_domain := None\<rparr>"

subsection \<open>Events\<close>

text \<open>
  \<open>DataReset\<close> is \<open>setDomain(undefined)\<close> from the fetch effect's commit and from the
  effect on \<open>[startTs, rawData.length]\<close>.
\<close>

datatype view_event =
    Wheel real real
  | PointerDown real
  | PointerMove real real
  | PointerUp
  | Leave
  | Fit
  | DataReset

fun view_step :: "view_ctx \<Rightarrow> view_state \<Rightarrow> view_event \<Rightarrow> view_state" where
  "view_step ctx st (Wheel px deltaY) = on_wheel (vc_synth ctx) px deltaY st"
| "view_step ctx st (PointerDown clientX) = on_pointer_down (vc_synth ctx) clientX st"
| "view_step ctx st (PointerMove clientX rectLeft) = on_pointer_move ctx clientX rectLeft st"
| "view_step ctx st PointerUp = on_pointer_up st"
| "view_step ctx st Leave = on_leave st"
| "view_step ctx st Fit = fit_to_screen st"
| "view_step ctx st DataReset = st\<lparr>vs_domain := None\<rparr>"

subsection \<open>Specifications\<close>

definition inside_full :: "domain \<Rightarrow> domain \<Rightarrow> bool" where
  "inside_full full d \<longleftrightarrow> x0 full \<le> x0 d \<and> x1 d \<le> x1 full"

text \<open>A domain the viewport may show: inside the full extent and at least 1/500 of it
  wide (the zoom's minimum span).\<close>

definition domain_ok :: "domain \<Rightarrow> domain \<Rightarrow> bool" where
  "domain_ok full d \<longleftrightarrow> inside_full full d \<and> (x1 full - x0 full) / 500 \<le> x1 d - x0 d"

text \<open>The crosshair's specification: among the points inside the active domain, the
  first one at minimum time distance from the cursor; \<open>synth[0]\<close> when there is none.\<close>

definition in_view :: "domain \<Rightarrow> point \<Rightarrow> bool" where
  "in_view ad p \<longleftrightarrow> x0 ad \<le> time p \<and> time p \<le> x1 ad"

definition dist_to :: "real \<Rightarrow> point \<Rightarrow> real" where
  "dist_to ts p = \<bar>time p - ts\<bar>"

definition first_argmin :: "real \<Rightarrow> series \<Rightarrow> point" where
  "first_argmin ts ps = hd (filter (\<lambda>q. dist_to ts q = js_min_list (map (dist_to ts) ps)) ps)"

definition nearest_ref :: "domain \<Rightarrow> real \<Rightarrow> point \<Rightarrow> series \<Rightarrow> point" where
  "nearest_ref ad ts p0 ps =
     (let ins = filter (in_view ad) ps in if ins = [] then p0 else first_argmin ts ins)"

text \<open>The abstract viewport state machine of the specification: the domain is auto-fit or
  an override, and a drag gesture is idle or panning.\<close>

datatype dom_mode = AutoFit | Override

datatype gesture = Idle | Panning

definition view_abs :: "view_state \<Rightarrow> dom_mode \<times> gesture" where
  "view_abs st =
     (if vs_domain st = None then AutoFit else Override,
      if vs_isPanning st \<and> vs_panStart st \<noteq> None then Panning else Idle)"

fun abs_step :: "bool \<Rightarrow> dom_mode \<times> gesture \<Rightarrow> view_event \<Rightarrow> dom_mode \<times> gesture" where
  "abs_step hasData (m, g) (Wheel _ _) = (if hasData then Override else m, g)"
| "abs_step hasData (m, g) (PointerDown _) = (m, Panning)"
| "abs_step hasData (m, g) (PointerMove _ _) = (if g = Panning then Override else m, g)"
| "abs_step hasData (m, g) PointerUp = (m, Idle)"
| "abs_step hasData (m, g) Leave = (m, g)"
| "abs_step hasData (m, g) Fit = (AutoFit, g)"
| "abs_step hasData (m, g) DataReset = (AutoFit, g)"

text \<open>Wheel events with the cursor over the plot area
  (\<open>40 \<le> px \<le> width - rightMargin\<close>); the code does not restrict \<open>px\<close>.\<close>

fun admissible :: "view_event \<Rightarrow> bool" where
  "admissible (Wheel px _) \<longleftrightarrow> 40 \<le> px \<and> px \<le> chart_width - right_margin"
| "admissible _ \<longleftrightarrow> True"

text \<open>The view states the handlers reach for one rendered series, by any events (wheel
  events anywhere on the chart included).\<close>

inductive view_reach :: "view_ctx \<Rightarrow> view_state \<Rightarrow> bool" for ctx where
  reach_init: "view_reach ctx init_view"
| reach_step: "view_reach ctx st \<Longrightarrow> view_reach ctx (view_step ctx st ev)"

definition view_inv :: "view_ctx \<Rightarrow> view_state \<Rightarrow> bool" where
  "view_inv ctx st \<longleftrightarrow>
     (vs_isPanning st \<longleftrightarrow> vs_panStart st \<noteq> None) \<and>
     domain_ok (full_domain (vc_synth ctx)) (active_domain (vc_synth ctx) (vs_domain st)) \<and>
     (case vs_panStart st of None \<Rightarrow> True
      | Some ps \<Rightarrow> domain_ok (full_domain (vc_synth ctx)) \<lparr>x0 = ps_x0 ps, x1 = ps_x1 ps\<rparr>)"

text \<open>What every event preserves: the gesture flags agree, and the active domain and the
  recorded pan start lie inside the full extent.\<close>

definition view_safe :: "view_ctx \<Rightarrow> view_state \<Rightarrow> bool" where
  "view_safe ctx st \<longleftrightarrow>
     (vs_isPanning st \<longleftrightarrow> vs_panStart st \<noteq> None) \<and>
     inside_full (full_domain (vc_synth ctx)) (active_domain (vc_synth ctx) (vs_domain st)) \<and>
     (case vs_panStart st of None \<Rightarrow> True
      | Some ps \<Rightarrow> inside_full (full_domain (vc_synth ctx)) \<lparr>x0 = ps_x0 ps, x1 = ps_x1 ps\<rparr>)"

subsection \<open>Lemmas\<close>

lemma pan_domain_shape:
  fixes F0 F1 :: real
  assumes "x0 (full_domain synth) = F0" and "x1 (full_domain synth) = F1"
  shows "pan_domain synth ps clientX =
    (let dt = (- (clientX - ps_x ps) / max 1 (chart_width - 40 - right_margin)) * (ps_x1 ps - ps_x0 ps);
         x0a = ps_x0 ps + dt;
         sp = max (ps_x1 ps - ps_x0 ps) ((F1 - F0) / 1000);
         x0c = max F0 x0a
     in if x0c + sp > F1 then \<lparr>x0 = F1 - sp, x1 = F1\<rparr> else \<lparr>x0 = x0c, x1 = x0c + sp\<rparr>)"
proof -
  define dt where "dt = (- (clientX - ps_x ps) / max 1 (chart_width - 40 - right_margin)) * (ps_x1 ps - ps_x0 ps)"
  define x0a where "x0a = ps_x0 ps + dt"
  define sp where "sp = max (ps_x1 ps - ps_x0 ps) ((F1 - F0) / 1000)"
  define x1b where "x1b = (if ps_x1 ps + dt - x0a < (F1 - F0) / 1000 then x0a + (F1 - F0) / 1000 else ps_x1 ps + dt)"
  have b: "x1b = x0a + sp" by (simp add: x1b_def x0a_def sp_def max_def field_simps)
  define c where "c = (if x0a < F0 then (F0, x1b + (F0 - x0a)) else (x0a, x1b))"
  have c: "c = (max F0 x0a, max F0 x0a + sp)" by (simp add: c_def b max_def)
  have "pan_domain synth ps clientX =
          (if snd c > F1 then \<lparr>x0 = fst c - (snd c - F1), x1 = F1\<rparr> else \<lparr>x0 = fst c, x1 = snd c\<rparr>)"
    unfolding pan_domain_def Let_def assms dt_def [symmetric] x0a_def [symmetric] x1b_def [symmetric]
      c_def [symmetric]
    by (simp split: prod.split)
  also have "\<dots> = (if max F0 x0a + sp > F1 then \<lparr>x0 = F1 - sp, x1 = F1\<rparr>
                    else \<lparr>x0 = max F0 x0a, x1 = max F0 x0a + sp\<rparr>)"
    by (simp add: c)
  finally show ?thesis by (simp add: Let_def dt_def x0a_def sp_def)
qed

lemma clamp_span_arith:
  fixes F0 F1 s0 s1 z :: real
  assumes "F0 \<le> s0" "s1 \<le> F1" "F0 \<le> F1"
  shows "F0 \<le> (if max F0 z + max (s1 - s0) ((F1 - F0) / 1000) > F1
                  then F1 - max (s1 - s0) ((F1 - F0) / 1000) else max F0 z)"
    and "(if max F0 z + max (s1 - s0) ((F1 - F0) / 1000) > F1 then F1
          else max F0 z + max (s1 - s0) ((F1 - F0) / 1000)) \<le> F1"
proof -
  have "(F1 - F0) / 1000 \<le> F1 - F0" using assms(3) by simp
  moreover have "s1 - s0 \<le> F1 - F0" using assms(1,2) by simp
  ultimately have "max (s1 - s0) ((F1 - F0) / 1000) \<le> F1 - F0" by simp
  moreover obtain S where S: "max (s1 - s0) ((F1 - F0) / 1000) = S" by blast
  ultimately have sp: "S \<le> F1 - F0" by simp
  show "F0 \<le> (if max F0 z + max (s1 - s0) ((F1 - F0) / 1000) > F1
                  then F1 - max (s1 - s0) ((F1 - F0) / 1000) else max F0 z)"
    unfolding S using sp by simp
  show "(if max F0 z + max (s1 - s0) ((F1 - F0) / 1000) > F1 then F1
          else max F0 z + max (s1 - s0) ((F1 - F0) / 1000)) \<le> F1"
    unfolding S by simp
qed

text \<open>A pan from a domain inside the full extent stays inside it, with its span
  raised to the minimum span if it was smaller.\<close>

lemma pan_domain_within:
  assumes "x0 (full_domain synth) \<le> x1 (full_domain synth)"
    and "inside_full (full_domain synth) \<lparr>x0 = ps_x0 ps, x1 = ps_x1 ps\<rparr>"
  shows "inside_full (full_domain synth) (pan_domain synth ps clientX) \<and>
         x1 (pan_domain synth ps clientX) - x0 (pan_domain synth ps clientX)
           = max (ps_x1 ps - ps_x0 ps) ((x1 (full_domain synth) - x0 (full_domain synth)) / 1000)"
proof -
  obtain F0 F1 where F: "x0 (full_domain synth) = F0" "x1 (full_domain synth) = F1" by blast
  have h: "F0 \<le> ps_x0 ps" "ps_x1 ps \<le> F1" "F0 \<le> F1"
    using assms F by (simp_all add: inside_full_def)
  note c = clamp_span_arith [OF h]
  show ?thesis
    using c F by (simp add: pan_domain_shape [OF F] Let_def inside_full_def if_distrib)
qed


subsection \<open>The crosshair loop\<close>

lemma first_argmin_Cons:
  "first_argmin ts (q # qs) =
     (if qs = [] \<or> dist_to ts q \<le> js_min_list (map (dist_to ts) qs) then q else first_argmin ts qs)"
proof (cases "qs = []")
  case False
  then have m: "js_min_list (dist_to ts q # map (dist_to ts) qs) = min (dist_to ts q) (js_min_list (map (dist_to ts) qs))"
    by (simp add: js_min_list_Cons_min)
  show ?thesis
    using False
    by (cases "dist_to ts q \<le> js_min_list (map (dist_to ts) qs)") (auto simp: first_argmin_def m)
qed (simp add: first_argmin_def)

lemma first_argmin_spec:
  assumes "qs \<noteq> []"
  shows "first_argmin ts qs \<in> set qs"
    and "\<And>q. q \<in> set qs \<Longrightarrow> dist_to ts (first_argmin ts qs) \<le> dist_to ts q"
proof -
  let ?P = "\<lambda>q. dist_to ts q = js_min_list (map (dist_to ts) qs)"
  have "js_min_list (map (dist_to ts) qs) \<in> dist_to ts ` set qs"
    using js_min_list_in [of "map (dist_to ts) qs"] assms by simp
  then have ne: "filter ?P qs \<noteq> []" by (auto simp: filter_empty_conv)
  have h: "first_argmin ts qs \<in> set (filter ?P qs)" unfolding first_argmin_def by (rule hd_in_set [OF ne])
  then show "first_argmin ts qs \<in> set qs" by simp
  fix q assume "q \<in> set qs"
  then show "dist_to ts (first_argmin ts qs) \<le> dist_to ts q" using h by simp
qed

lemma nearest_loop_Some:
  "nearest_loop ad ts n (Some b) qs =
     (let ins = filter (in_view ad) qs
      in if ins = [] \<or> b \<le> js_min_list (map (dist_to ts) ins) then n else first_argmin ts ins)"
proof (induction qs arbitrary: n b)
  case (Cons q qs)
  let ?ins = "filter (in_view ad) qs"
  let ?M = "js_min_list (map (dist_to ts) ?ins)"
  show ?case
  proof (cases "in_view ad q")
    case False
    then have "nearest_loop ad ts n (Some b) (q # qs) = nearest_loop ad ts n (Some b) qs"
      by (auto simp: in_view_def)
    then show ?thesis using False by (simp add: Cons.IH)
  next
    case True
    then have step: "nearest_loop ad ts n (Some b) (q # qs) =
        (if dist_to ts q < b then nearest_loop ad ts q (Some (dist_to ts q)) qs
         else nearest_loop ad ts n (Some b) qs)"
      by (simp add: in_view_def dist_to_def not_less)
    have ins: "filter (in_view ad) (q # qs) = q # ?ins" using True by simp
    show ?thesis
    proof (cases "?ins = []")
      case True
      then show ?thesis unfolding step ins by (simp add: Cons.IH first_argmin_Cons)
    next
      case False
      then have minq: "js_min_list (dist_to ts q # map (dist_to ts) ?ins) = min (dist_to ts q) ?M"
        by (simp add: js_min_list_Cons_min)
      show ?thesis
        using False unfolding step ins by (auto simp: Cons.IH first_argmin_Cons minq Let_def)
    qed
  qed
qed simp

lemma nearest_loop_None:
  "nearest_loop ad ts n None qs = nearest_ref ad ts n qs"
proof (induction qs)
  case (Cons q qs)
  then show ?case
    by (auto simp: nearest_ref_def nearest_loop_Some Let_def first_argmin_Cons in_view_def
        dist_to_def not_le)
qed (simp add: nearest_ref_def)


subsection \<open>Zoom arithmetic\<close>

lemma time_at_px_between:
  assumes "40 \<le> px" "px \<le> chart_width - right_margin" "x0 ad \<le> x1 ad"
  shows "x0 ad \<le> time_at_px ad px" "time_at_px ad px \<le> x1 ad"
proof -
  let ?r = "(px - 40) / 1070"
  have r: "0 \<le> ?r" "?r \<le> 1" using assms(1,2) by (simp_all add: chart_width_def right_margin_def)
  have t: "time_at_px ad px = x0 ad + ?r * (x1 ad - x0 ad)"
    by (simp add: time_at_px_def chart_width_def right_margin_def)
  have "0 \<le> ?r * (x1 ad - x0 ad)" using r assms(3) by simp
  then show "x0 ad \<le> time_at_px ad px" by (simp add: t)
  have "?r * (x1 ad - x0 ad) \<le> 1 * (x1 ad - x0 ad)"
    using r assms(3) by (intro mult_right_mono) simp_all
  then show "time_at_px ad px \<le> x1 ad" by (simp add: t)
qed

text \<open>The clamping of \<open>onWheel\<close> keeps a domain of at least the minimum span inside
  the full extent, for any positive scale, when the cursor's timestamp lies in the domain.\<close>

lemma zoom_clamp_arith:
  fixes F0 F1 x0 x1 t s m a b :: real
  assumes "F0 \<le> x0" "x1 \<le> F1" "x0 \<le> t" "t \<le> x1" "0 < s" "m \<le> x1 - x0" "0 \<le> m"
    and a: "a = t - (t - x0) * s" and b: "b = t + (x1 - t) * s"
  shows "m \<le> min F1 (max b (a + m)) - max F0 (min a (b - m))"
proof (cases "s \<le> 1")
  case True
  have "0 \<le> (t - x0) * (1 - s)" "0 \<le> (x1 - t) * (1 - s)" "0 \<le> s * (x1 - x0)"
    using True assms(3-5) by simp_all
  then have "x0 \<le> a" "b \<le> x1" "a \<le> b" by (simp_all add: a b algebra_simps)
  then show ?thesis using assms(1,2,6,7) unfolding max_def min_def by auto
next
  case False
  have "0 \<le> (t - x0) * (s - 1)" "0 \<le> (x1 - t) * (s - 1)" "0 \<le> (s - 1) * (x1 - x0)"
    using False assms(3,4,6,7) by simp_all
  then have "a \<le> x0" "x1 \<le> b" "x1 - x0 \<le> b - a" by (simp_all add: a b algebra_simps)
  then show ?thesis using assms(1,2,6,7) unfolding max_def min_def by auto
qed

lemma zoom_domain_ok:
  assumes "domain_ok full ad" "40 \<le> px" "px \<le> chart_width - right_margin"
    and "x0 full \<le> x1 full"
  shows "domain_ok full (zoom_domain full ad px deltaY)"
proof -
  let ?m = "(x1 full - x0 full) / 500"
  let ?t = "time_at_px ad px"
  let ?s = "exp ((if 0 < deltaY then 1 else -1) * (2 / 10)) :: real"
  have d: "x0 full \<le> x0 ad" "x1 ad \<le> x1 full" "?m \<le> x1 ad - x0 ad" "0 \<le> ?m"
    using assms(1,4) by (simp_all add: domain_ok_def inside_full_def)
  then have t: "x0 ad \<le> ?t" "?t \<le> x1 ad" using time_at_px_between assms(2,3) by simp_all
  have "?m \<le> min (x1 full) (max (?t + (x1 ad - ?t) * ?s) (?t - (?t - x0 ad) * ?s + ?m))
              - max (x0 full) (min (?t - (?t - x0 ad) * ?s) (?t + (x1 ad - ?t) * ?s - ?m))"
    by (rule zoom_clamp_arith [OF d(1,2) t exp_gt_zero d(3,4) refl refl])
  then show ?thesis
    by (simp add: zoom_domain_def Let_def domain_ok_def inside_full_def)
qed

lemma domain_ok_full [simp]:
  "x0 full \<le> x1 full \<Longrightarrow> domain_ok full full"
  by (simp add: domain_ok_def inside_full_def)

lemma active_domain_ok:
  "x0 (full_domain synth) \<le> x1 (full_domain synth) \<Longrightarrow> domain_ok (full_domain synth) dm \<Longrightarrow>
   domain_ok (full_domain synth) (active_domain synth (Some dm)) \<and>
   domain_ok (full_domain synth) (active_domain synth None)"
  by (simp add: active_domain_def)


lemma zoom_fixpoint:
  "time_at_px \<lparr>x0 = time_at_px d px - (time_at_px d px - x0 d) * s,
               x1 = time_at_px d px + (x1 d - time_at_px d px) * s\<rparr> px = time_at_px d px"
  by (simp add: time_at_px_def algebra_simps)

text \<open>Scaling around the cursor's timestamp with no clamp active.\<close>

lemma zoom_domain_unclamped:
  assumes t: "time_at_px d px = t" and a: "a = t - (t - x0 d) * s" and b: "b = t + (x1 d - t) * s"
    and e: "exp ((if 0 < deltaY then 1 else -1) * (2 / 10)) = s"
    and m: "(x1 full - x0 full) / 500 \<le> s * (x1 d - x0 d)"
    and "x0 full \<le> a" "b \<le> x1 full"
  shows "zoom_domain full d px deltaY = \<lparr>x0 = a, x1 = b\<rparr>"
proof -
  define m where "m = (x1 full - x0 full) / 500"
  have z: "zoom_domain full d px deltaY = \<lparr>x0 = max (x0 full) (min a (b - m)), x1 = min (x1 full) (max b (a + m))\<rparr>"
    unfolding zoom_domain_def Let_def e t by (simp add: a b m_def)
  have "b - a = s * (x1 d - x0 d)" by (simp add: a b algebra_simps)
  moreover have "m \<le> s * (x1 d - x0 d)" using assms(5) by (simp add: m_def)
  ultimately have "a \<le> b - m" by linarith
  then show ?thesis using assms(6,7) by (simp add: z)
qed

lemma zoom_scales:
  "0 < exp (- (2 / 10) :: real)" "exp (- (2 / 10) :: real) < 1"
  "exp (- (2 / 10) :: real) * exp (2 / 10) = 1"
  by (simp_all add: exp_minus field_simps)


subsection \<open>The invariant of reachable view states\<close>

lemma pan_domain_ok:
  assumes "x0 (full_domain synth) \<le> x1 (full_domain synth)"
    and "domain_ok (full_domain synth) \<lparr>x0 = ps_x0 ps, x1 = ps_x1 ps\<rparr>"
  shows "domain_ok (full_domain synth) (pan_domain synth ps clientX)"
  using pan_domain_within [OF assms(1), of ps clientX] assms(2)
  by (simp add: domain_ok_def le_max_iff_disj)

lemma view_inv_init:
  "x0 (full_domain (vc_synth ctx)) \<le> x1 (full_domain (vc_synth ctx)) \<Longrightarrow> view_inv ctx init_view"
  by (simp add: view_inv_def init_view_def active_domain_def)

lemma view_step_inv:
  assumes inv: "view_inv ctx st" and adm: "admissible ev"
    and F: "x0 (full_domain (vc_synth ctx)) \<le> x1 (full_domain (vc_synth ctx))"
  shows "view_inv ctx (view_step ctx st ev)"
proof (cases ev)
  case (Wheel px dy)
  have "domain_ok (full_domain (vc_synth ctx))
          (zoom_domain (full_domain (vc_synth ctx)) (active_domain (vc_synth ctx) (vs_domain st)) px dy)"
    using inv adm F by (intro zoom_domain_ok) (simp_all add: view_inv_def Wheel)
  moreover have "vc_synth ctx = [] \<Longrightarrow> view_step ctx st ev = st" by (simp add: Wheel on_wheel_def)
  ultimately show ?thesis using inv
    by (cases "vc_synth ctx = []") (simp_all add: Wheel view_inv_def on_wheel_def active_domain_def)
next
  case (PointerDown cx)
  then show ?thesis
    using inv by (simp add: view_inv_def on_pointer_down_def Let_def domain_ok_def inside_full_def)
next
  case (PointerMove cx rl)
  show ?thesis
  proof (cases "vs_panStart st")
    case (Some ps)
    then have "domain_ok (full_domain (vc_synth ctx)) (pan_domain (vc_synth ctx) ps cx)"
      using inv F by (intro pan_domain_ok) (simp_all add: view_inv_def)
    then show ?thesis using inv Some
      by (simp add: PointerMove view_inv_def on_pointer_move_def Let_def active_domain_def)
  qed (use inv in \<open>simp add: PointerMove view_inv_def on_pointer_move_def Let_def\<close>)
qed (use inv F in \<open>simp_all add: view_inv_def on_pointer_up_def on_leave_def fit_to_screen_def
     active_domain_def\<close>)


lemma zoom_domain_inside: "inside_full full (zoom_domain full ad px dy)"
  by (simp add: zoom_domain_def inside_full_def Let_def)

lemma view_safe_init: "view_safe ctx init_view"
  by (simp add: view_safe_def init_view_def active_domain_def inside_full_def)

lemma view_step_safe:
  assumes inv: "view_safe ctx st"
    and F: "x0 (full_domain (vc_synth ctx)) \<le> x1 (full_domain (vc_synth ctx))"
  shows "view_safe ctx (view_step ctx st ev)"
proof (cases ev)
  case (Wheel px dy)
  then show ?thesis using inv
    by (cases "vc_synth ctx = []") (simp_all add: view_safe_def on_wheel_def active_domain_def zoom_domain_inside)
next
  case (PointerDown cx)
  then show ?thesis using inv by (simp add: view_safe_def on_pointer_down_def Let_def inside_full_def)
next
  case (PointerMove cx rl)
  show ?thesis
  proof (cases "vs_panStart st")
    case (Some ps)
    then have "inside_full (full_domain (vc_synth ctx)) (pan_domain (vc_synth ctx) ps cx)"
      using inv pan_domain_within [OF F, of ps cx] by (simp add: view_safe_def)
    then show ?thesis using inv Some
      by (simp add: PointerMove view_safe_def on_pointer_move_def Let_def active_domain_def)
  qed (use inv in \<open>simp add: PointerMove view_safe_def on_pointer_move_def Let_def\<close>)
qed (use inv in \<open>simp_all add: view_safe_def on_pointer_up_def on_leave_def fit_to_screen_def
     active_domain_def inside_full_def\<close>)


subsection \<open>Properties of the viewport\<close>

text \<open>C22: panning a domain that starts at the full extent's left edge further left
  (dragging right) leaves \<open>x0\<close> at the left edge: it is clamped, not wrapped.\<close>

theorem pan_left_edge_keeps_x0:
  assumes "ps_x0 ps = x0 (full_domain synth)" "ps_x0 ps \<le> ps_x1 ps"
    and "ps_x1 ps \<le> x1 (full_domain synth)" "ps_x ps \<le> clientX"
  shows "x0 (pan_domain synth ps clientX) = x0 (full_domain synth)"
proof -
  obtain F0 F1 where F: "x0 (full_domain synth) = F0" "x1 (full_domain synth) = F1" by blast
  obtain DT where DT: "(- (clientX - ps_x ps) / max 1 (chart_width - 40 - right_margin)) * (ps_x1 ps - ps_x0 ps) = DT"
    by blast
  obtain SP where SP: "max (ps_x1 ps - ps_x0 ps) ((F1 - F0) / 1000) = SP" by blast
  have "- (clientX - ps_x ps) / max 1 (chart_width - 40 - right_margin) \<le> 0"
    using assms(4) by (simp add: chart_width_def right_margin_def)
  then have "DT \<le> 0" unfolding DT [symmetric] using assms(2) by (intro mult_nonpos_nonneg) simp_all
  moreover have "SP \<le> F1 - F0" using assms F SP [symmetric] by simp
  ultimately show ?thesis
    unfolding pan_domain_shape [OF F] Let_def DT SP using assms(1) F by simp
qed

theorem pan_left_edge_keeps_x0_witness:
  "x0 (pan_domain [\<lparr>time = 0, value = 100\<rparr>, \<lparr>time = 1000, value = 110\<rparr>]
        \<lparr>ps_x = 500, ps_x0 = 0, ps_x1 = 100\<rparr> 700)
   = x0 (full_domain [\<lparr>time = 0, value = 100\<rparr>, \<lparr>time = 1000, value = 110\<rparr>])"
  by (rule pan_left_edge_keeps_x0) (simp_all add: full_domain_def)

text \<open>While panning, a pointer move sets the domain to the shifted one, which stays
  inside the full extent and keeps the span captured at pointer-down (raised to 1/1000 of
  the full extent if it was smaller).\<close>

theorem on_pointer_move_pan_within:
  assumes "vs_isPanning st" "vs_panStart st = Some ps"
    and "x0 (full_domain (vc_synth ctx)) \<le> x1 (full_domain (vc_synth ctx))"
    and "inside_full (full_domain (vc_synth ctx)) \<lparr>x0 = ps_x0 ps, x1 = ps_x1 ps\<rparr>"
  shows "vs_domain (on_pointer_move ctx clientX rectLeft st) = Some (pan_domain (vc_synth ctx) ps clientX) \<and>
         inside_full (full_domain (vc_synth ctx)) (pan_domain (vc_synth ctx) ps clientX) \<and>
         x1 (pan_domain (vc_synth ctx) ps clientX) - x0 (pan_domain (vc_synth ctx) ps clientX)
           = max (ps_x1 ps - ps_x0 ps)
                 ((x1 (full_domain (vc_synth ctx)) - x0 (full_domain (vc_synth ctx))) / 1000)"
  using pan_domain_within [OF assms(3,4)] assms(1,2) by (simp add: on_pointer_move_def Let_def)

theorem on_pointer_move_pan_within_witness:
  "vs_domain (on_pointer_move
      \<lparr>vc_synth = [\<lparr>time = 0, value = 100\<rparr>, \<lparr>time = 1000, value = 110\<rparr>], vc_xScale = \<lambda>x. x, vc_yScale = \<lambda>y. y\<rparr>
      200 0
      \<lparr>vs_domain = None, vs_isPanning = True, vs_panStart = Some \<lparr>ps_x = 500, ps_x0 = 0, ps_x1 = 100\<rparr>,
       vs_cross = None\<rparr>)
   = Some (pan_domain [\<lparr>time = 0, value = 100\<rparr>, \<lparr>time = 1000, value = 110\<rparr>]
             \<lparr>ps_x = 500, ps_x0 = 0, ps_x1 = 100\<rparr> 200)"
  using on_pointer_move_pan_within
    [of "\<lparr>vs_domain = None, vs_isPanning = True, vs_panStart = Some \<lparr>ps_x = 500, ps_x0 = 0, ps_x1 = 100\<rparr>,
         vs_cross = None\<rparr>" "\<lparr>ps_x = 500, ps_x0 = 0, ps_x1 = 100\<rparr>"
        "\<lparr>vc_synth = [\<lparr>time = 0, value = 100\<rparr>, \<lparr>time = 1000, value = 110\<rparr>], vc_xScale = \<lambda>x. x, vc_yScale = \<lambda>y. y\<rparr>"
        200 0]
  by (simp add: full_domain_def inside_full_def)


text \<open>C24: zooming in and then out with the cursor at the same place in the plot area returns
  exactly the domain one started from, when neither zoom is clamped (the domain lies inside
  the full extent and the zoomed-in domain is still at least 1/500 of it). The timestamp under
  the cursor is a fixed point of the zoom.\<close>

theorem zoom_in_out_roundtrip:
  assumes "synth \<noteq> []" "vs_domain st = Some d" "inside_full (full_domain synth) d" "x0 d \<le> x1 d"
    and "40 \<le> px" "px \<le> chart_width - right_margin" "deltaIn < 0" "0 < deltaOut"
    and "(x1 (full_domain synth) - x0 (full_domain synth)) / 500 \<le> exp (- (2 / 10)) * (x1 d - x0 d)"
  shows "vs_domain (on_wheel synth px deltaOut (on_wheel synth px deltaIn st)) = Some d"
proof -
  let ?F = "full_domain synth"
  define t where "t = time_at_px d px"
  define s where "s = exp (- (2 / 10) :: real)"
  define S where "S = exp (2 / 10 :: real)"
  define a where "a = t - (t - x0 d) * s"
  define b where "b = t + (x1 d - t) * s"
  have s: "0 < s" "s < 1" "s * S = 1" using zoom_scales by (simp_all add: s_def S_def)
  have t: "x0 d \<le> t" "t \<le> x1 d" using time_at_px_between [OF assms(5,6,4)] by (simp_all add: t_def)
  have F: "x0 ?F \<le> x0 d" "x1 d \<le> x1 ?F" using assms(3) by (simp_all add: inside_full_def)
  have "0 \<le> (t - x0 d) * (1 - s)" "0 \<le> (x1 d - t) * (1 - s)" "0 \<le> (t - x0 d) * s" "0 \<le> (x1 d - t) * s"
    using s t by simp_all
  then have ab: "x0 d \<le> a" "b \<le> x1 d" "a \<le> t" "t \<le> b" by (simp_all add: a_def b_def algebra_simps)
  have e1: "exp ((if 0 < deltaIn then 1 else -1) * (2 / 10)) = s" using assms(7) by (simp add: s_def)
  have m1: "(x1 ?F - x0 ?F) / 500 \<le> s * (x1 d - x0 d)" using assms(9) by (simp add: s_def)
  have "x0 ?F \<le> a" "b \<le> x1 ?F" using F ab by simp_all
  note z1 = zoom_domain_unclamped [OF t_def [symmetric] a_def b_def e1 m1 this]
  have t1: "time_at_px \<lparr>x0 = a, x1 = b\<rparr> px = t"
    using zoom_fixpoint [of d px s] by (simp add: a_def b_def t_def)
  have "(t - a) * S = (t - x0 d) * (s * S)" "(b - t) * S = (x1 d - t) * (s * S)"
    by (simp_all add: a_def b_def algebra_simps)
  then have inv: "t - (t - a) * S = x0 d" "t + (b - t) * S = x1 d" using s(3) by simp_all
  have "S * (b - a) = (s * S) * (x1 d - x0 d)" by (simp add: a_def b_def algebra_simps)
  then have SD: "S * (b - a) = x1 d - x0 d" using s(3) by simp
  have "s * (x1 d - x0 d) \<le> x1 d - x0 d"
    using s(1,2) assms(4) by (intro mult_left_le_one_le) simp_all
  with m1 have "(x1 ?F - x0 ?F) / 500 \<le> x1 d - x0 d" by (rule order_trans)
  then have "(x1 ?F - x0 ?F) / 500 \<le> S * (b - a)" by (simp only: SD)
  then have span: "(x1 ?F - x0 ?F) / 500 \<le> S * (x1 \<lparr>x0 = a, x1 = b\<rparr> - x0 \<lparr>x0 = a, x1 = b\<rparr>)"
    by simp
  have e2: "exp ((if 0 < deltaOut then 1 else -1) * (2 / 10)) = S" using assms(8) by (simp add: S_def)
  have a2: "x0 d = t - (t - x0 \<lparr>x0 = a, x1 = b\<rparr>) * S" and b2: "x1 d = t + (x1 \<lparr>x0 = a, x1 = b\<rparr> - t) * S"
    using inv by simp_all
  note z2 = zoom_domain_unclamped [OF t1 a2 b2 e2 span F]
  show ?thesis
    using assms(1,2) by (simp add: on_wheel_def active_domain_def z1 z2)
qed

theorem zoom_in_out_roundtrip_witness:
  "vs_domain (on_wheel [\<lparr>time = 0, value = 100\<rparr>, \<lparr>time = 1000, value = 110\<rparr>] 575 1
     (on_wheel [\<lparr>time = 0, value = 100\<rparr>, \<lparr>time = 1000, value = 110\<rparr>] 575 (-1)
        (init_view\<lparr>vs_domain := Some \<lparr>x0 = 0, x1 = 1000\<rparr>\<rparr>)))
   = Some \<lparr>x0 = 0, x1 = 1000\<rparr>"
proof -
  have "1 + (- (2 / 10)) \<le> exp (- (2 / 10) :: real)" by (rule exp_ge_add_one_self)
  then show ?thesis
    by (intro zoom_in_out_roundtrip)
       (simp_all add: init_view_def full_domain_def inside_full_def chart_width_def right_margin_def)
qed

text \<open>C31: a wheel event with the cursor over the plot area keeps the active domain inside
  the full extent and at least 1/500 of it wide, whatever the direction.\<close>

theorem on_wheel_keeps_domain_ok:
  assumes "x0 (full_domain synth) \<le> x1 (full_domain synth)"
    and "domain_ok (full_domain synth) (active_domain synth (vs_domain st))"
    and "40 \<le> px" "px \<le> chart_width - right_margin"
  shows "domain_ok (full_domain synth) (active_domain synth (vs_domain (on_wheel synth px deltaY st)))"
  using zoom_domain_ok [OF assms(2-4,1), of deltaY] assms(2)
  by (cases "synth = []") (simp_all add: on_wheel_def active_domain_def)

theorem on_wheel_keeps_domain_ok_witness:
  "domain_ok (full_domain [\<lparr>time = 0, value = 100\<rparr>, \<lparr>time = 1000, value = 110\<rparr>])
     (active_domain [\<lparr>time = 0, value = 100\<rparr>, \<lparr>time = 1000, value = 110\<rparr>]
        (vs_domain (on_wheel [\<lparr>time = 0, value = 100\<rparr>, \<lparr>time = 1000, value = 110\<rparr>] 1000 (-3) init_view)))"
  by (rule on_wheel_keeps_domain_ok)
     (simp_all add: full_domain_def domain_ok_def inside_full_def active_domain_def init_view_def
       chart_width_def right_margin_def)

text \<open>C26: with the cursor over the left gutter (\<open>px < 40\<close>, still on the chart) a zoom-in
  from a domain of exactly the minimum span yields a narrower one: the specification's
  "never shrink below 1/500th of the full extent" does not hold there.\<close>

theorem zoom_left_gutter_below_min_span:
  "domain_ok (full_domain [\<lparr>time = 0, value = 100\<rparr>, \<lparr>time = 1000, value = 110\<rparr>]) \<lparr>x0 = 0, x1 = 2\<rparr> \<and>
   (let d = active_domain [\<lparr>time = 0, value = 100\<rparr>, \<lparr>time = 1000, value = 110\<rparr>]
              (vs_domain (on_wheel [\<lparr>time = 0, value = 100\<rparr>, \<lparr>time = 1000, value = 110\<rparr>] 0 (-1)
                 (init_view\<lparr>vs_domain := Some \<lparr>x0 = 0, x1 = 2\<rparr>\<rparr>)))
    in x1 d - x0 d < (x1 (full_domain [\<lparr>time = 0, value = 100\<rparr>, \<lparr>time = 1000, value = 110\<rparr>])
                      - x0 (full_domain [\<lparr>time = 0, value = 100\<rparr>, \<lparr>time = 1000, value = 110\<rparr>])) / 500)"
proof -
  obtain s where s: "exp (- (2 / 10) :: real) = s" by blast
  then have "0 < s" "s < 1" using zoom_scales by auto
  then show ?thesis
    by (simp add: s [simplified] domain_ok_def inside_full_def full_domain_def on_wheel_def
        active_domain_def init_view_def zoom_domain_def time_at_px_def chart_width_def
        right_margin_def Let_def max_def min_def field_simps)
qed


text \<open>C27: the handlers refine the specification's state machine: the domain is auto-fit
  or an override, the gesture idle or panning; a zoom (on a non-empty series) or a move while
  panning overrides the domain, fit and a data reset return to auto-fit, pointer-down starts
  and pointer-up ends a pan, and nothing else changes the abstract state.\<close>

theorem view_step_refines_abs_step:
  "view_abs (view_step ctx st ev) = abs_step (vc_synth ctx \<noteq> []) (view_abs st) ev"
  by (cases ev)
     (auto simp: view_abs_def on_wheel_def on_pointer_down_def on_pointer_move_def on_pointer_up_def
        on_leave_def fit_to_screen_def Let_def split: option.splits)

text \<open>C28: for one rendered series in time order at its ends, every view state the
  handlers reach by any events (wheel events anywhere on the chart, drags, leaves, fits)
  has \<open>isPanning\<close> exactly when a pan start is recorded, and the active domain and the
  recorded pan start inside the full extent. The minimum span is not part of it (C26
  breaks it from the gutter), nor is a change of series (C32).\<close>

theorem view_reach_invariant:
  assumes "view_reach ctx st"
    and "x0 (full_domain (vc_synth ctx)) \<le> x1 (full_domain (vc_synth ctx))"
  shows "view_safe ctx st"
  using assms(1) by induction (simp_all add: view_safe_init view_step_safe assms(2))

theorem view_reach_invariant_witness:
  "view_safe (\<lparr>vc_synth = [\<lparr>time = 0, value = 100\<rparr>, \<lparr>time = 1000, value = 110\<rparr>, \<lparr>time = 3000, value = 120\<rparr>], vc_xScale = \<lambda>x. x, vc_yScale = \<lambda>y. y\<rparr>)
     (view_step (\<lparr>vc_synth = [\<lparr>time = 0, value = 100\<rparr>, \<lparr>time = 1000, value = 110\<rparr>, \<lparr>time = 3000, value = 120\<rparr>], vc_xScale = \<lambda>x. x, vc_yScale = \<lambda>y. y\<rparr>) (view_step (\<lparr>vc_synth = [\<lparr>time = 0, value = 100\<rparr>, \<lparr>time = 1000, value = 110\<rparr>, \<lparr>time = 3000, value = 120\<rparr>], vc_xScale = \<lambda>x. x, vc_yScale = \<lambda>y. y\<rparr>) (view_step (\<lparr>vc_synth = [\<lparr>time = 0, value = 100\<rparr>, \<lparr>time = 1000, value = 110\<rparr>, \<lparr>time = 3000, value = 120\<rparr>], vc_xScale = \<lambda>x. x, vc_yScale = \<lambda>y. y\<rparr>) init_view (Wheel 10 (-1))) (PointerDown 300))
        (PointerMove 100 0))"
proof -
  have r: "view_reach (\<lparr>vc_synth = [\<lparr>time = 0, value = 100\<rparr>, \<lparr>time = 1000, value = 110\<rparr>, \<lparr>time = 3000, value = 120\<rparr>], vc_xScale = \<lambda>x. x, vc_yScale = \<lambda>y. y\<rparr>)
     (view_step (\<lparr>vc_synth = [\<lparr>time = 0, value = 100\<rparr>, \<lparr>time = 1000, value = 110\<rparr>, \<lparr>time = 3000, value = 120\<rparr>], vc_xScale = \<lambda>x. x, vc_yScale = \<lambda>y. y\<rparr>) (view_step (\<lparr>vc_synth = [\<lparr>time = 0, value = 100\<rparr>, \<lparr>time = 1000, value = 110\<rparr>, \<lparr>time = 3000, value = 120\<rparr>], vc_xScale = \<lambda>x. x, vc_yScale = \<lambda>y. y\<rparr>) (view_step (\<lparr>vc_synth = [\<lparr>time = 0, value = 100\<rparr>, \<lparr>time = 1000, value = 110\<rparr>, \<lparr>time = 3000, value = 120\<rparr>], vc_xScale = \<lambda>x. x, vc_yScale = \<lambda>y. y\<rparr>) init_view (Wheel 10 (-1))) (PointerDown 300))
        (PointerMove 100 0))"
    by (intro reach_step reach_init)
  show ?thesis by (rule view_reach_invariant [OF r]) (simp add: full_domain_def)
qed

text \<open>C29: the crosshair loop implements its specification: it snaps to the first point,
  among those inside the active domain, at minimum time distance from the cursor, and to
  \<open>synth[0]\<close> when no point is inside the domain.\<close>

theorem crosshair_refines_nearest_ref:
  "crosshair ctx ad ts old =
     (case vc_synth ctx of [] \<Rightarrow> old
      | p # ps \<Rightarrow> let n = nearest_ref ad ts p (p # ps)
                  in Some \<lparr>cr_x = vc_xScale ctx (time n), cr_y = vc_yScale ctx (value n),
                           cr_ts = time n, cr_price = value n\<rparr>)"
  unfolding crosshair_def nearest_loop_None by (simp split: list.split)

text \<open>When some point lies inside the active domain, the crosshair shows a point inside
  the domain whose time is nearest to the cursor's timestamp among all such points.\<close>

theorem crosshair_snaps_to_nearest:
  assumes "vc_synth ctx = p # ps" "filter (in_view ad) (p # ps) \<noteq> []"
  shows "\<exists>n \<in> set (p # ps). in_view ad n \<and>
           (\<forall>q \<in> set (p # ps). in_view ad q \<longrightarrow> dist_to ts n \<le> dist_to ts q) \<and>
           crosshair ctx ad ts old = Some \<lparr>cr_x = vc_xScale ctx (time n), cr_y = vc_yScale ctx (value n),
                                          cr_ts = time n, cr_price = value n\<rparr>"
proof -
  let ?ins = "filter (in_view ad) (p # ps)"
  have n: "first_argmin ts ?ins \<in> set ?ins"
    and m: "\<And>q. q \<in> set ?ins \<Longrightarrow> dist_to ts (first_argmin ts ?ins) \<le> dist_to ts q"
    using first_argmin_spec [OF assms(2)] by blast+
  have "crosshair ctx ad ts old = Some \<lparr>cr_x = vc_xScale ctx (time (first_argmin ts ?ins)),
          cr_y = vc_yScale ctx (value (first_argmin ts ?ins)), cr_ts = time (first_argmin ts ?ins),
          cr_price = value (first_argmin ts ?ins)\<rparr>"
    using assms unfolding crosshair_def nearest_loop_None by (simp add: nearest_ref_def Let_def del: filter.simps)
  then show ?thesis using n m by (intro bexI [of _ "first_argmin ts ?ins"]) auto
qed

theorem crosshair_snaps_to_nearest_witness:
  "crosshair (\<lparr>vc_synth = [\<lparr>time = 0, value = 100\<rparr>, \<lparr>time = 1000, value = 110\<rparr>, \<lparr>time = 3000, value = 120\<rparr>], vc_xScale = \<lambda>x. x, vc_yScale = \<lambda>y. y\<rparr>) \<lparr>x0 = 0, x1 = 2000\<rparr> 900 None
     = Some \<lparr>cr_x = 1000, cr_y = 110, cr_ts = 1000, cr_price = 110\<rparr>"
proof -
  have s: "vc_synth (\<lparr>vc_synth = [\<lparr>time = 0, value = 100\<rparr>, \<lparr>time = 1000, value = 110\<rparr>, \<lparr>time = 3000, value = 120\<rparr>], vc_xScale = \<lambda>x. x, vc_yScale = \<lambda>y. y\<rparr>) = \<lparr>time = 0, value = 100\<rparr> # [\<lparr>time = 1000, value = 110\<rparr>, \<lparr>time = 3000, value = 120\<rparr>]"
    by simp
  have ne: "filter (in_view \<lparr>x0 = 0, x1 = 2000\<rparr>) [\<lparr>time = 0, value = 100\<rparr>, \<lparr>time = 1000, value = 110\<rparr>, \<lparr>time = 3000, value = 120\<rparr>] \<noteq> []" by (simp add: in_view_def)
  obtain n where n: "n \<in> set [\<lparr>time = 0, value = 100\<rparr>, \<lparr>time = 1000, value = 110\<rparr>, \<lparr>time = 3000, value = 120\<rparr>]" "in_view \<lparr>x0 = 0, x1 = 2000\<rparr> n"
    and m: "\<forall>q \<in> set [\<lparr>time = 0, value = 100\<rparr>, \<lparr>time = 1000, value = 110\<rparr>, \<lparr>time = 3000, value = 120\<rparr>]. in_view \<lparr>x0 = 0, x1 = 2000\<rparr> q \<longrightarrow> dist_to 900 n \<le> dist_to 900 q"
    and c: "crosshair (\<lparr>vc_synth = [\<lparr>time = 0, value = 100\<rparr>, \<lparr>time = 1000, value = 110\<rparr>, \<lparr>time = 3000, value = 120\<rparr>], vc_xScale = \<lambda>x. x, vc_yScale = \<lambda>y. y\<rparr>) \<lparr>x0 = 0, x1 = 2000\<rparr> 900 None
              = Some \<lparr>cr_x = vc_xScale (\<lparr>vc_synth = [\<lparr>time = 0, value = 100\<rparr>, \<lparr>time = 1000, value = 110\<rparr>, \<lparr>time = 3000, value = 120\<rparr>], vc_xScale = \<lambda>x. x, vc_yScale = \<lambda>y. y\<rparr>) (time n), cr_y = vc_yScale (\<lparr>vc_synth = [\<lparr>time = 0, value = 100\<rparr>, \<lparr>time = 1000, value = 110\<rparr>, \<lparr>time = 3000, value = 120\<rparr>], vc_xScale = \<lambda>x. x, vc_yScale = \<lambda>y. y\<rparr>) (value n),
                      cr_ts = time n, cr_price = value n\<rparr>"
    using crosshair_snaps_to_nearest [OF s ne, of 900 None] by blast
  have "dist_to 900 n \<le> dist_to 900 \<lparr>time = 1000, value = 110\<rparr>"
    using m by (simp add: in_view_def)
  then have "n = \<lparr>time = 1000, value = 110\<rparr>" using n by (auto simp: in_view_def dist_to_def)
  then show ?thesis using c by simp
qed

text \<open>When no point lies inside the active domain (a zoomed window between two
  samples), the crosshair snaps to \<open>synth[0]\<close>, a point outside the domain and so off
  the plot.\<close>

theorem crosshair_fallback_first_point:
  assumes "vc_synth ctx = p # ps" "filter (in_view ad) (p # ps) = []"
  shows "crosshair ctx ad ts old = Some \<lparr>cr_x = vc_xScale ctx (time p), cr_y = vc_yScale ctx (value p),
                                         cr_ts = time p, cr_price = value p\<rparr> \<and> \<not> in_view ad p"
proof -
  have "\<not> in_view ad p" using assms(2) by (simp split: if_splits)
  moreover have "nearest_ref ad ts p (p # ps) = p" using assms(2) by (simp add: nearest_ref_def del: filter.simps)
  ultimately show ?thesis using assms(1) unfolding crosshair_def nearest_loop_None by simp
qed

theorem crosshair_fallback_first_point_witness:
  "crosshair (\<lparr>vc_synth = [\<lparr>time = 0, value = 100\<rparr>, \<lparr>time = 1000, value = 110\<rparr>, \<lparr>time = 3000, value = 120\<rparr>], vc_xScale = \<lambda>x. x, vc_yScale = \<lambda>y. y\<rparr>) \<lparr>x0 = 1001, x1 = 1002\<rparr> 1001 None
     = Some \<lparr>cr_x = 0, cr_y = 100, cr_ts = 0, cr_price = 100\<rparr>"
  using crosshair_fallback_first_point [of "(\<lparr>vc_synth = [\<lparr>time = 0, value = 100\<rparr>, \<lparr>time = 1000, value = 110\<rparr>, \<lparr>time = 3000, value = 120\<rparr>], vc_xScale = \<lambda>x. x, vc_yScale = \<lambda>y. y\<rparr>)" "\<lparr>time = 0, value = 100\<rparr>"
      "[\<lparr>time = 1000, value = 110\<rparr>, \<lparr>time = 3000, value = 120\<rparr>]" "\<lparr>x0 = 1001, x1 = 1002\<rparr>" 1001 None]
  by (simp add: in_view_def)

end
