(* ===== verification/Proxy.thy ===== *)
theory Proxy
  imports JsRuntime
begin

text \<open>
  The serverless proxy \<^verbatim>\<open>api/spx.js\<close> (\<^verbatim>\<open>src/unnamed/part_000\<close>) and the JSON
  values it reads and writes. A JSON value is \<open>jsval\<close>; \<open>undefined\<close> is \<open>None\<close>
  of \<open>jsval option\<close>. Property access (\<open>js_get\<close>, \<open>js_index\<close>), truthiness
  (\<open>js_truthy\<close>), the short-circuit \<open>&&\<close> (\<open>js_and\<close>), the coercion of
  \<open>t * 1000\<close> (\<open>js_to_number\<close>, \<open>js_times\<close>) and \<open>encodeURIComponent\<close> are
  modelled from the ECMAScript specification. The network is the function \<open>up\<close>
  from the upstream URL to the outcome of \<open>fetch\<close> (a rejected fetch, or a status
  and the parsed body, \<open>None\<close> when \<open>upstream.json()\<close> rejects).
\<close>

subsection \<open>JSON values\<close>

datatype jsval =
    JNull
  | JBool bool
  | JNum jsnum
  | JStr string
  | JArr "jsval list"
  | JObj "(string \<times> jsval) list"

text \<open>Truthiness: \<open>undefined\<close>, \<open>null\<close>, \<open>false\<close>, \<open>0\<close>, \<open>NaN\<close> and \<open>""\<close> are falsy.\<close>

fun js_truthy :: "jsval option \<Rightarrow> bool" where
  "js_truthy None = False"
| "js_truthy (Some JNull) = False"
| "js_truthy (Some (JBool b)) = b"
| "js_truthy (Some (JNum (Num r))) = (r \<noteq> 0)"
| "js_truthy (Some (JNum NaN)) = False"
| "js_truthy (Some (JNum _)) = True"
| "js_truthy (Some (JStr s)) = (s \<noteq> [])"
| "js_truthy (Some (JArr _)) = True"
| "js_truthy (Some (JObj _)) = True"

text \<open>\<open>a && b\<close>: \<open>b\<close> is evaluated only when \<open>a\<close> is truthy, otherwise \<open>a\<close> is the value.\<close>

definition js_and :: "jsval option \<Rightarrow> (jsval \<Rightarrow> jsval option) \<Rightarrow> jsval option" where
  "js_and a f = (case a of Some v \<Rightarrow> if js_truthy a then f v else a | None \<Rightarrow> None)"

text \<open>\<open>v.k\<close> for a non-index key: own properties of a parsed object (\<open>JSON.parse\<close> keeps
  the last of duplicate keys); arrays, strings and primitives have none of the keys used.\<close>

fun js_get :: "jsval \<Rightarrow> string \<Rightarrow> jsval option" where
  "js_get (JObj kvs) k = map_of (rev kvs) k"
| "js_get _ k = None"

text \<open>\<open>v[i]\<close> for a number \<open>i\<close>: the element of an array or string, the property
  \<open>String(i)\<close> of an object.\<close>

fun js_index :: "jsval \<Rightarrow> nat \<Rightarrow> jsval option" where
  "js_index (JArr xs) i = (if i < length xs then Some (xs ! i) else None)"
| "js_index (JStr s) i = (if i < length s then Some (JStr [s ! i]) else None)"
| "js_index (JObj kvs) i = map_of (rev kvs) (string_of_nat i)"
| "js_index _ i = None"

text \<open>\<open>ToNumber\<close> of a JSON value: objects give NaN, an array goes through its string
  (\<open>[]\<close> is \<open>""\<close>, \<open>[x]\<close> is \<open>String(x)\<close>, two or more elements contain a comma).\<close>

fun js_to_number :: "jsval \<Rightarrow> jsnum" where
  "js_to_number JNull = Num 0"
| "js_to_number (JBool b) = Num (if b then 1 else 0)"
| "js_to_number (JNum n) = n"
| "js_to_number (JStr s) = js_string_to_number s"
| "js_to_number (JObj _) = NaN"
| "js_to_number (JArr []) = Num 0"
| "js_to_number (JArr [JNull]) = Num 0"
| "js_to_number (JArr [JBool _]) = NaN"
| "js_to_number (JArr [JObj _]) = NaN"
| "js_to_number (JArr [JNum n]) = n"
| "js_to_number (JArr [JStr s]) = js_string_to_number s"
| "js_to_number (JArr [JArr ys]) = js_to_number (JArr ys)"
| "js_to_number (JArr (_ # _ # _)) = NaN"

text \<open>\<open>n * 1000\<close> on number values.\<close>

fun js_times :: "jsnum \<Rightarrow> real \<Rightarrow> jsnum" where
  "js_times (Num r) k = Num (r * k)"
| "js_times NaN k = NaN"
| "js_times PosInf k = (if 0 < k then PosInf else if k < 0 then NegInf else NaN)"
| "js_times NegInf k = (if 0 < k then NegInf else if k < 0 then PosInf else NaN)"

text \<open>\<open>Number.isFinite(v)\<close>: true only for finite numbers, no coercion.\<close>

fun js_number_is_finite :: "jsval option \<Rightarrow> bool" where
  "js_number_is_finite (Some (JNum n)) = js_is_finite n"
| "js_number_is_finite _ = False"

subsection \<open>encodeURIComponent\<close>

definition uri_unreserved :: "char \<Rightarrow> bool" where
  "uri_unreserved c \<longleftrightarrow>
     (let n = of_char c :: nat
      in (48 \<le> n \<and> n \<le> 57) \<or> (65 \<le> n \<and> n \<le> 90) \<or> (97 \<le> n \<and> n \<le> 122) \<or>
         c \<in> set ''-_.!~*'()'')"

definition hex_digit :: "nat \<Rightarrow> char" where
  "hex_digit n = (if n < 10 then char_of (48 + n) else char_of (55 + n))"

definition pct_byte :: "nat \<Rightarrow> string" where
  "pct_byte b = [CHR ''%'', hex_digit (b div 16), hex_digit (b mod 16)]"

text \<open>UTF-8 bytes of a code point below 256 (a \<open>char\<close>).\<close>

definition utf8_bytes :: "nat \<Rightarrow> nat list" where
  "utf8_bytes n = (if n < 128 then [n] else [192 + n div 64, 128 + n mod 64])"

definition encode_uri_component :: "string \<Rightarrow> string" where
  "encode_uri_component s =
     concat (map (\<lambda>c. if uri_unreserved c then [c] else concat (map pct_byte (utf8_bytes (of_char c)))) s)"

subsection \<open>The handler\<close>

record http_response =
  resp_status :: int
  resp_body :: jsval

datatype fetch_outcome = FetchRejected | Upstream int "jsval option"

definition js_ok :: "int \<Rightarrow> bool" where
  "js_ok s \<longleftrightarrow> 200 \<le> s \<and> s \<le> 299"

definition upstream_url :: "string \<Rightarrow> string \<Rightarrow> string" where
  "upstream_url rng ivl =
     ''https://query1.finance.yahoo.com/v8/finance/chart/'' @ encode_uri_component ''^GSPC'' @
     ''?range='' @ encode_uri_component rng @ ''&interval='' @ encode_uri_component ivl"

definition error_response :: "int \<Rightarrow> string \<Rightarrow> http_response" where
  "error_response s msg = \<lparr>resp_status = s, resp_body = JObj [(''error'', JStr msg)]\<rparr>"

text \<open>\<open>{time: t * 1000, value: close[i]}\<close>; \<open>undefined\<close> values are \<open>None\<close>.\<close>

definition proxy_point :: "jsval \<Rightarrow> jsval \<Rightarrow> nat \<Rightarrow> jsnum \<times> jsval option" where
  "proxy_point close t i = (js_times (js_to_number t) 1000, js_index close i)"

definition point_json :: "jsnum \<times> jsval option \<Rightarrow> jsval" where
  "point_json p = JObj ((''time'', JNum (fst p)) # (case snd p of None \<Rightarrow> [] | Some v \<Rightarrow> [(''value'', v)]))"

text \<open>\<open>xs.map((x, i) => f(x, i))\<close>, counting the index from \<open>i\<close>.\<close>

fun js_map_index :: "(jsval \<Rightarrow> nat \<Rightarrow> 'b) \<Rightarrow> nat \<Rightarrow> jsval list \<Rightarrow> 'b list" where
  "js_map_index f i [] = []"
| "js_map_index f i (x # xs) = f x i # js_map_index f (Suc i) xs"

text \<open>\<open>ts.map(...).filter(p => Number.isFinite(p.value))\<close>; \<open>map\<close> on a value that
  is not an array throws a \<open>TypeError\<close> (\<open>None\<close>).\<close>

definition proxy_series :: "jsval \<Rightarrow> jsval \<Rightarrow> jsval list option" where
  "proxy_series ts close =
     (case ts of
        JArr xs \<Rightarrow> Some (map point_json
                     (filter (\<lambda>p. js_number_is_finite (snd p)) (js_map_index (proxy_point close) 0 xs)))
      | _ \<Rightarrow> None)"

text \<open>\<open>result\<close>, \<open>ts\<close> and \<open>close\<close>: the \<open>&&\<close> chains of lines 26-33.\<close>

definition chart_result :: "jsval \<Rightarrow> jsval option" where
  "chart_result j =
     js_and (Some j) (\<lambda>j. js_and (js_get j ''chart'') (\<lambda>c.
       js_and (js_get c ''result'') (\<lambda>r. js_index r 0)))"

definition result_timestamps :: "jsval option \<Rightarrow> jsval option" where
  "result_timestamps result = js_and result (\<lambda>r. js_get r ''timestamp'')"

definition result_closes :: "jsval option \<Rightarrow> jsval option" where
  "result_closes result =
     js_and result (\<lambda>r. js_and (js_get r ''indicators'') (\<lambda>ind.
       js_and (js_get ind ''quote'') (\<lambda>q. js_and (js_index q 0) (\<lambda>q0. js_get q0 ''close''))))"

text \<open>Lines 25-46: the response for an upstream body that parsed as \<open>j\<close>.\<close>

definition handle_payload :: "jsval \<Rightarrow> http_response" where
  "handle_payload j =
     (let result = chart_result j;
          ts = result_timestamps result;
          close = result_closes result
      in if \<not> js_truthy ts \<or> \<not> js_truthy close then error_response 500 ''Bad upstream data''
         else (case proxy_series (the ts) (the close) of
                 None \<Rightarrow> error_response 500 ''Internal error''
               | Some ser \<Rightarrow> \<lparr>resp_status = 200, resp_body = JObj [(''series'', JArr ser)]\<rparr>))"

definition spx_handler :: "string option \<Rightarrow> string option \<Rightarrow> (string \<Rightarrow> fetch_outcome) \<Rightarrow> http_response" where
  "spx_handler qrange qinterval up =
     (let rng = (case qrange of None \<Rightarrow> ''2y'' | Some r \<Rightarrow> r);
          ivl = (case qinterval of None \<Rightarrow> ''1d'' | Some i \<Rightarrow> i)
      in (case up (upstream_url rng ivl) of
            FetchRejected \<Rightarrow> error_response 500 ''Internal error''
          | Upstream st body \<Rightarrow>
              (if \<not> js_ok st then
                 \<lparr>resp_status = 502,
                  resp_body = JObj [(''error'', JStr ''Upstream failed''), (''status'', JNum (Num (real_of_int st)))]\<rparr>
               else (case body of None \<Rightarrow> error_response 500 ''Internal error''
                     | Some j \<Rightarrow> handle_payload j))))"


subsection \<open>The upstream contract\<close>

text \<open>The payload shape the specification describes: parallel arrays of UNIX-second
  timestamps and closing prices, and the series the proxy promises for it: the points
  \<open>{time: 1000 t, value: c}\<close> whose price is finite, in order.\<close>

definition yahoo_payload :: "real list \<Rightarrow> jsval list \<Rightarrow> jsval" where
  "yahoo_payload ts cs =
     JObj [(''chart'', JObj [(''result'', JArr [JObj
       [(''timestamp'', JArr (map (\<lambda>t. JNum (Num t)) ts)),
        (''indicators'', JObj [(''quote'', JArr [JObj [(''close'', JArr cs)]])])]])])]"

definition proxy_spec :: "real list \<Rightarrow> jsval list \<Rightarrow> jsval list" where
  "proxy_spec ts cs =
     map (\<lambda>(t, c). JObj [(''time'', JNum (Num (t * 1000))), (''value'', c)])
       (filter (\<lambda>(t, c). js_number_is_finite (Some c)) (zip ts cs))"

subsection \<open>Lemmas\<close>

lemma handle_payload_status:
  "resp_status (handle_payload j) \<in> {200, 500}"
  by (simp add: handle_payload_def Let_def error_response_def split: option.split)

lemma handle_payload_not_502 [simp]: "resp_status (handle_payload j) \<noteq> 502"
  using handle_payload_status [of j] by auto

lemma proxy_points_drop:
  "filter (\<lambda>p. js_number_is_finite (snd p))
     (js_map_index (proxy_point (JArr a)) k (map (\<lambda>t. JNum (Num t)) ts))
   = map (\<lambda>(t, c). (Num (t * 1000), Some c)) (filter (\<lambda>(t, c). js_number_is_finite (Some c)) (zip ts (drop k a)))"
proof (induction ts arbitrary: k)
  case (Cons t ts)
  show ?case
  proof (cases "k < length a")
    case True
    then have "drop k a = a ! k # drop (Suc k) a" by (rule Cons_nth_drop_Suc [symmetric])
    then show ?thesis using True Cons.IH by (simp add: proxy_point_def)
  next
    case False
    then show ?thesis using Cons.IH [of "Suc k"] by (simp add: proxy_point_def)
  qed
qed simp

lemma yahoo_payload_fields:
  "chart_result (yahoo_payload ts cs) = Some (JObj
       [(''timestamp'', JArr (map (\<lambda>t. JNum (Num t)) ts)),
        (''indicators'', JObj [(''quote'', JArr [JObj [(''close'', JArr cs)]])])])"
  "result_timestamps (chart_result (yahoo_payload ts cs)) = Some (JArr (map (\<lambda>t. JNum (Num t)) ts))"
  "result_closes (chart_result (yahoo_payload ts cs)) = Some (JArr cs)"
  by (simp_all add: chart_result_def result_timestamps_def result_closes_def yahoo_payload_def js_and_def)

lemma handle_payload_yahoo:
  "handle_payload (yahoo_payload ts cs) =
     \<lparr>resp_status = 200, resp_body = JObj [(''series'', JArr (proxy_spec ts cs))]\<rparr>"
proof -
  have "proxy_series (JArr (map (\<lambda>t. JNum (Num t)) ts)) (JArr cs) = Some (proxy_spec ts cs)"
    using proxy_points_drop [of cs 0 ts]
    by (simp add: proxy_series_def proxy_spec_def point_json_def split_def comp_def)
  then show ?thesis by (simp add: handle_payload_def Let_def yahoo_payload_fields(2,3))
qed

text \<open>A \<open>null\<close> timestamp is coerced by \<open>t * 1000\<close> to the epoch, so its price is
  kept at time 0, out of order.\<close>

lemma proxy_null_timestamp_epoch:
  "proxy_series (JArr [JNum (Num 1000), JNull]) (JArr [JNum (Num 50), JNum (Num 60)]) =
     Some [JObj [(''time'', JNum (Num 1000000)), (''value'', JNum (Num 50))],
           JObj [(''time'', JNum (Num 0)), (''value'', JNum (Num 60))]]"
  by (simp add: proxy_series_def proxy_point_def point_json_def)

subsection \<open>Properties of the proxy\<close>

text \<open>C33: the proxy answers 200, 500 or 502, and 502 exactly when the upstream request
  completed with a non-2xx status (a rejected fetch, a body that is not JSON and a
  malformed payload are 500).\<close>

theorem spx_handler_status:
  "resp_status (spx_handler q i up) \<in> {200, 500, 502} \<and>
   (resp_status (spx_handler q i up) = 502 \<longleftrightarrow>
      (\<exists>st b. up (upstream_url (case q of None \<Rightarrow> ''2y'' | Some r \<Rightarrow> r)
                               (case i of None \<Rightarrow> ''1d'' | Some v \<Rightarrow> v)) = Upstream st b \<and> \<not> js_ok st))"
  using handle_payload_status
  by (auto simp: spx_handler_def Let_def error_response_def split: fetch_outcome.split option.split)

text \<open>C34: for an upstream payload of the documented shape, the proxy answers 200 with
  the timestamps converted to milliseconds and the points with a non-finite price (or
  none) dropped.\<close>

theorem spx_handler_yahoo_payload:
  assumes "js_ok st"
  shows "spx_handler q i (\<lambda>_. Upstream st (Some (yahoo_payload ts cs))) =
           \<lparr>resp_status = 200, resp_body = JObj [(''series'', JArr (proxy_spec ts cs))]\<rparr>"
  using assms by (simp add: spx_handler_def handle_payload_yahoo)

theorem spx_handler_yahoo_payload_witness:
  "spx_handler None None (\<lambda>_. Upstream 200 (Some (yahoo_payload [1000, 2000] [JNum (Num 50), JNum NaN]))) =
     \<lparr>resp_status = 200, resp_body = JObj [(''series'', JArr (proxy_spec [1000, 2000] [JNum (Num 50), JNum NaN]))]\<rparr>"
  by (rule spx_handler_yahoo_payload) (simp add: js_ok_def)

end
