(* ===== verification/SeriesProvider.thy ===== *)
theory SeriesProvider
  imports Proxy Scale
begin

text \<open>
  The data path of \<^verbatim>\<open>src/src/LiveSP500Canvas.jsx\<close> up to the raw series: the client
  fetcher \<open>fetchYahooSPX\<close>, \<open>YAHOO_INTERVAL_MAP\<close> and the range policy of the fetch
  effect, the start filter (\<open>filteredData\<close>), the placeholder test, the demo series
  \<open>buildDemoSPX\<close>, and the fetch effect with its cancellation flag as a step function
  on an explicit state. The HTTP exchange with the proxy is \<open>json_wire\<close>
  (\<open>res.json\<close> then \<open>r.json()\<close>): non-finite numbers become \<open>null\<close>. The backend is
  the function \<open>be\<close> from the request URL to the outcome of \<open>fetch\<close>.
  \<open>Date.parse\<close>, \<open>Date.now\<close> and \<open>Math.random\<close> are inputs of the model.
\<close>

subsection \<open>The JSON exchange\<close>

fun json_wire :: "jsval \<Rightarrow> jsval" where
  "json_wire (JNum n) = (if js_is_finite n then JNum n else JNull)"
| "json_wire (JArr xs) = JArr (map json_wire xs)"
| "json_wire (JObj kvs) = JObj (map (\<lambda>(k, v). (k, json_wire v)) kvs)"
| "json_wire v = v"

subsection \<open>fetchYahooSPX\<close>

text \<open>The outcome of \<open>fetch\<close> on the backend: a rejection with its message, or a status
  with the body's \<open>r.json()\<close> (a value, or the message of its \<open>SyntaxError\<close>).\<close>

datatype backend_outcome = BackendRejected string | Backend int "jsval + string"

datatype fetch_error = FetchFailed string | BackendFailed int | MissingSeries

text \<open>The proxy's response as the client's \<open>fetch\<close> sees it.\<close>

definition proxy_exchange :: "http_response \<Rightarrow> backend_outcome" where
  "proxy_exchange r = Backend (resp_status r) (Inl (json_wire (resp_body r)))"


definition client_url :: "string \<Rightarrow> string \<Rightarrow> string" where
  "client_url rng ivl = ''/api/spx?range='' @ encode_uri_component rng @ ''&interval='' @ encode_uri_component ivl"

text \<open>The message of the \<open>TypeError\<close> of a property read on \<open>null\<close> (V8's wording).\<close>

definition null_read_message :: "string \<Rightarrow> string" where
  "null_read_message k = ''Cannot read properties of null (reading '' @ [CHR 0x27] @ k @ [CHR 0x27, CHR '')'']"

text \<open>\<open>{time: p.time, value: p.value}\<close> kept when \<open>Number.isFinite(value)\<close> and
  \<open>typeof time === "number"\<close>. A parsed JSON number is always finite (see
  \<open>json_wire_finite\<close>), so a number \<open>time\<close> is a \<open>Num\<close>.\<close>

fun client_point :: "jsval option \<Rightarrow> jsval option \<Rightarrow> point option" where
  "client_point (Some (JNum (Num t))) (Some (JNum (Num v))) = Some \<lparr>time = t, value = v\<rparr>"
| "client_point _ _ = None"

definition normalize_series :: "jsval list \<Rightarrow> series" where
  "normalize_series xs = List.map_filter (\<lambda>p. client_point (js_get p ''time'') (js_get p ''value'')) xs"

definition fetch_yahoo_spx :: "string \<Rightarrow> string \<Rightarrow> (string \<Rightarrow> backend_outcome) \<Rightarrow> fetch_error + series" where
  "fetch_yahoo_spx rng ivl be =
     (case be (client_url rng ivl) of
        BackendRejected msg \<Rightarrow> Inl (FetchFailed msg)
      | Backend st body \<Rightarrow>
          (if \<not> js_ok st then Inl (BackendFailed st)
           else (case body of
                   Inr msg \<Rightarrow> Inl (FetchFailed msg)
                 | Inl JNull \<Rightarrow> Inl (FetchFailed (null_read_message ''series''))
                 | Inl j \<Rightarrow>
                     (case js_get j ''series'' of
                        Some (JArr xs) \<Rightarrow>
                          if JNull \<in> set xs then Inl (FetchFailed (null_read_message ''time''))
                          else Inr (normalize_series xs)
                      | _ \<Rightarrow> Inl MissingSeries))))"

definition fetch_error_message :: "fetch_error \<Rightarrow> string" where
  "fetch_error_message e =
     (case e of FetchFailed m \<Rightarrow> m
      | BackendFailed st \<Rightarrow> ''Backend /api/spx failed: '' @ (if st < 0 then ''-'' else '''') @ string_of_nat (nat \<bar>st\<bar>)
      | MissingSeries \<Rightarrow> ''Missing series from /api/spx'')"

subsection \<open>Interval map and range policy\<close>

definition yahoo_interval_map :: "string \<Rightarrow> string option" where
  "yahoo_interval_map k =
     map_of [(''1'', ''1m''), (''5'', ''5m''), (''15'', ''15m''), (''60'', ''60m''),
             (''D'', ''1d''), (''W'', ''1wk''), (''M'', ''1mo'')] k"

definition yahoo_interval :: "string \<Rightarrow> string" where
  "yahoo_interval k = (case yahoo_interval_map k of None \<Rightarrow> ''1d'' | Some v \<Rightarrow> v)"

definition is_intraday :: "string \<Rightarrow> bool" where
  "is_intraday k \<longleftrightarrow> k = ''1'' \<or> k = ''5'' \<or> k = ''15'' \<or> k = ''60''"

definition ms_per_year :: real where
  "ms_per_year = 365 * 24 * 60 * 60 * 1000"

text \<open>\<open>startTs\<close> is \<open>None\<close> for \<open>undefined\<close>; \<open>!startTs\<close> also holds for 0.\<close>

definition range_policy :: "string \<Rightarrow> real option \<Rightarrow> real \<Rightarrow> string" where
  "range_policy ivl startTs now =
     (if is_intraday ivl then ''5d''
      else (case startTs of
              None \<Rightarrow> ''10y''
            | Some s \<Rightarrow>
                if s = 0 then ''10y''
                else let diffYears = (now - s) / ms_per_year
                     in if diffYears > 10 then ''max''
                        else if diffYears > 5 then ''10y''
                        else if diffYears > 2 then ''5y'' else ''2y''))"

subsection \<open>The start filter and the placeholder\<close>

definition filtered_data :: "series \<Rightarrow> real option \<Rightarrow> series" where
  "filtered_data raw startTs =
     (if raw = [] then raw
      else (case startTs of
              None \<Rightarrow> raw
            | Some s \<Rightarrow>
                if s = 0 then raw
                else let minTs = time (hd raw); maxTs = time (last raw)
                     in if s > maxTs then []
                        else let effectiveStart = max s minTs
                             in filter (\<lambda>p. effectiveStart \<le> time p) raw))"

text \<open>Line 943: the chart is drawn when the synthetic series has more than one point,
  otherwise "No data to display."\<close>

definition chart_shown :: "series \<Rightarrow> bool" where
  "chart_shown synth \<longleftrightarrow> 1 < length synth"

subsection \<open>The demo series\<close>

text \<open>\<open>buildDemoSPX(n)\<close>: \<open>rnd i\<close> is the value of \<open>Math.random()\<close> at step \<open>i\<close>.\<close>

fun demo_loop :: "real \<Rightarrow> (nat \<Rightarrow> real) \<Rightarrow> nat \<Rightarrow> nat \<Rightarrow> real \<Rightarrow> series" where
  "demo_loop start rnd i 0 price = []"
| "demo_loop start rnd i (Suc k) price =
     (let drift = 2 / 10000;
          shock = (sin (real i / 12) + rnd i - 1 / 2) * 5;
          price' = max 1 (price * (1 + drift) + shock)
      in \<lparr>time = start + real i * 3600000, value = price'\<rparr> # demo_loop start rnd (Suc i) k price')"

definition build_demo_spx :: "nat option \<Rightarrow> real \<Rightarrow> (nat \<Rightarrow> real) \<Rightarrow> series" where
  "build_demo_spx n now rnd =
     (let n' = (case n of None \<Rightarrow> 240 | Some 0 \<Rightarrow> 240 | Some m \<Rightarrow> m)
      in demo_loop (now - real n' * 3600000) rnd 0 n' 4500)"

subsection \<open>The fetch effect\<close>

text \<open>
  One run of the effect per change of \<open>[interval, key, startTs]\<close>: its \<open>cancelled\<close>
  flag is the run's entry of \<open>fx_cancelled\<close>; the cleanup of the previous run sets its
  flag before the next run starts. A run settles with the outcome of its fetch (and the
  demo series \<open>buildDemoSPX()\<close> would return at that moment); only a run whose flag is
  still clear commits. \<open>fx_domain\<close> is the viewport's \<open>domain\<close>.
\<close>

record fx_state =
  fx_cancelled :: "bool list"
  fx_raw :: series
  fx_error :: string
  fx_domain :: "domain option"

datatype fx_event =
    Run bool
  | Unmount
  | Settle nat "fetch_error + series" series
  | UserDomain domain

definition fx_init :: fx_state where
  "fx_init = \<lparr>fx_cancelled = [], fx_raw = [], fx_error = '''', fx_domain = None\<rparr>"

definition cancel_last :: "bool list \<Rightarrow> bool list" where
  "cancel_last fs = (if fs = [] then [] else butlast fs @ [True])"

definition demo_message :: string where
  "demo_message = ''Failed to fetch data. Using demo series.''"

text \<open>The commit of a live run (lines 490-502).\<close>

definition fx_commit :: "fx_state \<Rightarrow> fetch_error + series \<Rightarrow> series \<Rightarrow> fx_state" where
  "fx_commit st res demo =
     (case res of
        Inr spx \<Rightarrow> st\<lparr>fx_raw := spx, fx_domain := None\<rparr>
      | Inl e \<Rightarrow>
          let m = fetch_error_message e
          in st\<lparr>fx_error := (if m = [] then demo_message else m), fx_raw := demo, fx_domain := None\<rparr>)"

text \<open>\<open>Run startChanged\<close>: cleanup, then the new run's synchronous part
  (\<open>setError("")\<close>); when \<open>startTs\<close> changed and data is present, the effect of
  lines 514-520 resets the domain.\<close>

fun fx_step :: "fx_state \<Rightarrow> fx_event \<Rightarrow> fx_state" where
  "fx_step st (Run startChanged) =
     st\<lparr>fx_cancelled := cancel_last (fx_cancelled st) @ [False], fx_error := '''',
        fx_domain := (if startChanged \<and> fx_raw st \<noteq> [] then None else fx_domain st)\<rparr>"
| "fx_step st Unmount = st\<lparr>fx_cancelled := cancel_last (fx_cancelled st)\<rparr>"
| "fx_step st (Settle r res demo) =
     (if r < length (fx_cancelled st) \<and> \<not> fx_cancelled st ! r then fx_commit st res demo else st)"
| "fx_step st (UserDomain d) = st\<lparr>fx_domain := Some d\<rparr>"

inductive fx_reach :: "fx_state \<Rightarrow> bool" where
  fx_reach_init: "fx_reach fx_init"
| fx_reach_step: "fx_reach st \<Longrightarrow> fx_reach (fx_step st ev)"


subsection \<open>Lemmas\<close>

lemma json_wire_finite: "json_wire v = JNum n \<Longrightarrow> js_is_finite n"
  by (cases v rule: json_wire.cases) (auto split: if_splits)

text \<open>The client reads back exactly the finite-price points the proxy promised.\<close>

lemma normalize_proxy_points:
  "normalize_series (map json_wire (map (\<lambda>(t, c). JObj [(''time'', JNum (Num (t * 1000))), (''value'', c)])
       (filter (\<lambda>(t, c). js_number_is_finite (Some c)) zs)))
   = List.map_filter (\<lambda>(t, c). case c of JNum (Num v) \<Rightarrow> Some \<lparr>time = t * 1000, value = v\<rparr> | _ \<Rightarrow> None) zs"
proof (induction zs)
  case (Cons z zs)
  obtain t c where z: "z = (t, c)" by (cases z)
  show ?case
  proof (cases "js_number_is_finite (Some c)")
    case True
    then obtain v where "c = JNum (Num v)"
      by (cases c) (auto elim: js_is_finite.elims)
    then show ?thesis using Cons by (simp add: z normalize_series_def List.map_filter_def)
  next
    case False
    then have "(case c of JNum (Num v) \<Rightarrow> Some \<lparr>time = t * 1000, value = v\<rparr> | _ \<Rightarrow> None) = None"
      by (cases c) (auto split: jsnum.split)
    then show ?thesis using Cons False by (simp add: z List.map_filter_def)
  qed
qed (simp add: normalize_series_def List.map_filter_def)

lemma demo_loop_length [simp]: "length (demo_loop start rnd i k price) = k"
  by (induction k arbitrary: i price) (simp_all add: Let_def)

lemma demo_loop_times:
  "map time (demo_loop start rnd i k price) = map (\<lambda>j. start + real j * 3600000) [i..<i + k]"
  by (induction k arbitrary: i price) (simp_all add: Let_def upt_rec)

lemma demo_loop_values: "p \<in> set (demo_loop start rnd i k price) \<Longrightarrow> 1 \<le> value p"
  by (induction k arbitrary: i price) (auto simp: Let_def)

text \<open>The demo series is hourly, in time order, and never below 1.\<close>

lemma build_demo_spx_shape:
  "sorted (map time (build_demo_spx n now rnd)) \<and> (\<forall>p \<in> set (build_demo_spx n now rnd). 1 \<le> value p)"
  by (auto simp: build_demo_spx_def Let_def demo_loop_times demo_loop_values sorted_map
      intro: sorted_wrt_mono_rel [OF _ sorted_upt])

text \<open>A start exactly at the epoch reads as "no start date": no filter and the 10-year
  range, although the epoch is more than 10 years back.\<close>

lemma start_at_epoch_ignored:
  "range_policy ''D'' (Some 0) now = ''10y''" "filtered_data raw (Some 0) = raw"
  by (simp_all add: range_policy_def is_intraday_def filtered_data_def)

lemma sorted_time_bounds:
  assumes "sorted (map time raw)" "p \<in> set raw"
  shows "time (hd raw) \<le> time p" "time p \<le> time (last raw)"
  using assms
proof (induction raw)
  case (Cons q qs)
  { case 1 then show ?case using Cons by (cases "p = q") auto }
  { case 2 then show ?case using Cons by (cases "qs = []") auto }
qed simp_all

lemma length_cancel_last [simp]: "length (cancel_last fs) = length fs"
  by (simp add: cancel_last_def)

text \<open>Every run but the newest has its \<open>cancelled\<close> flag set.\<close>

definition older_cancelled :: "bool list \<Rightarrow> bool" where
  "older_cancelled fs \<longleftrightarrow> (\<forall>i. Suc i < length fs \<longrightarrow> fs ! i)"

lemma cancel_last_all:
  "older_cancelled fs \<Longrightarrow> i < length fs \<Longrightarrow> cancel_last fs ! i"
  by (cases "Suc i < length fs")
     (auto simp: older_cancelled_def cancel_last_def nth_append nth_butlast)

lemma older_cancelled_steps:
  "older_cancelled fs \<Longrightarrow> older_cancelled (cancel_last fs @ [False])"
  "older_cancelled fs \<Longrightarrow> older_cancelled (cancel_last fs)"
  by (auto simp: older_cancelled_def nth_append cancel_last_all)

lemma fx_commit_cancelled [simp]: "fx_cancelled (fx_commit st res demo) = fx_cancelled st"
  by (simp add: fx_commit_def Let_def split: sum.split)

lemma fx_reach_older_cancelled:
  "fx_reach st \<Longrightarrow> older_cancelled (fx_cancelled st)"
proof (induction rule: fx_reach.induct)
  case fx_reach_init
  then show ?case by (simp add: fx_init_def older_cancelled_def)
next
  case (fx_reach_step st ev)
  then show ?case by (cases ev) (simp_all add: older_cancelled_steps)
qed

subsection \<open>Properties of the series provider\<close>

text \<open>For a daily, weekly or monthly interval and a start date before now, the range
  requested reaches back to the start date (\<open>2y\<close>, \<open>5y\<close> and \<open>10y\<close> cover at most 2,
  5 and 10 years), and a longer range is taken only when the shorter one would not.\<close>

theorem range_policy_covers_start:
  assumes "\<not> is_intraday ivl" "s \<noteq> 0"
  shows "(range_policy ivl (Some s) now = ''2y'' \<longleftrightarrow> now - s \<le> 2 * ms_per_year) \<and>
         (range_policy ivl (Some s) now = ''5y'' \<longleftrightarrow> 2 * ms_per_year < now - s \<and> now - s \<le> 5 * ms_per_year) \<and>
         (range_policy ivl (Some s) now = ''10y'' \<longleftrightarrow> 5 * ms_per_year < now - s \<and> now - s \<le> 10 * ms_per_year) \<and>
         (range_policy ivl (Some s) now = ''max'' \<longleftrightarrow> 10 * ms_per_year < now - s)"
proof -
  have y: "0 < ms_per_year" by (simp add: ms_per_year_def)
  have d: "\<And>k. k < (now - s) / ms_per_year \<longleftrightarrow> k * ms_per_year < now - s"
    using y by (simp add: pos_less_divide_eq)
  show ?thesis using assms y by (auto simp: range_policy_def Let_def d not_less)
qed

theorem range_policy_covers_start_witness:
  "range_policy ''D'' (Some 1) (3 * ms_per_year) = ''5y''"
proof -
  have "2 * ms_per_year < 3 * ms_per_year - 1 \<and> 3 * ms_per_year - 1 \<le> 5 * ms_per_year"
    by (simp add: ms_per_year_def)
  then show ?thesis
    using range_policy_covers_start [of "''D''" 1 "3 * ms_per_year"] by (simp add: is_intraday_def)
qed

text \<open>C37: on a series in time order, the start filter keeps exactly the points at or
  after the start (the clamp to the first point and the early return for a start after the
  last point change nothing); a start of exactly 0 is read as "no start date".\<close>

theorem filtered_data_refines_start_filter:
  assumes "sorted (map time raw)"
  shows "filtered_data raw (Some s) = (if s = 0 then raw else filter (\<lambda>p. s \<le> time p) raw)"
proof (cases "raw = [] \<or> s = 0")
  case False
  then have ne: "raw \<noteq> []" and s: "s \<noteq> 0" by auto
  have b: "\<And>p. p \<in> set raw \<Longrightarrow> time (hd raw) \<le> time p \<and> time p \<le> time (last raw)"
    using sorted_time_bounds [OF assms] by blast
  show ?thesis
  proof (cases "s > time (last raw)")
    case True
    then have "filter (\<lambda>p. s \<le> time p) raw = []" using b by (fastforce simp: filter_empty_conv)
    then show ?thesis using ne s True by (simp add: filtered_data_def)
  next
    case False
    have "filter (\<lambda>p. max s (time (hd raw)) \<le> time p) raw = filter (\<lambda>p. s \<le> time p) raw"
      using b by (intro filter_cong) auto
    then show ?thesis using ne s False by (simp add: filtered_data_def Let_def)
  qed
qed (auto simp: filtered_data_def)

theorem filtered_data_refines_start_filter_witness:
  "filtered_data [\<lparr>time = 1, value = 10\<rparr>, \<lparr>time = 5, value = 11\<rparr>, \<lparr>time = 9, value = 12\<rparr>] (Some 4)
   = [\<lparr>time = 5, value = 11\<rparr>, \<lparr>time = 9, value = 12\<rparr>]"
  using filtered_data_refines_start_filter
    [of "[\<lparr>time = 1, value = 10\<rparr>, \<lparr>time = 5, value = 11\<rparr>, \<lparr>time = 9, value = 12\<rparr>]" 4]
  by simp

text \<open>C39: in every reachable state of the fetch effect at most one run is live (its
  \<open>cancelled\<close> flag clear): a superseded fetch can never commit.\<close>

theorem fx_reach_one_live_run:
  assumes "fx_reach st"
  shows "length (filter Not (fx_cancelled st)) \<le> 1"
proof -
  have o: "older_cancelled (fx_cancelled st)" using assms by (rule fx_reach_older_cancelled)
  obtain fs where fs: "fx_cancelled st = fs" by blast
  have "filter Not fs = filter Not (drop (length fs - 1) fs)"
  proof (cases fs rule: rev_cases)
    case (snoc ys y)
    have "\<forall>x \<in> set ys. x"
      using o fs snoc by (auto simp: older_cancelled_def in_set_conv_nth nth_append)
    then show ?thesis using snoc by (simp add: filter_empty_conv)
  qed simp
  then show ?thesis using fs by (simp add: length_filter_le le_trans [OF length_filter_le])
qed

theorem fx_reach_one_live_run_witness:
  "length (filter Not (fx_cancelled (fx_step (fx_step (fx_step fx_init (Run False)) (Run True)) Unmount))) \<le> 1"
proof -
  have "fx_reach (fx_step (fx_step (fx_step fx_init (Run False)) (Run True)) Unmount)"
    by (intro fx_reach_step fx_reach_init)
  then show ?thesis by (rule fx_reach_one_live_run)
qed

text \<open>C40: a settling fetch commits exactly when it belongs to the newest run and that run
  was not cleaned up; the result of a superseded run is discarded and leaves the state
  unchanged.\<close>

theorem fx_settle_commits_only_latest:
  assumes "fx_reach st"
  shows "fx_step st (Settle r res demo) =
           (if Suc r = length (fx_cancelled st) \<and> \<not> last (fx_cancelled st)
            then fx_commit st res demo else st)"
proof -
  have o: "older_cancelled (fx_cancelled st)" using assms by (rule fx_reach_older_cancelled)
  show ?thesis
  proof (cases "Suc r < length (fx_cancelled st)")
    case True
    then show ?thesis using o by (auto simp: older_cancelled_def)
  next
    case False
    moreover have "Suc r = length (fx_cancelled st) \<Longrightarrow> last (fx_cancelled st) = fx_cancelled st ! r"
      by (metis diff_Suc_1 last_conv_nth list.size(3) nat.distinct(1))
    ultimately show ?thesis by auto
  qed
qed

theorem fx_settle_commits_only_latest_witness:
  "fx_step (fx_step (fx_step fx_init (Run False)) (Run False)) (Settle 0 (Inr [\<lparr>time = 1, value = 2\<rparr>]) [])
     = fx_step (fx_step fx_init (Run False)) (Run False)"
proof -
  have "fx_reach (fx_step (fx_step fx_init (Run False)) (Run False))"
    by (intro fx_reach_step fx_reach_init)
  from fx_settle_commits_only_latest [OF this, of 0 "Inr [\<lparr>time = 1, value = 2\<rparr>]" "[]"]
  show ?thesis by (simp add: fx_init_def cancel_last_def)
qed

end
