(* ===== verification/Presentation.thy ===== *)
theory Presentation
  imports Leverage SeriesProvider
begin

text \<open>
  The controls and the labels of \<^verbatim>\<open>src/src/LiveSP500Canvas.jsx\<close>, and the
  component as a whole: the CSS classes of the local \<open>Card\<close> and \<open>Button\<close>
  components (lines 4-28), \<open>INTERVAL_OPTIONS\<close> (37-45), \<open>toTheme\<close> (89-91), the
  control state \<open>preset\<close>, \<open>interval\<close>, \<open>theme\<close>, \<open>key\<close>, \<open>startISO\<close>,
  \<open>baseValue\<close>, \<open>yMode\<close> (423-432) as the record \<open>ui_state\<close> with the
  \<open>onChange\<close>/\<open>onClick\<close> handlers of the form (793-921) and \<open>resetAll\<close>
  (721-732) as \<open>ui_step\<close>, \<open>startTs\<close> (441-449), the palette (573-583, 937),
  \<open>toPercent\<close> (734-736) and \<open>lastBadgeText\<close> (758-763). The record
  \<open>app_state\<close> composes the control state with the fetch effect of theory
  \<open>SeriesProvider\<close>: a control change that changes the effect's dependencies
  \<open>[interval, key, startTs]\<close> (line 509) runs the effect again; \<open>app_reach\<close> is
  the set of states reached from the mount, with its invariant \<open>app_reach_inv\<close> (the
  base is never NaN, at most one live fetch run). \<open>Date.parse\<close> is
  the argument \<open>dp\<close>; \<open>toFixed\<close> is \<open>js_to_fixed\<close> of theory \<open>JsRuntime\<close>.
\<close>

subsection \<open>Local UI components\<close>

definition card_class :: "string \<Rightarrow> string" where
  "card_class className = ''rounded-2xl border bg-white shadow '' @ className"

definition button_class :: "string \<Rightarrow> string \<Rightarrow> string" where
  "button_class variant className =
     (let base = ''px-3 py-2 text-sm font-medium rounded-2xl border transition-colors'';
          styles = (if variant = ''secondary''
                    then '' bg-slate-50 hover:bg-slate-100 border-slate-300''
                    else '' bg-slate-900 text-white hover:bg-slate-700 border-slate-900'')
      in base @ styles @ '' '' @ className)"

subsection \<open>Options and safe mappers\<close>

text \<open>The entries of \<open>INTERVAL_OPTIONS\<close> have the \<open>{label, value}\<close> shape of the
  preset options.\<close>

definition interval_options :: "preset_option list" where
  "interval_options =
     [\<lparr>opt_label = ''1m'', opt_value = ''1''\<rparr>, \<lparr>opt_label = ''5m'', opt_value = ''5''\<rparr>,
      \<lparr>opt_label = ''15m'', opt_value = ''15''\<rparr>, \<lparr>opt_label = ''1h'', opt_value = ''60''\<rparr>,
      \<lparr>opt_label = ''1D'', opt_value = ''D''\<rparr>, \<lparr>opt_label = ''1W'', opt_value = ''W''\<rparr>,
      \<lparr>opt_label = ''1M'', opt_value = ''M''\<rparr>]"

datatype theme = Light | Dark

definition to_theme :: "string \<Rightarrow> theme" where
  "to_theme v = (if v = ''dark'' then Dark else Light)"

subsection \<open>The control state and its handlers\<close>

record ui_state =
  ui_preset :: string
  ui_interval :: string
  ui_theme :: theme
  ui_key :: nat
  ui_start_iso :: string
  ui_base :: jsnum
  ui_ymode :: ymode

definition ui_init :: ui_state where
  "ui_init = \<lparr>ui_preset = ''SYNTHETIC:+1'', ui_interval = ''60'', ui_theme = Light, ui_key = 0,
              ui_start_iso = '''', ui_base = Num 100, ui_ymode = Linear\<rparr>"

text \<open>The base input (lines 871-880): \<open>var n = Number(e.target.value);
  setBaseValue(isNaN(n) ? 0 : n)\<close>. The input has \<open>type="number"\<close>, so
  \<open>e.target.value\<close> is the typed text sanitized by the browser
  (\<open>number_input_value\<close>); the event \<open>BaseChange\<close> carries the typed text.\<close>

definition base_of_input :: "string \<Rightarrow> jsnum" where
  "base_of_input s = (case js_string_to_number s of NaN \<Rightarrow> Num 0 | n \<Rightarrow> n)"

text \<open>\<open>resetAll\<close> without its \<open>setDomain(undefined)\<close>, which \<open>app_step\<close>
  applies to the domain.\<close>

definition reset_all :: "ui_state \<Rightarrow> ui_state" where
  "reset_all u = ui_init\<lparr>ui_key := Suc (ui_key u)\<rparr>"

datatype ui_event =
    PresetChange string
  | IntervalChange string
  | ThemeChange string
  | StartChange string
  | BaseChange string
  | YModeChange string
  | Reload
  | Fit
  | Reset

fun ui_step :: "ui_state \<Rightarrow> ui_event \<Rightarrow> ui_state" where
  "ui_step u (PresetChange p) = u\<lparr>ui_preset := p, ui_key := Suc (ui_key u)\<rparr>"
| "ui_step u (IntervalChange i) = u\<lparr>ui_interval := i\<rparr>"
| "ui_step u (ThemeChange v) = u\<lparr>ui_theme := to_theme v\<rparr>"
| "ui_step u (StartChange s) = u\<lparr>ui_start_iso := s\<rparr>"
| "ui_step u (BaseChange s) = u\<lparr>ui_base := base_of_input (number_input_value s)\<rparr>"
| "ui_step u (YModeChange v) = u\<lparr>ui_ymode := to_y_mode v\<rparr>"
| "ui_step u Reload = u\<lparr>ui_key := Suc (ui_key u)\<rparr>"
| "ui_step u Fit = u"
| "ui_step u Reset = reset_all u"

text \<open>\<open>fitToScreen\<close> and \<open>resetAll\<close> call \<open>setDomain(undefined)\<close>.\<close>

fun resets_domain :: "ui_event \<Rightarrow> bool" where
  "resets_domain Fit = True"
| "resets_domain Reset = True"
| "resets_domain _ = False"

text \<open>\<open>startTs\<close> (lines 441-449): empty input is \<open>undefined\<close>, and so is a string
  \<open>Date.parse\<close> rejects (NaN).\<close>

definition start_ts :: "(string \<Rightarrow> jsnum) \<Rightarrow> string \<Rightarrow> real option" where
  "start_ts dp s = (if s = [] then None else case dp s of Num t \<Rightarrow> Some t | _ \<Rightarrow> None)"

definition fetch_deps :: "(string \<Rightarrow> jsnum) \<Rightarrow> ui_state \<Rightarrow> string \<times> nat \<times> real option" where
  "fetch_deps dp u = (ui_interval u, ui_key u, start_ts dp (ui_start_iso u))"

subsection \<open>The component: controls and fetch effect together\<close>

record app_state =
  app_ui :: ui_state
  app_fx :: fx_state

datatype app_event =
    Ui ui_event
  | FetchSettle nat "fetch_error + series" series
  | Zoom domain

text \<open>On mount the effect runs once.\<close>

definition app_init :: app_state where
  "app_init = \<lparr>app_ui = ui_init, app_fx = fx_step fx_init (Run False)\<rparr>"

text \<open>A control event updates the control state and, for Fit and Reset, clears the
  domain; when the dependencies of the fetch effect changed, React runs its cleanup and
  body again (\<open>fx_step (Run startChanged)\<close>).\<close>

fun app_step :: "(string \<Rightarrow> jsnum) \<Rightarrow> app_state \<Rightarrow> app_event \<Rightarrow> app_state" where
  "app_step dp st (Ui ev) =
     (let u = app_ui st; u' = ui_step u ev;
          fx1 = (if resets_domain ev then (app_fx st)\<lparr>fx_domain := None\<rparr> else app_fx st);
          fx2 = (if fetch_deps dp u' \<noteq> fetch_deps dp u
                 then fx_step fx1 (Run (start_ts dp (ui_start_iso u') \<noteq> start_ts dp (ui_start_iso u)))
                 else fx1)
      in st\<lparr>app_ui := u', app_fx := fx2\<rparr>)"
| "app_step dp st (FetchSettle r res demo) = st\<lparr>app_fx := fx_step (app_fx st) (Settle r res demo)\<rparr>"
| "app_step dp st (Zoom d) = st\<lparr>app_fx := fx_step (app_fx st) (UserDomain d)\<rparr>"

text \<open>The states the component reaches from its mount by any sequence of events.\<close>

inductive app_reach :: "(string \<Rightarrow> jsnum) \<Rightarrow> app_state \<Rightarrow> bool" for dp where
  app_reach_init: "app_reach dp app_init"
| app_reach_step: "app_reach dp st \<Longrightarrow> app_reach dp (app_step dp st ev)"

text \<open>The synthetic series the chart draws (lines 434, 523-567). A base of
  \<open>Infinity\<close> (the input \<open>"Infinity"\<close>) makes every value non-finite, which the
  real-valued model does not represent: \<open>None\<close>.\<close>

definition app_synth :: "(string \<Rightarrow> jsnum) \<Rightarrow> app_state \<Rightarrow> series option" where
  "app_synth dp st =
     (case ui_base (app_ui st) of
        Num b \<Rightarrow> Some (build_synthetic_series
                          (filtered_data (fx_raw (app_fx st)) (start_ts dp (ui_start_iso (app_ui st))))
                          (leverage_of_preset (ui_preset (app_ui st))) (Some b))
      | _ \<Rightarrow> None)"

subsection \<open>Palette and labels\<close>

definition line_color :: "real \<Rightarrow> theme \<Rightarrow> string" where
  "line_color leverage th =
     (if 0 \<le> leverage then (if th = Dark then ''#22c55e'' else ''#16a34a'')
      else (if th = Dark then ''#f87171'' else ''#ef4444''))"

definition bg_color :: "theme \<Rightarrow> string" where
  "bg_color th = (if th = Dark then ''#0f172a'' else ''#ffffff'')"

definition fg_color :: "theme \<Rightarrow> string" where
  "fg_color th = (if th = Dark then ''#e2e8f0'' else ''#0f172a'')"

definition error_color :: "theme \<Rightarrow> string" where
  "error_color th = (if th = Dark then ''#fca5a5'' else ''#b91c1c'')"

definition to_percent :: "real \<Rightarrow> real \<Rightarrow> real" where
  "to_percent v ref = (v / percent_ref ref - 1) * 100"

text \<open>\<open>lastBadgeText\<close>: \<open>None\<close> where \<open>toFixed\<close> falls back to
  \<open>Number::toString\<close> (magnitudes of \<open>10^21\<close> and more).\<close>

definition last_badge_text :: "ymode \<Rightarrow> point option \<Rightarrow> real \<Rightarrow> string option" where
  "last_badge_text yMode lst anchor =
     (case lst of
        None \<Rightarrow> Some []
      | Some p \<Rightarrow>
          (case js_to_fixed 2 (value p) of
             None \<Rightarrow> None
           | Some a \<Rightarrow>
               if yMode = Percent
               then map_option (\<lambda>b. a @ '' ('' @ b @ ''%)'') (js_to_fixed 1 (to_percent (value p) anchor))
               else Some a))"

subsection \<open>Lemmas\<close>

lemma synth_loop_zero_base: "q \<in> set (synth_loop lev 0 prev ps) \<Longrightarrow> value q = 0"
  by (induction ps arbitrary: prev) (auto simp: Let_def)

lemma build_synthetic_zero_base: "q \<in> set (build_synthetic_series spx lev (Some 0)) \<Longrightarrow> value q = 0"
  by (cases spx) (auto simp: build_synthetic_series_def dest: synth_loop_zero_base)

lemma fetch_deps_key: "ui_key u' \<noteq> ui_key u \<Longrightarrow> fetch_deps dp u' \<noteq> fetch_deps dp u"
  by (simp add: fetch_deps_def)

text \<open>A control event that bumps \<open>key\<close> starts a new run of the fetch effect.\<close>

lemma app_step_new_run:
  assumes "ui_key (ui_step (app_ui st) ev) \<noteq> ui_key (app_ui st)"
  shows "fx_cancelled (app_fx (app_step dp st (Ui ev))) = cancel_last (fx_cancelled (app_fx st)) @ [False]"
    and "fx_error (app_fx (app_step dp st (Ui ev))) = ''''"
  using fetch_deps_key [OF assms] by (simp_all add: Let_def)

lemma fx_settle_newest:
  assumes "fx_cancelled st = cancel_last fs @ [False]"
  shows "fx_step st (Settle (length fs) res demo) = fx_commit st res demo"
  using assms by (simp add: nth_append)

lemma base_of_input_not_nan [simp]: "base_of_input s \<noteq> NaN"
  by (simp add: base_of_input_def split: jsnum.split)

lemma js_string_to_number_empty: "js_string_to_number [] = Num 0"
  by (simp add: js_string_to_number_def js_trim_def)

lemma base_of_input_empty: "base_of_input [] = Num 0"
  by (simp add: base_of_input_def js_string_to_number_empty)

lemma ui_step_base: "ui_base u \<noteq> NaN \<Longrightarrow> ui_base (ui_step u ev) \<noteq> NaN"
  by (cases ev) (simp_all add: reset_all_def ui_init_def)

lemma fx_step_older_cancelled:
  "older_cancelled (fx_cancelled st) \<Longrightarrow> older_cancelled (fx_cancelled (fx_step st ev))"
  by (cases ev) (simp_all add: older_cancelled_steps)

text \<open>Invariant of the component: the stored base is never NaN, and every run of the
  fetch effect but the newest is cancelled.\<close>

lemma app_reach_inv:
  "app_reach dp st \<Longrightarrow> ui_base (app_ui st) \<noteq> NaN \<and> older_cancelled (fx_cancelled (app_fx st))"
proof (induction rule: app_reach.induct)
  case app_reach_init
  then show ?case by (simp add: app_init_def ui_init_def fx_init_def older_cancelled_def)
next
  case (app_reach_step st ev)
  then show ?case
    by (cases ev) (simp_all add: Let_def ui_step_base fx_step_older_cancelled older_cancelled_steps)
qed

lemma fixed_read_back_bound:
  assumes "\<bar>x\<bar> < 10 ^ 21"
  shows "\<exists>t v. js_to_fixed f x = Some t \<and> js_string_to_number t = Num v \<and> \<bar>v - x\<bar> \<le> 1 / (2 * 10 ^ f)"
proof -
  let ?v = "(if x < 0 then -1 else 1) * (real (fixed_digits f \<bar>x\<bar>) / 10 ^ f)"
  have some: "js_to_fixed f x = Some (the (js_to_fixed f x))" using assms by (simp add: js_to_fixed_def)
  have e: "\<bar>real (fixed_digits f \<bar>x\<bar>) / 10 ^ f - \<bar>x\<bar>\<bar> \<le> 1 / (2 * 10 ^ f)"
    by (rule fixed_digits_error) simp
  have "\<bar>?v - x\<bar> = \<bar>real (fixed_digits f \<bar>x\<bar>) / 10 ^ f - \<bar>x\<bar>\<bar>" by (cases "x < 0") (simp_all add: abs_minus_commute)
  then show ?thesis using some js_to_fixed_reads_back [OF assms, of f] e by metis
qed


subsection \<open>Properties\<close>

text \<open>C25: the Interval control offers exactly the keys of \<open>YAHOO_INTERVAL_MAP\<close>, so
  no option falls back to the \<open>"1d"\<close> default, and among them only the monthly
  interval has no fixed step in \<open>intervalToStepMs\<close> (the tick loop steps it by
  calendar month).\<close>

theorem interval_options_match_maps:
  "set (map opt_value interval_options) = dom yahoo_interval_map \<and>
   {v \<in> set (map opt_value interval_options). interval_to_step_ms v = None} = {''M''}"
proof
  show "set (map opt_value interval_options) = dom yahoo_interval_map"
    by (auto simp: interval_options_def yahoo_interval_map_def dom_def split: if_splits)
  show "{v \<in> set (map opt_value interval_options). interval_to_step_ms v = None} = {''M''}"
    by (auto simp: interval_options_def interval_to_step_ms_def)
qed

text \<open>C30: text in the base field that is not a valid number (a half-typed \<open>1e\<close>, a
  lone \<open>-\<close>, the emptied field) reaches the handler as the empty string, which
  \<open>Number\<close> reads as 0: the base becomes 0 without any report, and the chart then draws
  a series that is 0 at every point; the fetch state is unchanged.\<close>

theorem base_change_invalid_text_flat:
  assumes "\<not> valid_float s"
  shows "app_fx (app_step dp st (Ui (BaseChange s))) = app_fx st \<and>
         ui_base (app_ui (app_step dp st (Ui (BaseChange s)))) = Num 0 \<and>
         (\<exists>ss. app_synth dp (app_step dp st (Ui (BaseChange s))) = Some ss \<and> (\<forall>q \<in> set ss. value q = 0))"
  using assms by (auto simp: Let_def fetch_deps_def number_input_value_def base_of_input_empty app_synth_def
      dest: build_synthetic_zero_base)

theorem base_change_invalid_text_flat_witness:
  "app_fx (app_step (\<lambda>_. NaN) app_init (Ui (BaseChange ''1e''))) = app_fx app_init \<and>
   ui_base (app_ui (app_step (\<lambda>_. NaN) app_init (Ui (BaseChange ''1e'')))) = Num 0 \<and>
   (\<exists>ss. app_synth (\<lambda>_. NaN) (app_step (\<lambda>_. NaN) app_init (Ui (BaseChange ''1e''))) = Some ss \<and>
         (\<forall>q \<in> set ss. value q = 0))"
proof -
  have "\<not> valid_float ''1e''" by code_simp
  then show ?thesis by (rule base_change_invalid_text_flat)
qed

text \<open>C21: the \<open>isNaN(n) ? 0 : n\<close> fallback of the base handler is never taken:
  whatever the user types, the value the number input reports is empty or a valid
  floating-point number, and \<open>Number\<close> converts both to a number, so the handler
  stores exactly \<open>Number(e.target.value)\<close>.\<close>

theorem base_input_nan_fallback_unused:
  "base_of_input (number_input_value s) = js_string_to_number (number_input_value s) \<and>
   js_string_to_number (number_input_value s) \<noteq> NaN"
proof (cases "valid_float s")
  case True
  then obtain v where "js_string_to_number s = Num v" using valid_float_number by blast
  then show ?thesis using True by (simp add: number_input_value_def base_of_input_def)
next
  case False
  then show ?thesis by (simp add: number_input_value_def base_of_input_empty js_string_to_number_empty)
qed

text \<open>C36: in linear and log mode the badge on the last point prints
  \<open>last.value.toFixed(2)\<close>, and reading that text back with \<open>Number\<close> gives a
  number within half a cent of the value (for magnitudes below \<open>10^21\<close>, where
  \<open>toFixed\<close> prints digits).\<close>

theorem last_badge_reads_back:
  assumes "\<bar>value p\<bar> < 10 ^ 21" and "yMode \<noteq> Percent"
  shows "\<exists>t v. last_badge_text yMode (Some p) anchor = Some t \<and> js_string_to_number t = Num v \<and>
               \<bar>v - value p\<bar> \<le> 1 / 200"
proof -
  obtain t v where "js_to_fixed 2 (value p) = Some t" "js_string_to_number t = Num v"
    "\<bar>v - value p\<bar> \<le> 1 / (2 * 10 ^ 2)" using fixed_read_back_bound [OF assms(1)] by blast
  then show ?thesis using assms(2) by (auto simp: last_badge_text_def)
qed

theorem last_badge_reads_back_witness:
  "\<exists>t v. last_badge_text Linear (Some \<lparr>time = 0, value = 4321 / 1000\<rparr>) 1 = Some t \<and>
         js_string_to_number t = Num v \<and> \<bar>v - 4321 / 1000\<bar> \<le> 1 / 200"
  using last_badge_reads_back [of "\<lparr>time = 0, value = 4321 / 1000\<rparr>" Linear 1] by simp

text \<open>C38: Reset always starts a fresh fetch: \<open>key\<close> changes, so the effect runs
  again, and when that run settles with data \<open>d\<close> the component shows \<open>d\<close>,
  auto-fitted, with no error note, whatever state it was in; the controls are back at
  their defaults with the new key.\<close>

theorem reset_fetch_settles_fresh:
  "let st1 = app_step dp st (Ui Reset);
       st2 = app_step dp st1 (FetchSettle (length (fx_cancelled (app_fx st))) (Inr d) demo)
   in app_ui st2 = ui_init\<lparr>ui_key := Suc (ui_key (app_ui st))\<rparr> \<and>
      fx_raw (app_fx st2) = d \<and> fx_domain (app_fx st2) = None \<and> fx_error (app_fx st2) = '''' \<and>
      fx_cancelled (app_fx st2) = cancel_last (fx_cancelled (app_fx st)) @ [False]"
proof -
  let ?st1 = "app_step dp st (Ui Reset)"
  have k: "ui_key (ui_step (app_ui st) Reset) \<noteq> ui_key (app_ui st)"
    by (simp add: reset_all_def ui_init_def)
  have c: "fx_cancelled (app_fx ?st1) = cancel_last (fx_cancelled (app_fx st)) @ [False]"
    and e: "fx_error (app_fx ?st1) = ''''" using app_step_new_run [OF k] by simp_all
  have u: "app_ui ?st1 = ui_init\<lparr>ui_key := Suc (ui_key (app_ui st))\<rparr>" by (simp add: Let_def reset_all_def)
  obtain F where F: "app_fx ?st1 = F" by simp
  have s2: "app_step dp ?st1 (FetchSettle (length (fx_cancelled (app_fx st))) (Inr d) demo) =
      ?st1\<lparr>app_fx := fx_commit F (Inr d) demo\<rparr>"
    using fx_settle_newest [of F] c F by simp
  show ?thesis unfolding Let_def s2 using c e u F by (simp add: fx_commit_def)
qed

end
