(* ===== verification/Render.thy ===== *)
theory Render
  imports Presentation Viewport
begin

text \<open>
  What \<^verbatim>\<open>src/src/LiveSP500Canvas.jsx\<close> renders: the header and crosshair labels
  (lines 738-772), the y-tick label text (390-395), \<open>tickLabel\<close> (250-259),
  \<open>formatDate\<close> (83-86), and the chart section (928-1127) as a list of SVG
  elements. The element datatype keeps the attributes that carry geometry, colour and
  text; presentational constants (\<open>strokeWidth\<close>, \<open>rx\<close>, \<open>textAnchor\<close>, the
  React keys) are left out. Locale formatting (\<open>toLocaleString\<close> and its variants)
  depends on the browser, so it is the argument \<open>loc\<close>. A text whose
  \<open>toFixed\<close> or \<open>String\<close> call the model does not cover is \<open>None\<close>.
\<close>

subsection \<open>Locale formatting\<close>

record locale_fmt =
  loc_time :: "real \<Rightarrow> string"
  loc_day :: "real \<Rightarrow> string"
  loc_month :: "real \<Rightarrow> string"
  loc_full :: "real \<Rightarrow> string"

definition format_date :: "locale_fmt \<Rightarrow> real \<Rightarrow> string" where
  "format_date loc ts = loc_full loc ts"

definition tick_label :: "locale_fmt \<Rightarrow> real \<Rightarrow> string \<Rightarrow> string" where
  "tick_label loc ts interval =
     (if interval = ''1'' \<or> interval = ''5'' \<or> interval = ''15'' \<or> interval = ''60'' then loc_time loc ts
      else if interval = ''D'' \<or> interval = ''W'' then loc_day loc ts
      else loc_month loc ts)"

subsection \<open>Label texts\<close>

text \<open>String concatenation with \<open>+\<close> over pieces some of which the model may not print.\<close>

definition opt_concat :: "string option list \<Rightarrow> string option" where
  "opt_concat xs = map_option concat (those xs)"

definition ylabel_text :: "ylabel \<Rightarrow> string option" where
  "ylabel_text l =
     (case l of
        PctLabel pct \<Rightarrow> map_option (\<lambda>s. s @ ''%'') (js_to_fixed 1 pct)
      | NumLabel r \<Rightarrow> js_to_fixed 2 r)"

definition title_label :: "real \<Rightarrow> jsnum \<Rightarrow> string option" where
  "title_label leverage baseValue =
     opt_concat [Some ''Synthetic '', Some (if 0 \<le> leverage then ''+'' else ''''),
                 js_number_to_string leverage, Some ''x SPX (base='', js_to_string baseValue, Some '')'']"

text \<open>\<open>startTs ? ... : ""\<close>: a start at the epoch (0) is falsy.\<close>

definition start_label :: "locale_fmt \<Rightarrow> real option \<Rightarrow> string" where
  "start_label loc startTs =
     (case startTs of
        Some t \<Rightarrow> if t \<noteq> 0 then ''Start: '' @ format_date loc t else ''''
      | None \<Rightarrow> '''')"

definition effective_start_label :: "locale_fmt \<Rightarrow> series \<Rightarrow> string" where
  "effective_start_label loc filtered =
     (case filtered of
        [] \<Rightarrow> ''''
      | p # _ \<Rightarrow> ''Effective start: '' @ format_date loc (time p))"

definition last_header_label :: "locale_fmt \<Rightarrow> series \<Rightarrow> string option" where
  "last_header_label loc synth =
     (if synth = [] then Some ''''
      else opt_concat [Some ''Last: '', js_to_fixed 2 (value (last synth)), Some '' @ '',
                       Some (format_date loc (time (last synth)))])"

definition cross_label :: "locale_fmt \<Rightarrow> ymode \<Rightarrow> real \<Rightarrow> cross option \<Rightarrow> string option" where
  "cross_label loc yMode anchor cr =
     (case cr of
        None \<Rightarrow> Some ''''
      | Some c \<Rightarrow>
          opt_concat ([Some (format_date loc (cr_ts c) @ '' '' @ [CHR 0xB7] @ '' ''), js_to_fixed 2 (cr_price c)]
                      @ (if yMode = Percent
                         then [Some '' ('', js_to_fixed 1 (to_percent (cr_price c) anchor), Some ''%)'']
                         else [])))"

subsection \<open>SVG elements\<close>

datatype svg_elem =
    SvgRect real real real real string "string option"
  | SvgLine real real real real string "string option"
  | SvgText real real real string "string option"
  | SvgPath "path_cmd list" string
  | SvgCircle real real real string
  | SvgGroup "svg_elem list"

definition chart_height :: real where
  "chart_height = 640"

definition grid_color :: string where
  "grid_color = ''#e5e7eb''"

definition cross_color :: string where
  "cross_color = ''#94a3b8''"

definition badge_fill :: "theme \<Rightarrow> string" where
  "badge_fill th = (if th = Dark then ''#111827'' else ''#f1f5f9'')"

definition y_grid :: "theme \<Rightarrow> ytick \<Rightarrow> svg_elem" where
  "y_grid th t =
     SvgGroup [SvgLine 40 (ytick_y t) (chart_width - right_margin - 10) (ytick_y t) grid_color None,
               SvgText 5 (ytick_y t + 4) 10 (fg_color th) (ylabel_text (ytick_label t))]"

definition x_grid :: "xtick \<Rightarrow> svg_elem" where
  "x_grid t = SvgLine (tick_x t) (chart_height - 30) (tick_x t) 30 grid_color None"

definition x_label_elem :: "locale_fmt \<Rightarrow> string \<Rightarrow> theme \<Rightarrow> xlabel \<Rightarrow> svg_elem" where
  "x_label_elem loc interval th l =
     SvgText (label_x l) (chart_height - 10) 10 (fg_color th) (Some (tick_label loc (label_ts l) interval))"

definition last_badge :: "theme \<Rightarrow> string \<Rightarrow> (real \<Rightarrow> real) \<Rightarrow> point \<Rightarrow> string option \<Rightarrow> svg_elem" where
  "last_badge th color yScale lst txt =
     (let y = yScale (value lst); e = chart_width - right_margin
      in SvgGroup [SvgLine 40 y e y color (Some ''6 4''),
                   SvgLine e y (e + 6) y color None,
                   SvgRect (e + 10) (y - 14) 120 28 (badge_fill th) (Some color),
                   SvgText (e + 16) (y + 4) 12 (fg_color th) txt])"

definition crosshair_elem :: "theme \<Rightarrow> string \<Rightarrow> cross \<Rightarrow> string option \<Rightarrow> svg_elem" where
  "crosshair_elem th color c txt =
     SvgGroup [SvgLine (cr_x c) 30 (cr_x c) (chart_height - 30) cross_color (Some ''4 4''),
               SvgLine 40 (cr_y c) (chart_width - right_margin - 10) (cr_y c) cross_color (Some ''4 4''),
               SvgCircle (cr_x c) (cr_y c) 3 color,
               SvgRect (cr_x c + 8) (cr_y c - 30) 220 28 (badge_fill th) (Some cross_color),
               SvgText (cr_x c + 16) (cr_y c - 12) 11 (fg_color th) txt]"

text \<open>The children of the \<open>svg\<close> element (lines 960-1121), in document order, which is
  the order SVG paints them.\<close>

definition chart_svg ::
  "locale_fmt \<Rightarrow> theme \<Rightarrow> real \<Rightarrow> string \<Rightarrow> ymode \<Rightarrow> chart_geom \<Rightarrow> cross option \<Rightarrow>
   real option \<Rightarrow> series \<Rightarrow> series \<Rightarrow> jsnum \<Rightarrow> svg_elem list" where
  "chart_svg loc th leverage interval yMode g cr startTs filtered synth baseValue =
     (let color = line_color leverage th; fg = fg_color th
      in [SvgRect 0 0 chart_width chart_height (bg_color th) None,
          SvgLine (chart_width - right_margin) 30 (chart_width - right_margin) (chart_height - 30) grid_color None,
          SvgGroup (map (y_grid th) (cg_yTicks g) @ map x_grid (cg_xTicks g)
                    @ map (x_label_elem loc interval th) (cg_xLabels g)),
          SvgPath (cg_path g) color]
         @ (case cg_last g of
              None \<Rightarrow> []
            | Some p \<Rightarrow> [last_badge th color (cg_yScale g) p (last_badge_text yMode (Some p) (cg_anchor g))])
         @ (case cr of
              None \<Rightarrow> []
            | Some c \<Rightarrow> [crosshair_elem th color c (cross_label loc yMode (cg_anchor g) (Some c))])
         @ [SvgText 50 20 14 fg (title_label leverage baseValue)]
         @ (if start_label loc startTs \<noteq> [] then [SvgText 400 20 12 fg (Some (start_label loc startTs))] else [])
         @ (if effective_start_label loc filtered \<noteq> []
            then [SvgText 400 36 11 fg (Some (effective_start_label loc filtered))] else [])
         @ [SvgText (chart_width - right_margin - 280) 20 12 fg (last_header_label loc synth)])"

subsection \<open>The chart section of the page\<close>

datatype chart_body = ChartSvg "svg_elem list" | NoData

record chart_section =
  sec_note :: "(string \<times> string) option"
  sec_body :: chart_body

text \<open>The error note (its colour and text) and the chart or the placeholder
  (lines 928-1127), for the component's state \<open>st\<close> and crosshair \<open>cr\<close>. The
  geometry is \<open>useChartPath\<close> over the synthetic series and the active domain.\<close>

definition render_section ::
  "locale_fmt \<Rightarrow> (string \<Rightarrow> jsnum) \<Rightarrow> app_state \<Rightarrow> cross option \<Rightarrow> chart_section option" where
  "render_section loc dp st cr =
     (case app_synth dp st of
        None \<Rightarrow> None
      | Some synth \<Rightarrow>
          let u = app_ui st; fx = app_fx st; th = ui_theme u;
              startTs = start_ts dp (ui_start_iso u);
              filtered = filtered_data (fx_raw fx) startTs;
              g = use_chart_path synth chart_width chart_height 40 (ui_interval u)
                    (active_domain synth (fx_domain fx)) (ui_ymode u) right_margin
          in Some \<lparr>sec_note = (if fx_error fx = '''' then None
                               else Some (error_color th, ''Data note: '' @ fx_error fx)),
                   sec_body = (if chart_shown synth
                               then ChartSvg (chart_svg loc th (leverage_of_preset (ui_preset u)) (ui_interval u)
                                                (ui_ymode u) g cr startTs filtered synth (ui_base u))
                               else NoData)\<rparr>)"

subsection \<open>Geometry of the output\<close>

text \<open>The rectangles \<open>(x, y, width, height)\<close> an element draws, groups included.\<close>

fun svg_rects :: "svg_elem \<Rightarrow> (real \<times> real \<times> real \<times> real) list" where
  "svg_rects (SvgRect x y w h _ _) = [(x, y, w, h)]"
| "svg_rects (SvgGroup es) = concat (map svg_rects es)"
| "svg_rects _ = []"

subsection \<open>Lemmas\<close>

lemma use_chart_path_last:
  "data \<noteq> [] \<Longrightarrow> \<exists>p. cg_last (use_chart_path data w h pad iv dm yMode rm) = Some p"
  by (simp add: use_chart_path_def Let_def split: prod.split)

lemma chart_svg_badge_rect:
  "cg_last g = Some p \<Longrightarrow>
   (chart_width - right_margin + 10, cg_yScale g (value p) - 14, 120, 28)
     \<in> set (concat (map svg_rects (chart_svg loc th lev iv yMode g cr s f sy b)))"
  by (simp add: chart_svg_def last_badge_def Let_def)

lemma js_number_to_string_nat:
  "js_number_to_string (real k) = Some (string_of_nat k)" if "real k < 10 ^ 21"
  using that by (simp add: js_number_to_string_def)

lemma js_number_to_string_neg_nat:
  "js_number_to_string (- real k) = Some (''-'' @ string_of_nat k)" if "0 < k" "real k < 10 ^ 21"
  using that by (simp add: js_number_to_string_def)

lemma title_label_nat:
  assumes "0 < k" and "real k < 10 ^ 21"
  shows "title_label (real k) b =
           map_option (\<lambda>s. ''Synthetic +'' @ string_of_nat k @ ''x SPX (base='' @ s @ '')'') (js_to_string b)"
    and "title_label (- real k) b =
           map_option (\<lambda>s. ''Synthetic -'' @ string_of_nat k @ ''x SPX (base='' @ s @ '')'') (js_to_string b)"
  using assms by (cases "js_to_string b";
      simp add: title_label_def opt_concat_def js_number_to_string_nat js_number_to_string_neg_nat)+

lemma preset_table:
  "map (\<lambda>q. (opt_label q, leverage_of_preset (opt_value q))) build_synthetic_options =
     map (\<lambda>k. (''+'' @ string_of_nat k @ ''x SPX'', real k)) [1..<11]
     @ map (\<lambda>k. (''-'' @ string_of_nat k @ ''x SPX'', - real k)) [1..<11]"
  by code_simp

subsection \<open>Properties\<close>

text \<open>C3: the chart title names the selected preset the way the preset menu does: for
  each of the 20 options of \<open>buildSyntheticOptions\<close> and any base, the title is
  \<open>"Synthetic " + label + " (base=" + String(base) + ")"\<close>, so the sign string and
  \<open>String(leverage)\<close> reproduce the option's label \<open>"+kx SPX"\<close> or
  \<open>"-kx SPX"\<close>.\<close>

theorem title_matches_preset:
  assumes "opt \<in> set build_synthetic_options"
  shows "title_label (leverage_of_preset (opt_value opt)) b =
           map_option (\<lambda>s. ''Synthetic '' @ opt_label opt @ '' (base='' @ s @ '')'') (js_to_string b)"
proof -
  have "(opt_label opt, leverage_of_preset (opt_value opt))
          \<in> set (map (\<lambda>q. (opt_label q, leverage_of_preset (opt_value q))) build_synthetic_options)"
    using assms by simp
  then obtain k where k: "0 < k" "k < 11"
    and "(opt_label opt, leverage_of_preset (opt_value opt)) = (''+'' @ string_of_nat k @ ''x SPX'', real k) \<or>
         (opt_label opt, leverage_of_preset (opt_value opt)) = (''-'' @ string_of_nat k @ ''x SPX'', - real k)"
    unfolding preset_table by auto
  moreover have "real k < 10 ^ 21" using k(2) by simp
  ultimately show ?thesis using title_label_nat [OF k(1)] by auto
qed

theorem title_matches_preset_witness:
  "title_label (leverage_of_preset ''SYNTHETIC:-3'') (Num 100) =
     map_option (\<lambda>s. ''Synthetic '' @ ''-3x SPX'' @ '' (base='' @ s @ '')'') (js_to_string (Num 100))"
proof -
  have "\<lparr>opt_label = ''-3x SPX'', opt_value = ''SYNTHETIC:-3''\<rparr> \<in> set build_synthetic_options" by code_simp
  from title_matches_preset [OF this, of "Num 100"] show ?thesis by simp
qed

text \<open>C13: whenever the chart is drawn, the last-value badge is a 120-wide box that
  starts 10 units into the 90-unit right margin, so it ends at x = 1240, 40 units
  beyond the \<open>viewBox\<close> width 1200: its right part is clipped.\<close>

theorem shown_chart_badge_overflows:
  assumes "render_section loc dp st cr = Some sec" and "sec_body sec = ChartSvg es"
  shows "\<exists>y. (chart_width - right_margin + 10, y, 120, 28) \<in> set (concat (map svg_rects es)) \<and>
             chart_width < chart_width - right_margin + 10 + 120"
proof -
  obtain synth where s: "app_synth dp st = Some synth" "chart_shown synth"
    using assms by (auto simp: render_section_def Let_def split: option.splits if_splits)
  let ?g = "use_chart_path synth chart_width chart_height 40 (ui_interval (app_ui st))
              (active_domain synth (fx_domain (app_fx st))) (ui_ymode (app_ui st)) right_margin"
  have "synth \<noteq> []" using s(2) by (auto simp: chart_shown_def)
  then obtain p where p: "cg_last ?g = Some p" using use_chart_path_last by blast
  have "es = chart_svg loc (ui_theme (app_ui st)) (leverage_of_preset (ui_preset (app_ui st)))
               (ui_interval (app_ui st)) (ui_ymode (app_ui st)) ?g cr (start_ts dp (ui_start_iso (app_ui st)))
               (filtered_data (fx_raw (app_fx st)) (start_ts dp (ui_start_iso (app_ui st)))) synth (ui_base (app_ui st))"
    using assms s by (auto simp: render_section_def Let_def)
  then have "(chart_width - right_margin + 10, cg_yScale ?g (value p) - 14, 120, 28)
      \<in> set (concat (map svg_rects es))" by (simp only: chart_svg_badge_rect [OF p])
  moreover have "chart_width < chart_width - right_margin + 10 + 120"
    by (simp add: chart_width_def right_margin_def)
  ultimately show ?thesis by blast
qed

theorem shown_chart_badge_overflows_witness:
  "\<exists>sec es. render_section \<lparr>loc_time = \<lambda>_. ''12:00'', loc_day = \<lambda>_. ''Jan 01'', loc_month = \<lambda>_. ''Jan 70'',
                             loc_full = \<lambda>_. ''1/1/1970''\<rparr> (\<lambda>_. NaN)
             (app_init\<lparr>app_fx := (app_fx app_init)\<lparr>fx_raw := [\<lparr>time = 0, value = 100\<rparr>, \<lparr>time = 1, value = 101\<rparr>]\<rparr>\<rparr>)
             None = Some sec \<and> sec_body sec = ChartSvg es \<and>
           (\<exists>y. (chart_width - right_margin + 10, y, 120, 28) \<in> set (concat (map svg_rects es)))"
proof -
  let ?L = "\<lparr>loc_time = \<lambda>_. ''12:00'', loc_day = \<lambda>_. ''Jan 01'', loc_month = \<lambda>_. ''Jan 70'',
             loc_full = \<lambda>_. ''1/1/1970''\<rparr>"
  let ?S = "app_init\<lparr>app_fx := (app_fx app_init)\<lparr>fx_raw := [\<lparr>time = 0, value = 100\<rparr>, \<lparr>time = 1, value = 101\<rparr>]\<rparr>\<rparr>"
  have "\<exists>sec es. render_section ?L (\<lambda>_. NaN) ?S None = Some sec \<and> sec_body sec = ChartSvg es"
    by (simp add: render_section_def app_synth_def app_init_def ui_init_def start_ts_def filtered_data_def
        chart_shown_def build_synthetic_series_def Let_def)
  then obtain sec es where r: "render_section ?L (\<lambda>_. NaN) ?S None = Some sec" "sec_body sec = ChartSvg es"
    by blast
  from shown_chart_badge_overflows [OF r] r show ?thesis by blast
qed

end
