(* ===== verification/Component.thy ===== *)
theory Component
  imports Render
begin

text \<open>
  The whole component of \<^verbatim>\<open>src/src/LiveSP500Canvas.jsx\<close> as one state machine:
  the controls and the fetch effect (\<open>app_state\<close>, theory \<open>Presentation\<close>) with the
  pointer state of theory \<open>Viewport\<close> (\<open>isPanning\<close>, \<open>panStart\<close>, \<open>cross\<close>).
  The code has one \<open>domain\<close> state (line 436); here it lives in the fetch state
  (\<open>fx_domain\<close>) and the pointer handlers read and write it there
  (\<open>comp_view\<close>, \<open>comp_step\<close>). The handlers see the series and the scales of the
  current render (lines 562-610). A base of \<open>Infinity\<close> is outside the real-valued
  model: the handlers then see an empty series.
\<close>

record comp_state =
  cs_app :: app_state
  cs_view :: view_state

definition comp_init :: comp_state where
  "comp_init = \<lparr>cs_app = app_init, cs_view = init_view\<rparr>"

definition comp_synth :: "(string \<Rightarrow> jsnum) \<Rightarrow> comp_state \<Rightarrow> series" where
  "comp_synth dp st = (case app_synth dp (cs_app st) of Some s \<Rightarrow> s | None \<Rightarrow> [])"

definition comp_geom :: "(string \<Rightarrow> jsnum) \<Rightarrow> comp_state \<Rightarrow> chart_geom" where
  "comp_geom dp st =
     use_chart_path (comp_synth dp st) chart_width chart_height 40 (ui_interval (app_ui (cs_app st)))
       (active_domain (comp_synth dp st) (fx_domain (app_fx (cs_app st)))) (ui_ymode (app_ui (cs_app st)))
       right_margin"

definition comp_ctx :: "(string \<Rightarrow> jsnum) \<Rightarrow> comp_state \<Rightarrow> view_ctx" where
  "comp_ctx dp st =
     \<lparr>vc_synth = comp_synth dp st, vc_xScale = cg_xScale (comp_geom dp st),
      vc_yScale = cg_yScale (comp_geom dp st)\<rparr>"

definition comp_view :: "comp_state \<Rightarrow> view_state" where
  "comp_view st = (cs_view st)\<lparr>vs_domain := fx_domain (app_fx (cs_app st))\<rparr>"

datatype comp_event = AppEv app_event | ViewEv view_event

fun comp_step :: "(string \<Rightarrow> jsnum) \<Rightarrow> comp_state \<Rightarrow> comp_event \<Rightarrow> comp_state" where
  "comp_step dp st (AppEv e) = st\<lparr>cs_app := app_step dp (cs_app st) e\<rparr>"
| "comp_step dp st (ViewEv e) =
     (let v = view_step (comp_ctx dp st) (comp_view st) e;
          a = cs_app st
      in \<lparr>cs_app = a\<lparr>app_fx := (app_fx a)\<lparr>fx_domain := vs_domain v\<rparr>\<rparr>, cs_view = v\<rparr>)"

text \<open>Events a user and the network can produce: every pointer event (as in
  \<open>view_reach\<close>); a domain is set only by the pointer handlers, not by a bare
  \<open>Zoom\<close>.\<close>

fun comp_admissible :: "comp_event \<Rightarrow> bool" where
  "comp_admissible (AppEv (Zoom _)) = False"
| "comp_admissible (AppEv _) = True"
| "comp_admissible (ViewEv e) = True"

inductive comp_reach :: "(string \<Rightarrow> jsnum) \<Rightarrow> comp_state \<Rightarrow> bool" for dp where
  comp_reach_init: "comp_reach dp comp_init"
| comp_reach_step: "comp_reach dp st \<Longrightarrow> comp_admissible ev \<Longrightarrow> comp_reach dp (comp_step dp st ev)"

text \<open>An interleaving the component allows: the first fetch commits 0..1000, the
  interval changes (a new fetch starts), the user presses the pointer at x = 500, the new
  fetch commits the shorter series 900..1000 (the domain is reset), and the pointer moves
  without moving.\<close>

definition refresh_during_pan :: "comp_event list" where
  "refresh_during_pan =
     [AppEv (FetchSettle 0 (Inr [\<lparr>time = 0, value = 100\<rparr>, \<lparr>time = 1000, value = 110\<rparr>]) []),
      AppEv (Ui (IntervalChange ''D'')),
      ViewEv (PointerDown 500),
      AppEv (FetchSettle 1 (Inr [\<lparr>time = 900, value = 100\<rparr>, \<lparr>time = 1000, value = 105\<rparr>]) []),
      ViewEv (PointerMove 500 0)]"

subsection \<open>Lemmas\<close>

lemma comp_reach_steps:
  "comp_reach dp st \<Longrightarrow> list_all comp_admissible evs \<Longrightarrow> comp_reach dp (foldl (comp_step dp) st evs)"
  by (induction evs arbitrary: st) (auto intro: comp_reach_step)

lemmas comp_trace_simps = comp_init_def app_init_def ui_init_def fx_init_def Let_def fetch_deps_def
  start_ts_def fx_commit_def comp_view_def comp_ctx_def comp_synth_def app_synth_def filtered_data_def
  build_synthetic_series_def on_pointer_down_def on_pointer_move_def active_domain_def full_domain_def
  pan_domain_def chart_width_def right_margin_def cancel_last_def nth_append

subsection \<open>Properties\<close>

text \<open>C32: a fetch that commits while a drag is in progress leaves \<open>panStart\<close> holding
  the old domain: \<open>onPointerMove\<close> then pans from that stale domain, and since it is
  wider than the new series the clamps put the domain's left edge before the first point.
  After the reachable trace \<open>refresh_during_pan\<close>, the domain is [0, 1000] while the data
  spans [900, 1000].\<close>

theorem pan_across_refresh_leaves_extent:
  "let st = foldl (comp_step (\<lambda>_. NaN)) comp_init refresh_during_pan
   in comp_reach (\<lambda>_. NaN) st \<and> fx_domain (app_fx (cs_app st)) = Some \<lparr>x0 = 0, x1 = 1000\<rparr> \<and>
      full_domain (comp_synth (\<lambda>_. NaN) st) = \<lparr>x0 = 900, x1 = 1000\<rparr> \<and>
      \<not> inside_full (full_domain (comp_synth (\<lambda>_. NaN) st)) \<lparr>x0 = 0, x1 = 1000\<rparr>"
proof -
  let ?st = "foldl (comp_step (\<lambda>_. NaN)) comp_init refresh_during_pan"
  have r: "comp_reach (\<lambda>_. NaN) ?st"
    by (rule comp_reach_steps [OF comp_reach_init]) (simp add: refresh_during_pan_def)
  have d: "fx_domain (app_fx (cs_app ?st)) = Some \<lparr>x0 = 0, x1 = 1000\<rparr>"
    by (simp add: refresh_during_pan_def comp_trace_simps)
  have f: "full_domain (comp_synth (\<lambda>_. NaN) ?st) = \<lparr>x0 = 900, x1 = 1000\<rparr>"
    by (simp add: refresh_during_pan_def comp_trace_simps)
  show ?thesis using r d f by (simp add: inside_full_def)
qed

end
