(* ===== verification/AppEntry.thy ===== *)
theory AppEntry
  imports Prelude
begin

text \<open>
  \<^verbatim>\<open>src/src/App.jsx\<close>: its imports and the component it renders. Module
  resolution is the bundler's (Vite's default \<open>resolve.extensions\<close>), written from
  its documentation: a relative specifier names a file of the directory, tried as
  given and then with each extension; whether names compare case-sensitively is the
  file system's. The repository's \<^verbatim>\<open>src/src\<close> directory holds \<open>App.jsx\<close> and
  \<open>LiveSP500Canvas.jsx\<close> (the assets and \<open>App.css\<close> are outside the sources).
\<close>

datatype fs_case = CaseSensitive | CaseInsensitive

definition lower_char :: "char \<Rightarrow> char" where
  "lower_char c =
     (let n = (of_char c :: nat) in if 65 \<le> n \<and> n \<le> 90 then char_of (n + 32) else c)"

definition same_name :: "fs_case \<Rightarrow> string \<Rightarrow> string \<Rightarrow> bool" where
  "same_name fc a b = (case fc of CaseSensitive \<Rightarrow> a = b | CaseInsensitive \<Rightarrow> map lower_char a = map lower_char b)"

definition resolve_extensions :: "string list" where
  "resolve_extensions = ['''', ''.mjs'', ''.js'', ''.mts'', ''.ts'', ''.jsx'', ''.tsx'', ''.json'']"

definition resolve_relative :: "fs_case \<Rightarrow> string list \<Rightarrow> string \<Rightarrow> string option" where
  "resolve_relative fc files spec =
     (let name = drop 2 spec;
          hits = [f. ext \<leftarrow> resolve_extensions, f \<leftarrow> files, same_name fc (name @ ext) f]
      in case hits of [] \<Rightarrow> None | f # _ \<Rightarrow> Some f)"

definition src_dir :: "string list" where
  "src_dir = [''App.jsx'', ''LiveSP500Canvas.jsx'']"

text \<open>Line 5: the specifier of the chart component's import.\<close>

definition app_canvas_import :: string where
  "app_canvas_import = ''./LiveSP500canvas''"

text \<open>Lines 7-11: \<open>App\<close> keeps an unused \<open>count\<close> state and renders the chart
  component whose module the import resolves to, or the build fails (\<open>None\<close>).\<close>

definition app_render :: "fs_case \<Rightarrow> string option" where
  "app_render fc = resolve_relative fc src_dir app_canvas_import"

subsection \<open>Lemmas\<close>

text \<open>The import resolves on a case-insensitive file system (macOS and Windows
  defaults) and fails on a case-sensitive one (Linux, where CI and deployment builds
  run).\<close>

lemma app_import_case:
  "app_render CaseInsensitive = Some ''LiveSP500Canvas.jsx'' \<and> app_render CaseSensitive = None"
  by code_simp

end
