(* ===== verification/Spec2Isabelle.thy ===== *)
theory Spec2Isabelle
  imports Leverage Viewport SeriesProvider Presentation Render Component AppEntry
begin

text \<open>
  \<^bold>\<open>A verification development of the synthetic S\&P 500 chart.\<close>

  \<^bold>\<open>The program.\<close> \<^verbatim>\<open>src/src/LiveSP500Canvas.jsx\<close> is one React component
  with pure helpers above it; \<^verbatim>\<open>src/unnamed/part_000\<close> is the serverless proxy
  \<^verbatim>\<open>api/spx.js\<close>; \<^verbatim>\<open>src/src/App.jsx\<close> only renders the component. The
  data flow: the proxy fetches Yahoo's chart JSON and answers \<open>{series}\<close>; the
  component's fetch effect calls \<open>fetchYahooSPX\<close> (or falls back to the demo series),
  filters the result by the start date (\<open>filteredData\<close>), turns it into a leveraged
  synthetic series (\<open>buildSyntheticSeries\<close>), and \<open>useChartPath\<close> derives the
  drawable geometry for the visible window (\<open>domain\<close>), which the wheel, drag and hover
  handlers change.

  \<^bold>\<open>Theories and what they model.\<close>
  \<^item> \<open>Prelude\<close>: the record \<open>point\<close> (\<open>{time, value}\<close>), series as lists,
    \<open>Math.min/max.apply\<close> as \<open>js_min_list\<close>/\<open>js_max_list\<close>, shared list lemmas and
    the \<open>series_simps\<close> collection.
  \<^item> \<open>JsRuntime\<close>, \<open>JsDate\<close>: the JavaScript runtime the code calls, from the
    ECMAScript specification: number values with NaN and infinities, \<open>Number(string)\<close>,
    \<open>isFinite\<close>, \<open>String(n)\<close> (integral values), \<open>indexOf\<close>, \<open>split\<close>, \<open>replace\<close>,
    \<open>Number.prototype.toFixed\<close> (\<open>js_to_fixed\<close>, with the lemma that \<open>Number\<close>
    reads its output back as the value rounded to the given places); from the HTML
    standard, the value a \<open>type="number"\<close> input reports (\<open>number_input_value\<close>:
    the typed text if it is a valid floating-point number, else empty), with the lemma
    that \<open>Number\<close> converts every such value to a number; UTC
    \<open>Date\<close> time values (\<open>None\<close> is an invalid date), \<open>TimeClip\<close>, the civil
    calendar and the \<open>setUTC*\<close> methods.
  \<^item> \<open>Leverage\<close> (lines 54-161, 434): \<open>buildSyntheticOptions\<close>, \<open>isSynthetic\<close>,
    \<open>parseLeverage\<close>, \<open>parseLeverage(preset) || 1\<close> and \<open>buildSyntheticSeries\<close>
    (its loop as \<open>synth_loop\<close>), with the closed form \<open>synthetic_reference\<close>. C1-C2,
    C4-C9: the first value is the base, flat input is sign independent, the loop refines
    the closed form, leverage 1 normalises prices, zero is absorbing, the
    menu presets round-trip, the leverage is never 0, and every preset
    \<open>SYNTHETIC:+k\<close>/\<open>SYNTHETIC:-k\<close> parses back to +k/-k for any natural k, with no
    range check.
  \<^item> \<open>Axis\<close> (lines 181-382): \<open>intervalToStepMs\<close>, \<open>alignToInterval\<close>,
    \<open>addInterval\<close>, the x-tick loop (\<open>tick_loop\<close>, with its 5000-step guard as fuel)
    and the label pass. C10-C12, C23: at least 2 and at most 5000 ticks, fixed-step
    progression, label spacing, and the loop stops by its own condition once the ticks
    pass the right edge, so the fuel never decides the result.
  \<^item> \<open>Scale\<close> (lines 266-416): \<open>useChartPath\<close> as \<open>use_chart_path\<close> returning the
    record \<open>chart_geom\<close>, with its slice, transforms, scales, path and y ticks.
    C14-C20: log mode degrades to linear, the percent tick at the
    anchor, the path stays in the plot vertically and horizontally, the y scale puts larger
    values higher, the y-tick layout, the transform round trip. Lemmas show the fallback
    slice drawing outside the plot and the percent reference at a non-positive anchor.
  \<^item> \<open>Viewport\<close> (lines 584-719, 950-954): the state \<open>domain\<close>, \<open>isPanning\<close>,
    \<open>panStart\<close>, \<open>cross\<close> as the record \<open>view_state\<close>; \<open>onWheel\<close> (\<open>on_wheel\<close>,
    \<open>zoom_domain\<close>), \<open>onPointerDown\<close>, \<open>onPointerMove\<close> (\<open>pan_domain\<close>, the
    crosshair loop \<open>nearest_loop\<close>), \<open>onPointerUp\<close>, \<open>onLeave\<close>, \<open>fitToScreen\<close>,
    and \<open>view_step\<close> on the \<open>view_event\<close>s; the reachable states are the inductive
    \<open>view_reach\<close> (any events, for one series). C22, C24, C26-C29, C31: the left-edge
    pan clamp, zoom in then out is the identity, a zoom over the gutter can go below the
    minimum span, the handlers refine the auto-fit/override and idle/panning machine,
    the invariant of reachable states (\<open>view_safe\<close>: panning flag and pan start agree,
    domain and pan start inside the full extent), the crosshair's first-argmin
    specification with its fallback to \<open>synth[0]\<close>, and a wheel over the plot area
    keeps the minimum span.
  \<^item> \<open>Proxy\<close> (\<^verbatim>\<open>part_000\<close>): JSON values \<open>jsval\<close>, truthiness, \<open>&&\<close>, property
    access, \<open>ToNumber\<close>, \<open>encodeURIComponent\<close>, and the handler \<open>spx_handler\<close>
    with the upstream \<open>fetch\<close> as a function argument. C33-C34: status codes, and the
    series returned for a payload of the documented shape.
  \<^item> \<open>SeriesProvider\<close> (lines 101-176, 453-560, 943): \<open>fetchYahooSPX\<close>,
    \<open>YAHOO_INTERVAL_MAP\<close>, the range policy, the start filter, the placeholder test,
    \<open>buildDemoSPX\<close>, and the fetch effect with its cancellation flags as the step
    function \<open>fx_step\<close> on \<open>fx_state\<close>, reachable states \<open>fx_reach\<close>. C37,
    C39-C40: the filter refines "points at or after the start", at most one live run, and
    only the newest live run commits.
  \<^item> \<open>Presentation\<close> (lines 4-45, 89-91, 423-449, 562-583, 717-763, 793-937): the
    \<open>Card\<close>/\<open>Button\<close> classes, \<open>INTERVAL_OPTIONS\<close>, \<open>toTheme\<close>, the
    control state as the record \<open>ui_state\<close> and its handlers (\<open>ui_step\<close> on
    \<open>ui_event\<close>, \<open>resetAll\<close> as \<open>reset_all\<close>), \<open>startTs\<close>, the palette,
    \<open>toPercent\<close>, \<open>lastBadgeText\<close>, and the component as a whole: the record
    \<open>app_state\<close> of the control state and the fetch effect, with \<open>app_step\<close>
    running the effect again when its dependencies \<open>[interval, key, startTs]\<close>
    change, its reachable states \<open>app_reach\<close> and their invariant, and
    \<open>app_synth\<close>, the series the chart draws. C21, C25, C30, C36, C38: the
    \<open>isNaN\<close> fallback of the base handler is never taken (the input reports only
    empty or valid numbers), the Interval options are exactly the keys of
    \<open>YAHOO_INTERVAL_MAP\<close>, base text that is not a valid number becomes 0 and a flat
    zero series, the badge text reads back within half a cent, and Reset always leads
    to a fresh fetch that is committed.
  \<^item> \<open>Render\<close> (lines 83-86, 250-259, 390-395, 739-772, 929-1125): the label texts
    (\<open>titleLabel\<close>, \<open>startLabel\<close>, \<open>effectiveStartLabel\<close>,
    \<open>lastHeaderLabel\<close>, \<open>crossLabel\<close>, \<open>tickLabel\<close>, the y-tick labels), the
    \<open>svg\<close> children as a list of \<open>svg_elem\<close> in paint order (\<open>chart_svg\<close>), and
    the chart section of the page for a component state (\<open>render_section\<close>: the error
    note, the chart or the placeholder). Locale formatting is the argument \<open>loc\<close>.
    C3, C13: the title repeats the selected preset's menu label, and whenever the chart
    is drawn the last-value badge reaches 40 units past the \<open>viewBox\<close>.
  \<^item> \<open>Component\<close>: the whole component as one state machine \<open>comp_step\<close> on
    \<open>comp_state\<close> (controls, fetch effect and pointer state), with the one
    \<open>domain\<close> state shared by the fetch effect and the pointer handlers, which see the
    series and scales of the current render; reachable states \<open>comp_reach\<close>. C32: a
    fetch that commits during a drag leaves a stale \<open>panStart\<close>, and the next pointer
    move puts the domain outside the new data.
  \<^item> \<open>AppEntry\<close> (\<^verbatim>\<open>src/src/App.jsx\<close>): the import of the chart component and
    what \<open>App\<close> renders, with the bundler's module resolution as a function of the
    file system's case sensitivity; the lemma \<open>app_import_case\<close> shows the import
    \<open>./LiveSP500canvas\<close> resolves only where names are compared case-insensitively.
  \<^item> This theory: the property that spans the proxy, the client and the chart (C35),
    and the specification's end-to-end scenario.

  \<^bold>\<open>Modelling choices.\<close> JavaScript numbers are exact reals: rounding is not
  modelled, so equalities such as \<open>120 * (1 - 0.2) = 96\<close> hold exactly where the
  program gets them up to floating-point error. NaN and infinities are modelled where the
  code tests for them. \<open>null\<close>/\<open>undefined\<close> results are \<open>None\<close>; a thrown
  exception is a value of the result type (\<open>fetch_error\<close>, a 500 response). React
  state updates are taken to be visible to the next event. The network, \<open>Date.now\<close>,
  \<open>Date.parse\<close> and \<open>Math.random\<close> are arguments of the functions that use them.
  The x-tick loop runs on fuel equal to the code's own guard (5000 iterations), so the
  model and the code stop at the same step. \<open>exp\<close>, \<open>ln\<close> and \<open>sin\<close> are not
  executable, so witnesses in log mode and for zoom reason about them with \<open>simp\<close> and
  bounds such as \<open>1 + x \<le> exp x\<close>.

  \<^bold>\<open>Not modelled.\<close> The presentational attributes of the markup (class names
  of the form, \<open>strokeWidth\<close>, \<open>rx\<close>, \<open>textAnchor\<close>, the React keys, the
  static explanatory paragraph), the browser's locale formatting (an argument of
  \<open>Render\<close>), \<open>Number::toString\<close> for non-integral values (\<open>None\<close> in the
  title, and \<open>toFixed\<close> above \<open>10^21\<close>), \<open>Y_SCALE_OPTIONS\<close> beyond
  \<open>toYMode\<close>, the unused \<open>count\<close> state and the asset imports of \<open>App.jsx\<close>, the React scheduler,
  the mapping of CSS pixels to the SVG viewBox, query values given as arrays, and
  prototype keys of \<open>YAHOO_INTERVAL_MAP\<close>. The view state of theory \<open>Viewport\<close>
  and the domain of the fetch effect are the same React state; \<open>app_state\<close> keeps
  it in \<open>fx_state\<close>, and theory \<open>Component\<close> composes the pointer handlers
  with it.
\<close>

text \<open>The specification's end-to-end scenario: an upstream payload with timestamps
  1000 and 2000 seconds and closes 50 and NaN reaches the client as the one point
  \<open>{time: 1000000, value: 50}\<close>; a one-point synthetic series shows the "No data"
  placeholder rather than a chart.\<close>

theorem end_to_end_spec_scenario:
  "fetch_yahoo_spx ''5d'' ''60m''
     (\<lambda>_. proxy_exchange (spx_handler (Some ''5d'') (Some ''60m'')
            (\<lambda>_. Upstream 200 (Some (yahoo_payload [1000, 2000] [JNum (Num 50), JNum NaN])))))
     = Inr [\<lparr>time = 1000000, value = 50\<rparr>] \<and>
   \<not> chart_shown (build_synthetic_series [\<lparr>time = 1000000, value = 50\<rparr>] 1 (Some 100))"
  by (simp add: spx_handler_def handle_payload_yahoo js_ok_def fetch_yahoo_spx_def proxy_exchange_def
      proxy_spec_def normalize_series_def List.map_filter_def chart_shown_def build_synthetic_series_def)

text \<open>C35: the proxy and the client together refine the data contract: for any payload
  of the documented shape, \<open>fetchYahooSPX\<close> returns the points
  \<open>{time: 1000 t, value: c}\<close> of the finite closing prices, in order, and nothing
  else.\<close>

theorem end_to_end_refinement:
  assumes "js_ok st"
  shows "fetch_yahoo_spx rng ivl
           (\<lambda>_. proxy_exchange (spx_handler q i (\<lambda>_. Upstream st (Some (yahoo_payload ts cs)))))
         = Inr (List.map_filter (\<lambda>(t, c). case c of JNum (Num v) \<Rightarrow> Some \<lparr>time = t * 1000, value = v\<rparr>
                                                 | _ \<Rightarrow> None) (zip ts cs))"
proof -
  have "spx_handler q i (\<lambda>_. Upstream st (Some (yahoo_payload ts cs))) =
          \<lparr>resp_status = 200, resp_body = JObj [(''series'', JArr (proxy_spec ts cs))]\<rparr>"
    using assms by (simp add: spx_handler_def handle_payload_yahoo)
  moreover have "JNull \<notin> set (map json_wire (proxy_spec ts cs))" by (auto simp: proxy_spec_def)
  moreover have "normalize_series (map json_wire (proxy_spec ts cs)) =
      List.map_filter (\<lambda>(t, c). case c of JNum (Num v) \<Rightarrow> Some \<lparr>time = t * 1000, value = v\<rparr>
                                         | _ \<Rightarrow> None) (zip ts cs)"
    unfolding proxy_spec_def by (rule normalize_proxy_points)
  ultimately show ?thesis by (simp add: fetch_yahoo_spx_def proxy_exchange_def js_ok_def)
qed

theorem end_to_end_refinement_witness:
  "fetch_yahoo_spx ''2y'' ''1d''
     (\<lambda>_. proxy_exchange (spx_handler None None
            (\<lambda>_. Upstream 200 (Some (yahoo_payload [1000, 2000, 3000] [JNum (Num 50), JNull, JNum (Num 52)])))))
   = Inr [\<lparr>time = 1000000, value = 50\<rparr>, \<lparr>time = 3000000, value = 52\<rparr>]"
  using end_to_end_refinement [of 200 "''2y''" "''1d''" None None "[1000, 2000, 3000]"
      "[JNum (Num 50), JNull, JNum (Num 52)]"]
  by (simp add: js_ok_def List.map_filter_def)

text \<open>When the start filter leaves at most one point (in particular the empty-result
  scenario, a start after the last point), the synthetic series has at most one point and
  the component renders the "No data to display" placeholder instead of the chart.\<close>

theorem short_series_shows_placeholder:
  assumes "length (filtered_data raw startTs) \<le> 1"
  shows "\<not> chart_shown (build_synthetic_series (filtered_data raw startTs) lev b)"
  using assms by (simp add: chart_shown_def)

theorem short_series_shows_placeholder_witness:
  "\<not> chart_shown (build_synthetic_series
       (filtered_data [\<lparr>time = 1, value = 10\<rparr>, \<lparr>time = 5, value = 11\<rparr>] (Some 9)) 2 (Some 100))"
  by (rule short_series_shows_placeholder) (simp add: filtered_data_def)

end
